theory Spec2Isabelle
  imports Main "HOL-Library.Sublist"
begin

section \<open>Errors, results and the log\<close>

text \<open>
  A thrown JavaScript \<open>Error\<close> is a value: every function of the source that can throw
  (or whose promise can reject) returns \<open>error + 'a\<close>, with \<open>Inl\<close> for the throw.
  The repository throws plain \<open>Error\<close> objects only, told apart by their message.
\<close>

datatype error = Error string

fun errorMessage :: "error \<Rightarrow> string" where
  "errorMessage (Error m) = m"

text \<open>The process-wide logger: each call appends one entry (level, text) to the log.\<close>

datatype log_level = LogDebug | LogInfo | LogWarn | LogError

type_synonym log_entry = "log_level \<times> string"

text \<open>The nullish-coalescing operator \<open>a ?? b\<close> on optional values.\<close>

fun nullish :: "'a option \<Rightarrow> 'a option \<Rightarrow> 'a option" where
  "nullish (Some a) b = Some a"
| "nullish None b = b"

fun nullishOr :: "'a option \<Rightarrow> 'a \<Rightarrow> 'a" where
  "nullishOr (Some a) d = a"
| "nullishOr None d = d"

text \<open>
  \<open>Promise.all(xs.map(f))\<close> and a throwing callback inside \<open>xs.map\<close>: the results in
  the order of the array when every element succeeds, a failure otherwise. When several
  elements fail, the model reports the first one in array order.
\<close>

fun promiseAll :: "(error + 'a) list \<Rightarrow> error + 'a list" where
  "promiseAll [] = Inr []"
| "promiseAll (Inl e # rs) = Inl e"
| "promiseAll (Inr x # rs) = (case promiseAll rs of Inl e \<Rightarrow> Inl e | Inr xs \<Rightarrow> Inr (x # xs))"

text \<open>\<open>Array.prototype.join\<close>.\<close>

fun joinWith :: "string \<Rightarrow> string list \<Rightarrow> string" where
  "joinWith sep [] = []"
| "joinWith sep [x] = x"
| "joinWith sep (x # y # ys) = x @ sep @ joinWith sep (y # ys)"

text \<open>
  \<open>join\<close> and \<open>basename\<close> of \<open>node:path\<close>, for the plain relative segments the
  processors pass: empty and \<open>.\<close> segments vanish, the rest are joined by a slash.
\<close>

definition pathJoin :: "string list \<Rightarrow> string" where
  "pathJoin segs =
     (let kept = filter (\<lambda>s. s \<noteq> [] \<and> s \<noteq> ''.'') segs
      in if kept = [] then ''.'' else joinWith ''/'' kept)"

definition basename :: "string \<Rightarrow> string" where
  "basename p = rev (takeWhile (\<lambda>c. c \<noteq> CHR ''/'') (rev p))"

text \<open>Decimal rendering of a number inside a template literal.\<close>

fun digitChar :: "nat \<Rightarrow> char" where
  "digitChar n = char_of (48 + n)"

function stringOfNat :: "nat \<Rightarrow> string" where
  "stringOfNat n = (if n < 10 then [digitChar n] else stringOfNat (n div 10) @ [digitChar (n mod 10)])"
  by pat_completeness auto
termination
  by (relation "measure id") auto

declare stringOfNat.simps [simp del]

section \<open>The skill adapter registry (skills-processor.ts)\<close>

text \<open>
  The adapter classes the registry refers to. A class reference is a tag; what its static
  methods do is kept apart (see the record of static methods below).
\<close>

datatype skill_class =
    AgentsmdSkill | ClaudecodeSkill | CodexCliSkill | CodexCliSimulatedSkill
  | CopilotSkill | CursorSkill | GeminiCliSkill

record skill_meta =
  supportsProject :: bool
  supportsSimulated :: bool
  supportsGlobal :: bool

text \<open>\<open>ToolSkillFactory\<close>: the field \<open>class\<close> of the source is \<open>skillClass\<close> here.\<close>

record tool_skill_factory =
  skillClass :: skill_class
  projectClass :: "skill_class option"
  meta :: skill_meta

text \<open>\<open>ResolvedToolSkillFactory\<close>, polymorphic in what stands for a class.\<close>

record 'c resolved_tool_skill_factory =
  resolvedClass :: 'c
  resolvedMeta :: skill_meta

definition toolSkillFactories :: "(string \<times> tool_skill_factory) list" where
  "toolSkillFactories =
    [(''agentsmd'',
        \<lparr>skillClass = AgentsmdSkill, projectClass = None,
         meta = \<lparr>supportsProject = True, supportsSimulated = True, supportsGlobal = False\<rparr>\<rparr>),
     (''claudecode'',
        \<lparr>skillClass = ClaudecodeSkill, projectClass = None,
         meta = \<lparr>supportsProject = True, supportsSimulated = False, supportsGlobal = True\<rparr>\<rparr>),
     (''codexcli'',
        \<lparr>skillClass = CodexCliSkill, projectClass = Some CodexCliSimulatedSkill,
         meta = \<lparr>supportsProject = True, supportsSimulated = True, supportsGlobal = True\<rparr>\<rparr>),
     (''copilot'',
        \<lparr>skillClass = CopilotSkill, projectClass = None,
         meta = \<lparr>supportsProject = True, supportsSimulated = True, supportsGlobal = False\<rparr>\<rparr>),
     (''cursor'',
        \<lparr>skillClass = CursorSkill, projectClass = None,
         meta = \<lparr>supportsProject = True, supportsSimulated = True, supportsGlobal = False\<rparr>\<rparr>),
     (''geminicli'',
        \<lparr>skillClass = GeminiCliSkill, projectClass = None,
         meta = \<lparr>supportsProject = True, supportsSimulated = True, supportsGlobal = False\<rparr>\<rparr>)]"

text \<open>
  \<open>Map.prototype.get\<close> on a map built from an entry list. The keys of both registries
  are distinct, so the first entry found is the only one.
\<close>

definition mapGet :: "(string \<times> 'v) list \<Rightarrow> string \<Rightarrow> 'v option" where
  "mapGet entries k = map_of entries k"

definition defaultGetFactory :: "string \<Rightarrow> bool \<Rightarrow> error + skill_class resolved_tool_skill_factory" where
  "defaultGetFactory target global =
     (case mapGet toolSkillFactories target of
        None \<Rightarrow> Inl (Error (''Unsupported tool target: '' @ target))
      | Some factory \<Rightarrow>
          (let selectedClass =
                 (if global then skillClass factory
                  else nullishOr (projectClass factory) (skillClass factory))
           in Inr \<lparr>resolvedClass = selectedClass, resolvedMeta = meta factory\<rparr>))"

definition allToolTargetKeys :: "string list" where
  "allToolTargetKeys = map fst toolSkillFactories"

definition skillsProcessorToolTargetsProject :: "string list" where
  "skillsProcessorToolTargetsProject =
     filter (\<lambda>target. case mapGet toolSkillFactories target of
                         None \<Rightarrow> True | Some factory \<Rightarrow> supportsProject (meta factory))
            allToolTargetKeys"

definition skillsProcessorToolTargetsSimulated :: "string list" where
  "skillsProcessorToolTargetsSimulated =
     filter (\<lambda>target. case mapGet toolSkillFactories target of
                         None \<Rightarrow> False | Some factory \<Rightarrow> supportsSimulated (meta factory))
            allToolTargetKeys"

definition skillsProcessorToolTargetsGlobal :: "string list" where
  "skillsProcessorToolTargetsGlobal =
     filter (\<lambda>target. case mapGet toolSkillFactories target of
                         None \<Rightarrow> False | Some factory \<Rightarrow> supportsGlobal (meta factory))
            allToolTargetKeys"

text \<open>\<open>SkillsProcessor.getToolTargets\<close> and its two siblings.\<close>

definition skillsGetToolTargets :: "bool \<Rightarrow> bool \<Rightarrow> string list" where
  "skillsGetToolTargets global includeSimulated =
     (if global then skillsProcessorToolTargetsGlobal
      else if \<not> includeSimulated
        then filter (\<lambda>target. target \<notin> set skillsProcessorToolTargetsSimulated)
                    skillsProcessorToolTargetsProject
      else skillsProcessorToolTargetsProject)"

definition skillsGetToolTargetsSimulated :: "string list" where
  "skillsGetToolTargetsSimulated = skillsProcessorToolTargetsSimulated"

definition skillsGetToolTargetsGlobal :: "string list" where
  "skillsGetToolTargetsGlobal = skillsProcessorToolTargetsGlobal"

section \<open>Configuration (config.ts, config-resolver.ts)\<close>

text \<open>
  \<open>PartialConfigParams\<close>: every option of the schema, each possibly undefined. The
  parameters of \<open>ConfigResolver.resolve\<close> add \<open>configPath\<close>.
\<close>

record partial_config_params =
  p_baseDirs :: "string list option"
  p_targets :: "string list option"
  p_features :: "string list option"
  p_verbose :: "bool option"
  p_delete :: "bool option"
  p_global :: "bool option"
  p_simulateCommands :: "bool option"
  p_simulateSubagents :: "bool option"
  p_simulateSkills :: "bool option"
  p_modularMcp :: "bool option"
  p_experimentalGlobal :: "bool option"
  p_experimentalSimulateCommands :: "bool option"
  p_experimentalSimulateSubagents :: "bool option"

record resolve_params = partial_config_params +
  p_configPath :: "string option"

text \<open>\<open>ConfigParams\<close>, the argument of the constructor of \<open>Config\<close>.\<close>

record config_params =
  cp_baseDirs :: "string list"
  cp_targets :: "string list"
  cp_features :: "string list"
  cp_verbose :: bool
  cp_delete :: bool
  cp_global :: "bool option"
  cp_simulateCommands :: "bool option"
  cp_simulateSubagents :: "bool option"
  cp_simulateSkills :: "bool option"
  cp_modularMcp :: "bool option"
  cp_experimentalGlobal :: "bool option"
  cp_experimentalSimulateCommands :: "bool option"
  cp_experimentalSimulateSubagents :: "bool option"

text \<open>The private fields of a \<open>Config\<close>; the getters of the class are the selectors.\<close>

record config =
  getBaseDirs :: "string list"
  configTargets :: "string list"
  configFeatures :: "string list"
  getVerbose :: bool
  getDelete :: bool
  getGlobal :: bool
  getSimulateCommands :: bool
  getSimulateSubagents :: bool
  getSimulateSkills :: bool
  getModularMcp :: bool

definition newConfig :: "config_params \<Rightarrow> config" where
  "newConfig ps =
     \<lparr>getBaseDirs = cp_baseDirs ps,
      configTargets = cp_targets ps,
      configFeatures = cp_features ps,
      getVerbose = cp_verbose ps,
      getDelete = cp_delete ps,
      getGlobal = nullishOr (nullish (cp_global ps) (cp_experimentalGlobal ps)) False,
      getSimulateCommands =
        nullishOr (nullish (cp_simulateCommands ps) (cp_experimentalSimulateCommands ps)) False,
      getSimulateSubagents =
        nullishOr (nullish (cp_simulateSubagents ps) (cp_experimentalSimulateSubagents ps)) False,
      getSimulateSkills = nullishOr (cp_simulateSkills ps) False,
      getModularMcp = nullishOr (cp_modularMcp ps) False\<rparr>"

text \<open>
  What \<open>resolve\<close> reads from outside: the working and home directories, the file-system
  helpers of \<open>utils/file.ts\<close>, the JSONC parser followed by the schema check (with
  \<open>$schema\<close> dropped), and \<open>formatError\<close>. None of them is in the repository part
  under study, so they are parameters.
\<close>

record config_env =
  ce_cwd :: string
  ce_homeDirectory :: string
  ce_resolvePath :: "string \<Rightarrow> string \<Rightarrow> error + string"
  ce_fileExists :: "string \<Rightarrow> bool"
  ce_readFileContent :: "string \<Rightarrow> error + string"
  ce_parseConfigFile :: "string \<Rightarrow> error + partial_config_params"
  ce_pathResolve :: "string \<Rightarrow> string"
  ce_validateBaseDir :: "string \<Rightarrow> error option"
  ce_formatError :: "error \<Rightarrow> string"

definition emptyConfigParams :: partial_config_params where
  "emptyConfigParams =
     \<lparr>p_baseDirs = None, p_targets = None, p_features = None, p_verbose = None,
      p_delete = None, p_global = None, p_simulateCommands = None,
      p_simulateSubagents = None, p_simulateSkills = None, p_modularMcp = None,
      p_experimentalGlobal = None, p_experimentalSimulateCommands = None,
      p_experimentalSimulateSubagents = None\<rparr>"

text \<open>\<open>getDefaults()\<close>, the fields that \<open>resolve\<close> reads.\<close>

definition defaultTargets :: "string list" where "defaultTargets = [''agentsmd'']"
definition defaultFeatures :: "string list" where "defaultFeatures = [''rules'']"
definition defaultConfigPath :: string where "defaultConfigPath = ''rulesync.jsonc''"

definition warnDeprecatedOptions :: "bool option \<Rightarrow> bool option \<Rightarrow> bool option \<Rightarrow> log_entry list" where
  "warnDeprecatedOptions experimentalGlobal experimentalSimulateCommands experimentalSimulateSubagents =
     (if experimentalGlobal \<noteq> None
      then [(LogWarn, [CHR 0x27] @ ''experimentalGlobal'' @ [CHR 0x27] @
               '' option is deprecated. Please use '' @ [CHR 0x27] @ ''global'' @ [CHR 0x27] @ '' instead.'')]
      else []) @
     (if experimentalSimulateCommands \<noteq> None
      then [(LogWarn, [CHR 0x27] @ ''experimentalSimulateCommands'' @ [CHR 0x27] @
               '' option is deprecated. Please use '' @ [CHR 0x27] @ ''simulateCommands'' @ [CHR 0x27] @ '' instead.'')]
      else []) @
     (if experimentalSimulateSubagents \<noteq> None
      then [(LogWarn, [CHR 0x27] @ ''experimentalSimulateSubagents'' @ [CHR 0x27] @
               '' option is deprecated. Please use '' @ [CHR 0x27] @ ''simulateSubagents'' @ [CHR 0x27] @ '' instead.'')]
      else [])"

text \<open>\<open>baseDirs.forEach(validateBaseDir)\<close>: the first directory refused throws.\<close>

fun validateAll :: "(string \<Rightarrow> error option) \<Rightarrow> string list \<Rightarrow> error option" where
  "validateAll v [] = None"
| "validateAll v (d # ds) = (case v d of Some e \<Rightarrow> Some e | None \<Rightarrow> validateAll v ds)"

definition getBaseDirsInLightOfGlobal :: "config_env \<Rightarrow> string list \<Rightarrow> bool \<Rightarrow> error + string list" where
  "getBaseDirsInLightOfGlobal env baseDirs global =
     (if global then Inr [ce_homeDirectory env]
      else (let resolvedBaseDirs = map (ce_pathResolve env) baseDirs
            in case validateAll (ce_validateBaseDir env) resolvedBaseDirs of
                 Some e \<Rightarrow> Inl e
               | None \<Rightarrow> Inr resolvedBaseDirs))"

text \<open>
  Reading the configuration file: an empty object when the file does not exist; a read,
  parse or schema failure is logged and thrown again.
\<close>

definition loadConfigByFile :: "config_env \<Rightarrow> string \<Rightarrow> log_entry list \<times> (error + partial_config_params)" where
  "loadConfigByFile env validatedConfigPath =
     (if ce_fileExists env validatedConfigPath
      then (case (case ce_readFileContent env validatedConfigPath of
                    Inl e \<Rightarrow> Inl e
                  | Inr fileContent \<Rightarrow> ce_parseConfigFile env fileContent) of
              Inl e \<Rightarrow> ([(LogError, ''Failed to load config file: '' @ ce_formatError env e)], Inl e)
            | Inr configParams \<Rightarrow> ([], Inr configParams))
      else ([], Inr emptyConfigParams))"

text \<open>
  The body of \<open>resolve\<close> after the configuration file is read: the warnings, the
  fallback chains, and the construction of the \<open>Config\<close>.
\<close>

definition resolveWith :: "config_env \<Rightarrow> resolve_params \<Rightarrow> partial_config_params \<Rightarrow> log_entry list \<times> (error + config)" where
  "resolveWith env ps configByFile =
     (let deprecatedGlobal = nullish (p_experimentalGlobal ps) (p_experimentalGlobal configByFile);
          deprecatedCommands =
            nullish (p_experimentalSimulateCommands ps) (p_experimentalSimulateCommands configByFile);
          deprecatedSubagents =
            nullish (p_experimentalSimulateSubagents ps) (p_experimentalSimulateSubagents configByFile);
          warnings =
            (if deprecatedGlobal \<noteq> None then warnDeprecatedOptions deprecatedGlobal None None else []) @
            (if deprecatedCommands \<noteq> None then warnDeprecatedOptions None deprecatedCommands None else []) @
            (if deprecatedSubagents \<noteq> None then warnDeprecatedOptions None None deprecatedSubagents else []);
          resolvedGlobal =
            nullishOr (nullish (nullish (nullish (p_global ps) (p_global configByFile))
                                        (p_experimentalGlobal ps))
                               (p_experimentalGlobal configByFile)) False;
          resolvedSimulateCommands =
            nullishOr (nullish (nullish (nullish (p_simulateCommands ps) (p_simulateCommands configByFile))
                                        (p_experimentalSimulateCommands ps))
                               (p_experimentalSimulateCommands configByFile)) False;
          resolvedSimulateSubagents =
            nullishOr (nullish (nullish (nullish (p_simulateSubagents ps) (p_simulateSubagents configByFile))
                                        (p_experimentalSimulateSubagents ps))
                               (p_experimentalSimulateSubagents configByFile)) False;
          resolvedSimulateSkills =
            nullishOr (nullish (p_simulateSkills ps) (p_simulateSkills configByFile)) False
      in case getBaseDirsInLightOfGlobal env
                (nullishOr (nullish (p_baseDirs ps) (p_baseDirs configByFile)) [ce_cwd env])
                resolvedGlobal of
           Inl e \<Rightarrow> (warnings, Inl e)
         | Inr dirs \<Rightarrow>
             (warnings,
              Inr (newConfig
                \<lparr>cp_baseDirs = dirs,
                 cp_targets = nullishOr (nullish (p_targets ps) (p_targets configByFile)) defaultTargets,
                 cp_features = nullishOr (nullish (p_features ps) (p_features configByFile)) defaultFeatures,
                 cp_verbose = nullishOr (nullish (p_verbose ps) (p_verbose configByFile)) False,
                 cp_delete = nullishOr (nullish (p_delete ps) (p_delete configByFile)) False,
                 cp_global = Some resolvedGlobal,
                 cp_simulateCommands = Some resolvedSimulateCommands,
                 cp_simulateSubagents = Some resolvedSimulateSubagents,
                 cp_simulateSkills = Some resolvedSimulateSkills,
                 cp_modularMcp = Some (nullishOr (nullish (p_modularMcp ps) (p_modularMcp configByFile)) False),
                 cp_experimentalGlobal = None,
                 cp_experimentalSimulateCommands = None,
                 cp_experimentalSimulateSubagents = None\<rparr>)))"

definition resolve :: "config_env \<Rightarrow> resolve_params \<Rightarrow> log_entry list \<times> (error + config)" where
  "resolve env ps =
     (case ce_resolvePath env (nullishOr (p_configPath ps) defaultConfigPath) (ce_cwd env) of
        Inl e \<Rightarrow> ([], Inl e)
      | Inr validatedConfigPath \<Rightarrow>
          (case loadConfigByFile env validatedConfigPath of
             (logs, Inl e) \<Rightarrow> (logs, Inl e)
           | (logs, Inr configByFile) \<Rightarrow>
               (let (logs', r) = resolveWith env ps configByFile in (logs @ logs', r))))"

text \<open>
  The option-migration rule in the words of the specification: an ordered list of sources
  per option, the first defined one wins, a default when none is defined.
\<close>

fun specFirstDefinedWins :: "'a option list \<Rightarrow> 'a \<Rightarrow> 'a" where
  "specFirstDefinedWins [] d = d"
| "specFirstDefinedWins (Some a # rest) d = a"
| "specFirstDefinedWins (None # rest) d = specFirstDefinedWins rest d"

text \<open>
  The deprecation warnings in the words of the specification: one warning for each
  deprecated option that is defined by the command line or by the configuration file,
  whether or not its value is the one used.
\<close>

definition specDeprecationWarnings :: "resolve_params \<Rightarrow> partial_config_params \<Rightarrow> log_entry list" where
  "specDeprecationWarnings ps cf =
     (if p_experimentalGlobal ps \<noteq> None \<or> p_experimentalGlobal cf \<noteq> None
      then [(LogWarn, [CHR 0x27] @ ''experimentalGlobal'' @ [CHR 0x27] @
               '' option is deprecated. Please use '' @ [CHR 0x27] @ ''global'' @ [CHR 0x27] @ '' instead.'')]
      else []) @
     (if p_experimentalSimulateCommands ps \<noteq> None \<or> p_experimentalSimulateCommands cf \<noteq> None
      then [(LogWarn, [CHR 0x27] @ ''experimentalSimulateCommands'' @ [CHR 0x27] @
               '' option is deprecated. Please use '' @ [CHR 0x27] @ ''simulateCommands'' @ [CHR 0x27] @ '' instead.'')]
      else []) @
     (if p_experimentalSimulateSubagents ps \<noteq> None \<or> p_experimentalSimulateSubagents cf \<noteq> None
      then [(LogWarn, [CHR 0x27] @ ''experimentalSimulateSubagents'' @ [CHR 0x27] @
               '' option is deprecated. Please use '' @ [CHR 0x27] @ ''simulateSubagents'' @ [CHR 0x27] @ '' instead.'')]
      else [])"

text \<open>A sample environment and a sample call, for evaluation.\<close>

definition sampleConfigEnv :: config_env where
  "sampleConfigEnv =
     \<lparr>ce_cwd = ''/work'', ce_homeDirectory = ''/home/u'',
      ce_resolvePath = (\<lambda>p base. Inr (base @ ''/'' @ p)),
      ce_fileExists = (\<lambda>p. True),
      ce_readFileContent = (\<lambda>p. Inr ''{}''),
      ce_parseConfigFile = (\<lambda>content. Inr (emptyConfigParams
          \<lparr>p_global := Some False, p_experimentalGlobal := Some True\<rparr>)),
      ce_pathResolve = (\<lambda>d. d),
      ce_validateBaseDir = (\<lambda>d. None),
      ce_formatError = errorMessage\<rparr>"

definition sampleResolveParams :: resolve_params where
  "sampleResolveParams =
     partial_config_params.extend
       (emptyConfigParams\<lparr>p_experimentalSimulateCommands := Some True\<rparr>)
       (resolve_params.fields None)"

section \<open>The skills processor (skills-processor.ts, codexcli-simulated-skill.ts)\<close>

subsection \<open>Canonical skills and tool skills\<close>

text \<open>
  A \<open>RulesyncSkill\<close>, the canonical skill. An absent \<open>targets\<close> key of the frontmatter
  stands for all tools, so the document always carries a list of targets.
\<close>

record rulesync_skill =
  rs_baseDir :: string
  rs_dirName :: string
  rs_name :: string
  rs_description :: string
  rs_targets :: "string list"
  rs_body :: string

text \<open>
  A \<open>ToolSkill\<close> instance. The two constructors are the two families of adapters: what
  \<open>instanceof SimulatedSkill\<close> tests is the constructor.
\<close>

record skill_fields =
  sk_class :: skill_class
  sk_baseDir :: string
  sk_relativeDirPath :: string
  sk_dirName :: string
  sk_name :: string
  sk_description :: string
  sk_body :: string

datatype tool_skill = NativeSkill skill_fields | SimulatedSkill skill_fields

fun skillFields :: "tool_skill \<Rightarrow> skill_fields" where
  "skillFields (NativeSkill f) = f"
| "skillFields (SimulatedSkill f) = f"

fun instanceofSimulatedSkill :: "tool_skill \<Rightarrow> bool" where
  "instanceofSimulatedSkill (SimulatedSkill f) = True"
| "instanceofSimulatedSkill (NativeSkill f) = False"

text \<open>The \<open>AiDir\<close> values a processor is handed: canonical skills, tool skills, anything else.\<close>

datatype ai_dir = RulesyncSkillDir rulesync_skill | ToolSkillDir tool_skill | OtherDir string

text \<open>
  Modelled from the spec: \<open>getDirPath\<close> (a method of the absent class \<open>AiDir\<close>): the
  path of the directory of a document, joined from its base directory, its relative
  directory path and its directory name.
\<close>

definition getDirPath :: "tool_skill \<Rightarrow> string" where
  "getDirPath toolSkill =
     pathJoin [sk_baseDir (skillFields toolSkill), sk_relativeDirPath (skillFields toolSkill),
               sk_dirName (skillFields toolSkill)]"

text \<open>
  Modelled from the spec: \<open>toRulesyncSkill\<close>, the reverse conversion (simulated-skill.ts and
  the native adapter classes are not among the sources; the test of
  \<open>CodexCliSimulatedSkill\<close> gives the message). A Simulated variant always fails with the
  fixed error; a Native variant gives back name, description and body.
\<close>

fun toRulesyncSkill :: "tool_skill \<Rightarrow> error + rulesync_skill" where
  "toRulesyncSkill (SimulatedSkill f) =
     Inl (Error ''Not implemented because it is a SIMULATED skill.'')"
| "toRulesyncSkill (NativeSkill f) =
     Inr \<lparr>rs_baseDir = sk_baseDir f, rs_dirName = sk_dirName f, rs_name = sk_name f,
          rs_description = sk_description f, rs_targets = [''*''], rs_body = sk_body f\<rparr>"

text \<open>
  Modelled from the spec: \<open>isTargetedByRulesyncSkillDefault\<close> (tool-skill.ts is not among the
  sources): true if the targets of the document include the wildcard or the identifier
  of the tool.
\<close>

definition isTargetedByRulesyncSkillDefault :: "string \<Rightarrow> rulesync_skill \<Rightarrow> bool" where
  "isTargetedByRulesyncSkillDefault toolTarget rulesyncSkill =
     (''*'' \<in> set (rs_targets rulesyncSkill) \<or> toolTarget \<in> set (rs_targets rulesyncSkill))"

subsection \<open>The static side of an adapter class\<close>

record from_rulesync_skill_params =
  frs_rulesyncSkill :: rulesync_skill
  frs_global :: bool

record from_dir_params =
  fd_baseDir :: string
  fd_dirName :: string
  fd_global :: bool

text \<open>
  \<open>ToolSkillClass\<close>: the four static methods. \<open>getSettablePaths\<close> takes the \<open>global\<close>
  option (absent means false) and returns \<open>relativeDirPath\<close>.
\<close>

record tool_skill_class =
  isTargetedByRulesyncSkill :: "rulesync_skill \<Rightarrow> bool"
  fromRulesyncSkill :: "from_rulesync_skill_params \<Rightarrow> error + tool_skill"
  fromDir :: "from_dir_params \<Rightarrow> error + tool_skill"
  getSettablePaths :: "bool \<Rightarrow> error + string"

text \<open>
  Modelled from the spec: \<open>fromRulesyncSkillDefault\<close> (a method of the absent parent class):
  the fields of the tool skill built from a canonical one, before the adapter sets its
  directory.
\<close>

definition fromRulesyncSkillDefault :: "skill_class \<Rightarrow> from_rulesync_skill_params \<Rightarrow> skill_fields" where
  "fromRulesyncSkillDefault c params =
     \<lparr>sk_class = c,
      sk_baseDir = rs_baseDir (frs_rulesyncSkill params),
      sk_relativeDirPath = [],
      sk_dirName = rs_dirName (frs_rulesyncSkill params),
      sk_name = rs_name (frs_rulesyncSkill params),
      sk_description = rs_description (frs_rulesyncSkill params),
      sk_body = rs_body (frs_rulesyncSkill params)\<rparr>"

text \<open>
  \<open>CodexCliSimulatedSkill\<close>, the one adapter class among the sources. \<open>fromDirDefault\<close>,
  which reads the directory, belongs to the absent parent class and is a parameter.
\<close>

definition codexCliSimulatedSkill_getSettablePaths :: "bool \<Rightarrow> error + string" where
  "codexCliSimulatedSkill_getSettablePaths global =
     (if global then Inl (Error ''CodexCliSimulatedSkill does not support global mode.'')
      else Inr (pathJoin [''.codex'', ''skills'']))"

definition codexCliSimulatedSkill_fromDir ::
    "(from_dir_params \<Rightarrow> error + skill_fields) \<Rightarrow> from_dir_params \<Rightarrow> error + tool_skill" where
  "codexCliSimulatedSkill_fromDir fromDirDefault params =
     (case fromDirDefault params of
        Inl e \<Rightarrow> Inl e
      | Inr baseParams \<Rightarrow> Inr (SimulatedSkill baseParams))"

definition codexCliSimulatedSkill_fromRulesyncSkill :: "from_rulesync_skill_params \<Rightarrow> error + tool_skill" where
  "codexCliSimulatedSkill_fromRulesyncSkill params =
     (case codexCliSimulatedSkill_getSettablePaths False of
        Inl e \<Rightarrow> Inl e
      | Inr relativeDirPath \<Rightarrow>
          Inr (SimulatedSkill
                ((fromRulesyncSkillDefault CodexCliSimulatedSkill params)
                   \<lparr>sk_relativeDirPath := relativeDirPath\<rparr>)))"

definition codexCliSimulatedSkill_isTargetedByRulesyncSkill :: "rulesync_skill \<Rightarrow> bool" where
  "codexCliSimulatedSkill_isTargetedByRulesyncSkill rulesyncSkill =
     isTargetedByRulesyncSkillDefault ''codexcli'' rulesyncSkill"

definition codexCliSimulatedSkillClass ::
    "(from_dir_params \<Rightarrow> error + skill_fields) \<Rightarrow> tool_skill_class" where
  "codexCliSimulatedSkillClass fromDirDefault =
     \<lparr>isTargetedByRulesyncSkill = codexCliSimulatedSkill_isTargetedByRulesyncSkill,
      fromRulesyncSkill = codexCliSimulatedSkill_fromRulesyncSkill,
      fromDir = codexCliSimulatedSkill_fromDir fromDirDefault,
      getSettablePaths = codexCliSimulatedSkill_getSettablePaths\<rparr>"

subsection \<open>The processor\<close>

text \<open>
  The fields of a \<open>SkillsProcessor\<close>. \<open>getFactory\<close> is injected (the default is
  \<open>defaultGetFactory\<close>). What the processor reads from outside is a parameter of its
  methods: the static methods of each adapter class and the directory listing.
\<close>

record skills_processor =
  sp_baseDir :: string
  sp_toolTarget :: string
  sp_global :: bool
  sp_getFactory :: "string \<Rightarrow> bool \<Rightarrow> error + skill_class resolved_tool_skill_factory"

record skills_env =
  se_statics :: "skill_class \<Rightarrow> tool_skill_class"
  se_findDirsByGlobs :: "string \<Rightarrow> error + string list"

fun filterRulesyncSkills :: "ai_dir list \<Rightarrow> rulesync_skill list" where
  "filterRulesyncSkills [] = []"
| "filterRulesyncSkills (RulesyncSkillDir s # ds) = s # filterRulesyncSkills ds"
| "filterRulesyncSkills (d # ds) = filterRulesyncSkills ds"

fun filterToolSkills :: "ai_dir list \<Rightarrow> tool_skill list" where
  "filterToolSkills [] = []"
| "filterToolSkills (ToolSkillDir s # ds) = s # filterToolSkills ds"
| "filterToolSkills (d # ds) = filterToolSkills ds"

text \<open>\<open>.filter((x) => x !== null)\<close>.\<close>

fun filterNotNull :: "'a option list \<Rightarrow> 'a list" where
  "filterNotNull [] = []"
| "filterNotNull (None # xs) = filterNotNull xs"
| "filterNotNull (Some x # xs) = x # filterNotNull xs"

definition convertRulesyncDirsToToolDirs ::
    "skills_env \<Rightarrow> skills_processor \<Rightarrow> ai_dir list \<Rightarrow> error + ai_dir list" where
  "convertRulesyncDirsToToolDirs env p rulesyncDirs =
     (let rulesyncSkills = filterRulesyncSkills rulesyncDirs
      in case sp_getFactory p (sp_toolTarget p) (sp_global p) of
           Inl e \<Rightarrow> Inl e
         | Inr factory \<Rightarrow>
             (case promiseAll
                     (map (\<lambda>rulesyncSkill.
                             if \<not> isTargetedByRulesyncSkill (se_statics env (resolvedClass factory)) rulesyncSkill
                             then Inr None
                             else map_sum id Some
                                    (fromRulesyncSkill (se_statics env (resolvedClass factory))
                                       \<lparr>frs_rulesyncSkill = rulesyncSkill, frs_global = sp_global p\<rparr>))
                          rulesyncSkills) of
                Inl e \<Rightarrow> Inl e
              | Inr toolSkills \<Rightarrow> Inr (map ToolSkillDir (filterNotNull toolSkills))))"

text \<open>
  The loop of \<open>convertToolDirsToRulesyncDirs\<close>: a simulated skill is skipped with a debug
  note, any other one is converted back; a conversion that throws ends the loop.
\<close>

fun convertToolSkillsLoop :: "tool_skill list \<Rightarrow> log_entry list \<times> (error + rulesync_skill list)" where
  "convertToolSkillsLoop [] = ([], Inr [])"
| "convertToolSkillsLoop (toolSkill # rest) =
     (if instanceofSimulatedSkill toolSkill
      then (case convertToolSkillsLoop rest of
              (logs, r) \<Rightarrow>
                ((LogDebug, ''Skipping simulated skill conversion: '' @ getDirPath toolSkill) # logs, r))
      else (case toRulesyncSkill toolSkill of
              Inl e \<Rightarrow> ([], Inl e)
            | Inr rulesyncSkill \<Rightarrow>
                (case convertToolSkillsLoop rest of
                   (logs, Inl e) \<Rightarrow> (logs, Inl e)
                 | (logs, Inr rulesyncSkills) \<Rightarrow> (logs, Inr (rulesyncSkill # rulesyncSkills)))))"

definition convertToolDirsToRulesyncDirs :: "ai_dir list \<Rightarrow> log_entry list \<times> (error + ai_dir list)" where
  "convertToolDirsToRulesyncDirs toolDirs =
     (case convertToolSkillsLoop (filterToolSkills toolDirs) of
        (logs, Inl e) \<Rightarrow> (logs, Inl e)
      | (logs, Inr rulesyncSkills) \<Rightarrow> (logs, Inr (map RulesyncSkillDir rulesyncSkills)))"

definition loadToolDirs :: "skills_env \<Rightarrow> skills_processor \<Rightarrow> log_entry list \<times> (error + ai_dir list)" where
  "loadToolDirs env p =
     (case sp_getFactory p (sp_toolTarget p) (sp_global p) of
        Inl e \<Rightarrow> ([], Inl e)
      | Inr factory \<Rightarrow>
          (case getSettablePaths (se_statics env (resolvedClass factory)) (sp_global p) of
             Inl e \<Rightarrow> ([], Inl e)
           | Inr relativeDirPath \<Rightarrow>
               (case se_findDirsByGlobs env (pathJoin [pathJoin [sp_baseDir p, relativeDirPath], ''*'']) of
                  Inl e \<Rightarrow> ([], Inl e)
                | Inr dirPaths \<Rightarrow>
                    (case promiseAll
                            (map (\<lambda>dirName.
                                    fromDir (se_statics env (resolvedClass factory))
                                      \<lparr>fd_baseDir = sp_baseDir p, fd_dirName = dirName,
                                       fd_global = sp_global p\<rparr>)
                                 (map basename dirPaths)) of
                       Inl e \<Rightarrow> ([], Inl e)
                     | Inr toolSkills \<Rightarrow>
                         ([(LogInfo, ''Successfully loaded '' @ stringOfNat (length toolSkills) @ '' '' @
                                      relativeDirPath @ '' skills'')],
                          Inr (map ToolSkillDir toolSkills))))))"

definition loadToolDirsToDelete :: "skills_env \<Rightarrow> skills_processor \<Rightarrow> log_entry list \<times> (error + ai_dir list)" where
  "loadToolDirsToDelete env p = loadToolDirs env p"

section \<open>The rules processor (rules-processor.ts)\<close>

subsection \<open>Canonical rules and tool rules\<close>

record rulesync_rule_frontmatter =
  fm_root :: "bool option"
  fm_targets :: "string list"
  fm_description :: "string option"
  fm_globs :: "string list option"

record rulesync_rule =
  rr_relativeFilePath :: string
  rr_frontmatter :: rulesync_rule_frontmatter
  rr_body :: string

text \<open>Truthiness of the optional boolean \<open>getFrontmatter().root\<close>.\<close>

definition isRootRulesyncRule :: "rulesync_rule \<Rightarrow> bool" where
  "isRootRulesyncRule rule = (fm_root (rr_frontmatter rule) = Some True)"

datatype rule_class =
    AgentsMdRule | AmazonQCliRule | AntigravityRule | AugmentcodeRule | AugmentcodeLegacyRule
  | ClaudecodeRule | ClineRule | CodexcliRule | CopilotRule | CursorRule | GeminiCliRule
  | JunieRule | KiroRule | OpenCodeRule | QwencodeRule | RooRule | WarpRule | WindsurfRule

text \<open>
  A \<open>ToolRule\<close> instance, as far as the processor observes it: the getters
  \<open>isRoot()\<close>, \<open>getFileContent()\<close>, \<open>getDescription()\<close>, \<open>getGlobs()\<close>, and the
  frontmatter of \<open>toRulesyncRule()\<close>. \<open>setFileContent\<close> updates \<open>tr_fileContent\<close>.
\<close>

record tool_rule =
  tr_class :: rule_class
  tr_baseDir :: string
  tr_relativeDirPath :: string
  tr_relativeFilePath :: string
  tr_fileContent :: string
  tr_root :: bool
  tr_description :: "string option"
  tr_globs :: "string list option"
  tr_rulesyncFrontmatter :: rulesync_rule_frontmatter

datatype rulesync_file = RulesyncRuleFile rulesync_rule | OtherRulesyncFile string

datatype tool_file = ToolRuleFile tool_rule | OtherToolFile string

text \<open>
  Modelled from the spec: \<open>getRelativePathFromCwd\<close> (a method of the absent class
  \<open>AiFile\<close>): the path of the document, its directory joined with its file name.
\<close>

definition getRelativePathFromCwd :: "tool_rule \<Rightarrow> string" where
  "getRelativePathFromCwd toolRule =
     pathJoin [tr_relativeDirPath toolRule, tr_relativeFilePath toolRule]"

text \<open>
  Modelled from the spec: \<open>isTargetedByRulesyncRuleDefault\<close> (tool-rule.ts is not among the
  sources): true if the targets of the document include the wildcard or the identifier
  of the tool.
\<close>

definition isTargetedByRulesyncRuleDefault :: "string \<Rightarrow> rulesync_rule \<Rightarrow> bool" where
  "isTargetedByRulesyncRuleDefault toolTarget rulesyncRule =
     (''*'' \<in> set (fm_targets (rr_frontmatter rulesyncRule))
      \<or> toolTarget \<in> set (fm_targets (rr_frontmatter rulesyncRule)))"

subsection \<open>The static side of an adapter class, the registry\<close>

record rule_settable_root =
  sr_relativeDirPath :: "string option"
  sr_relativeFilePath :: string

text \<open>\<open>ToolRuleSettablePaths\<close>: of \<open>nonRoot\<close> the processor reads \<open>relativeDirPath\<close> only.\<close>

record rule_settable_paths =
  st_root :: "rule_settable_root option"
  st_nonRoot :: "string option"

record from_rulesync_rule_params =
  frr_baseDir :: string
  frr_rulesyncRule :: rulesync_rule
  frr_validate :: bool
  frr_global :: bool

record from_file_params =
  ff_baseDir :: string
  ff_relativeFilePath :: string
  ff_global :: bool

record tool_rule_class =
  isTargetedByRulesyncRule :: "rulesync_rule \<Rightarrow> bool"
  fromRulesyncRule :: "from_rulesync_rule_params \<Rightarrow> error + tool_rule"
  fromFile :: "from_file_params \<Rightarrow> error + tool_rule"
  ruleGetSettablePaths :: "bool \<Rightarrow> error + rule_settable_paths"

text \<open>\<open>ToolRuleFactory\<close>: the field \<open>class\<close> is \<open>ruleClass\<close>, \<open>meta.extension\<close> is \<open>extension\<close>.\<close>

record tool_rule_factory =
  ruleClass :: rule_class
  extension :: string

definition rulesProcessorToolTargets :: "string list" where
  "rulesProcessorToolTargets =
     [''agentsmd'', ''amazonqcli'', ''antigravity'', ''augmentcode'', ''augmentcode-legacy'',
      ''claudecode'', ''cline'', ''codexcli'', ''copilot'', ''cursor'', ''geminicli'', ''junie'',
      ''kiro'', ''opencode'', ''qwencode'', ''roo'', ''warp'', ''windsurf'']"

definition rulesProcessorToolTargetsGlobal :: "string list" where
  "rulesProcessorToolTargetsGlobal = [''claudecode'', ''codexcli'', ''geminicli'']"

definition toolRuleFactories :: "(string \<times> tool_rule_factory) list" where
  "toolRuleFactories =
    [(''agentsmd'', \<lparr>ruleClass = AgentsMdRule, extension = ''md''\<rparr>),
     (''amazonqcli'', \<lparr>ruleClass = AmazonQCliRule, extension = ''md''\<rparr>),
     (''antigravity'', \<lparr>ruleClass = AntigravityRule, extension = ''md''\<rparr>),
     (''augmentcode'', \<lparr>ruleClass = AugmentcodeRule, extension = ''md''\<rparr>),
     (''augmentcode-legacy'', \<lparr>ruleClass = AugmentcodeLegacyRule, extension = ''md''\<rparr>),
     (''claudecode'', \<lparr>ruleClass = ClaudecodeRule, extension = ''md''\<rparr>),
     (''cline'', \<lparr>ruleClass = ClineRule, extension = ''md''\<rparr>),
     (''codexcli'', \<lparr>ruleClass = CodexcliRule, extension = ''md''\<rparr>),
     (''copilot'', \<lparr>ruleClass = CopilotRule, extension = ''md''\<rparr>),
     (''cursor'', \<lparr>ruleClass = CursorRule, extension = ''mdc''\<rparr>),
     (''geminicli'', \<lparr>ruleClass = GeminiCliRule, extension = ''md''\<rparr>),
     (''junie'', \<lparr>ruleClass = JunieRule, extension = ''md''\<rparr>),
     (''kiro'', \<lparr>ruleClass = KiroRule, extension = ''md''\<rparr>),
     (''opencode'', \<lparr>ruleClass = OpenCodeRule, extension = ''md''\<rparr>),
     (''qwencode'', \<lparr>ruleClass = QwencodeRule, extension = ''md''\<rparr>),
     (''roo'', \<lparr>ruleClass = RooRule, extension = ''md''\<rparr>),
     (''warp'', \<lparr>ruleClass = WarpRule, extension = ''md''\<rparr>),
     (''windsurf'', \<lparr>ruleClass = WindsurfRule, extension = ''md''\<rparr>)]"

definition rulesDefaultGetFactory :: "string \<Rightarrow> error + tool_rule_factory" where
  "rulesDefaultGetFactory target =
     (case mapGet toolRuleFactories target of
        None \<Rightarrow> Inl (Error (''Unsupported tool target: '' @ target))
      | Some factory \<Rightarrow> Inr factory)"

subsection \<open>The processor and what it reads from outside\<close>

record rules_processor =
  rp_baseDir :: string
  rp_toolTarget :: string
  rp_simulateCommands :: bool
  rp_simulateSubagents :: bool
  rp_simulateSkills :: bool
  rp_global :: bool
  rp_getFactory :: "string \<Rightarrow> error + tool_rule_factory"

text \<open>The arguments of \<open>new CursorRule\<close> and \<open>new RooRule\<close> as the processor passes them.\<close>

record cursor_rule_params =
  cr_baseDir :: string
  cr_alwaysApply :: bool
  cr_body :: string
  cr_relativeDirPath :: string
  cr_relativeFilePath :: string
  cr_validate :: bool

record roo_rule_params =
  ro_baseDir :: string
  ro_relativeDirPath :: string
  ro_relativeFilePath :: string
  ro_fileContent :: string
  ro_validate :: bool

text \<open>One record of the array handed to the TOON encoder.\<close>

record toon_rule =
  toon_path :: string
  toon_description :: "string option"
  toon_applyTo :: "string list option"

text \<open>
  What is not among the sources is a parameter of the processor's methods:
  the static methods of each rule adapter class; the constructors of \<open>CursorRule\<close> and
  \<open>RooRule\<close>; the \<open>relativeDirPath\<close> that \<open>X.getSettablePaths()\<close> returns, by the name
  of \<open>X\<close>, for the adapter classes named in the processor; the simulated-capable lists of
  \<open>CommandsProcessor\<close> and \<open>SubagentsProcessor\<close>; the TOON encoder; the glob search;
  the parser of canonical rule files; \<open>formatError\<close>; the constants of rulesync-paths.
\<close>

record rules_env =
  re_statics :: "rule_class \<Rightarrow> tool_rule_class"
  re_newCursorRule :: "cursor_rule_params \<Rightarrow> error + tool_rule"
  re_newRooRule :: "roo_rule_params \<Rightarrow> error + tool_rule"
  re_settableDir :: "string \<Rightarrow> string"
  re_commandsToolTargetsSimulated :: "string list"
  re_subagentsToolTargetsSimulated :: "string list"
  re_encode :: "toon_rule list \<Rightarrow> string"
  re_findFilesByGlobs :: "string \<Rightarrow> error + string list"
  re_rulesyncRuleFromFile :: "string \<Rightarrow> error + rulesync_rule"
  re_formatError :: "error \<Rightarrow> string"
  re_RULESYNC_RULES_RELATIVE_DIR_PATH :: string
  re_RULESYNC_COMMANDS_RELATIVE_DIR_PATH :: string
  re_RULESYNC_SUBAGENTS_RELATIVE_DIR_PATH :: string
  re_RULESYNC_SKILLS_RELATIVE_DIR_PATH :: string

subsection \<open>Section generation\<close>

definition overview :: string where
  "overview =
       ''# Additional Conventions Beyond the Built-in Functions\<newline>\<newline>'' @
       ''As this project'' @
       [CHR 0x27] @
       ''s AI coding tool, you must follow the additional conventions below, in addition to the built-in functions.''"

definition commandsSection :: "rules_env \<Rightarrow> string option \<Rightarrow> string" where
  "commandsSection env commands =
     (case commands of
        None \<Rightarrow> []
      | Some relativeDirPath \<Rightarrow>
              ''## Simulated Custom Slash Commands\<newline>\<newline>'' @
              ''Custom slash commands allow you to define frequently-used prompts as Markdown files that you can execute.\<newline>'' @
              ''\<newline>'' @
              ''### Syntax\<newline>\<newline>'' @
              ''Users can use following syntax to invoke a custom command.\<newline>\<newline>'' @
              ''```txt\<newline>'' @
              ''s/<command> [arguments]\<newline>'' @
              ''```\<newline>\<newline>'' @
              ''This syntax employs a double slash (`s/`) to prevent conflicts with built-in slash commands.\<newline>'' @
              ''The `s` in `s/` stands for *simulate*. Because custom slash commands are not built-in, this syntax provides a pseudo way to invoke them.\<newline>'' @
              ''\<newline>'' @
              ''When users call a custom slash command, you have to look for the markdown file, `'' @
              pathJoin [re_RULESYNC_COMMANDS_RELATIVE_DIR_PATH env, ''{command}.md''] @
              ''`, then execute the contents of that file as the block of operations.'')"

definition subagentsSection :: "rules_env \<Rightarrow> string option \<Rightarrow> string" where
  "subagentsSection env subagents =
     (case subagents of
        None \<Rightarrow> []
      | Some relativeDirPath \<Rightarrow>
              ''## Simulated Subagents\<newline>\<newline>'' @
              ''Simulated subagents are specialized AI assistants that can be invoked to handle specific types of tasks. In this case, it can be appear something like custom slash commands simply. Simulated subagents can be called by custom slash commands.\<newline>'' @
              ''\<newline>'' @
              ''When users call a simulated subagent, it will look for the corresponding markdown file, `'' @
              pathJoin [re_RULESYNC_SUBAGENTS_RELATIVE_DIR_PATH env, ''{subagent}.md''] @
              ''`, and execute its contents as the block of operations.\<newline>\<newline>'' @
              ''For example, if the user instructs `Call planner subagent to plan the refactoring`, you have to look for the markdown file, `'' @
              pathJoin [re_RULESYNC_SUBAGENTS_RELATIVE_DIR_PATH env, ''planner.md''] @
              ''`, and execute its contents as the block of operations.'')"

definition skillsSection :: "rules_env \<Rightarrow> string option \<Rightarrow> string" where
  "skillsSection env skills =
     (case skills of
        None \<Rightarrow> []
      | Some relativeDirPath \<Rightarrow>
              ''## Simulated Skills\<newline>\<newline>'' @
              ''Simulated skills are specialized capabilities that can be invoked to handle specific types of tasks.\<newline>'' @
              ''\<newline>'' @
              ''When users invoke a simulated skill, look for the corresponding SKILL.md file in `'' @
              pathJoin [re_RULESYNC_SKILLS_RELATIVE_DIR_PATH env, ''{skill}/SKILL.md''] @
              ''` and execute its contents as the block of operations.\<newline>\<newline>'' @
              ''For example, if the user instructs `Use the skill example-skill to achieve something`, look for `'' @
              pathJoin [re_RULESYNC_SKILLS_RELATIVE_DIR_PATH env, ''example-skill/SKILL.md''] @
              ''` and execute its contents.\<newline>\<newline>'' @
              ''Additionally, you should proactively consider using available skills when they would help accomplish a task more effectively, even if the user doesn'' @
              [CHR 0x27] @
              ''t explicitly request them.'')"

text \<open>The array that \<open>generateAdditionalConventionsSection\<close> joins.\<close>

definition additionalConventionsSections ::
    "rules_env \<Rightarrow> rules_processor \<Rightarrow> string option \<Rightarrow> string option \<Rightarrow> string option \<Rightarrow> string list" where
  "additionalConventionsSections env p commands subagents skills =
     [overview] @
     (if rp_simulateCommands p \<and> rp_toolTarget p \<in> set (re_commandsToolTargetsSimulated env)
      then [commandsSection env commands] else []) @
     (if rp_simulateSubagents p \<and> rp_toolTarget p \<in> set (re_subagentsToolTargetsSimulated env)
      then [subagentsSection env subagents] else []) @
     (if rp_simulateSkills p \<and> rp_toolTarget p \<in> set skillsGetToolTargetsSimulated
      then [skillsSection env skills] else [])"

definition generateAdditionalConventionsSection ::
    "rules_env \<Rightarrow> rules_processor \<Rightarrow> string option \<Rightarrow> string option \<Rightarrow> string option \<Rightarrow> string" where
  "generateAdditionalConventionsSection env p commands subagents skills =
     joinWith ''\<newline>\<newline>'' (additionalConventionsSections env p commands subagents skills)
       @ ''\<newline>\<newline>''"

text \<open>The record built for one non-root rule in \<open>generateToonReferencesSection\<close>.\<close>

definition toonRuleOf :: "tool_rule \<Rightarrow> toon_rule" where
  "toonRuleOf toolRule =
     (let frontmatter = tr_rulesyncFrontmatter toolRule
      in \<lparr>toon_path = ''@'' @ getRelativePathFromCwd toolRule,
          toon_description =
            (case fm_description frontmatter of
               None \<Rightarrow> None
             | Some d \<Rightarrow> if d \<noteq> [] then Some d else None),
          toon_applyTo =
            (case fm_globs frontmatter of
               None \<Rightarrow> None
             | Some gs \<Rightarrow> if length gs > 0 then Some gs else None)\<rparr>)"

definition generateToonReferencesSection :: "rules_env \<Rightarrow> tool_rule list \<Rightarrow> string" where
  "generateToonReferencesSection env toolRules =
     (let toolRulesWithoutRoot = filter (\<lambda>rule. \<not> tr_root rule) toolRules
      in if length toolRulesWithoutRoot = 0 then []
         else (let lines =
                     [''Please also reference the following rules as needed. The list below is provided in TOON format, and `@` stands for the project root directory.'',
                      []];
                   rules = map toonRuleOf toolRulesWithoutRoot;
                   toonContent = re_encode env rules
               in joinWith ''\<newline>'' (lines @ [toonContent]) @ ''\<newline>\<newline>''))"

text \<open>\<open>description?.replace(/"/g, '\\"')\<close>: a backslash before every double quote.\<close>

definition escapeDoubleQuotes :: "string \<Rightarrow> string" where
  "escapeDoubleQuotes s = concat (map (\<lambda>c. if c = CHR 0x22 then [CHR 0x5C, CHR 0x22] else [c]) s)"

text \<open>
  One line of \<open>generateReferencesSection\<close>. An undefined description or an undefined list of
  globs is rendered by the template literal as the text \<open>undefined\<close>.
\<close>

definition referenceLine :: "tool_rule \<Rightarrow> string" where
  "referenceLine toolRule =
     (let escapedDescription = map_option escapeDoubleQuotes (tr_description toolRule);
          globsText = map_option (joinWith '','') (tr_globs toolRule)
      in ''@'' @ getRelativePathFromCwd toolRule @ '' description: '' @ [CHR 0x22] @
         (case escapedDescription of None \<Rightarrow> ''undefined'' | Some d \<Rightarrow> d) @ [CHR 0x22] @
         '' applyTo: '' @ [CHR 0x22] @
         (case globsText of None \<Rightarrow> ''undefined'' | Some g \<Rightarrow> g) @ [CHR 0x22])"

definition generateReferencesSection :: "tool_rule list \<Rightarrow> string" where
  "generateReferencesSection toolRules =
     (let toolRulesWithoutRoot = filter (\<lambda>rule. \<not> tr_root rule) toolRules
      in if length toolRulesWithoutRoot = 0 then []
         else (let lines =
                     [''Please also reference the following rules as needed:'', []] @
                     map referenceLine toolRulesWithoutRoot
               in joinWith ''\<newline>'' lines @ ''\<newline>\<newline>''))"

subsection \<open>convertRulesyncFilesToToolFiles\<close>

fun filterRulesyncRules :: "rulesync_file list \<Rightarrow> rulesync_rule list" where
  "filterRulesyncRules [] = []"
| "filterRulesyncRules (RulesyncRuleFile r # fs) = r # filterRulesyncRules fs"
| "filterRulesyncRules (f # fs) = filterRulesyncRules fs"

text \<open>\<open>Array.prototype.findIndex\<close>, with \<open>None\<close> for \<open>-1\<close>.\<close>

fun findIndex :: "('a \<Rightarrow> bool) \<Rightarrow> 'a list \<Rightarrow> nat option" where
  "findIndex P [] = None"
| "findIndex P (x # xs) = (if P x then Some 0 else map_option Suc (findIndex P xs))"

definition isSimulated :: "rules_processor \<Rightarrow> bool" where
  "isSimulated p = (rp_simulateCommands p \<or> rp_simulateSubagents p \<or> rp_simulateSkills p)"

text \<open>The rules targeted by the tool, converted in the order of the input.\<close>

definition convertTargetedRules ::
    "rules_env \<Rightarrow> rules_processor \<Rightarrow> tool_rule_factory \<Rightarrow> rulesync_rule list \<Rightarrow> error + tool_rule list" where
  "convertTargetedRules env p factory rulesyncRules =
     (case promiseAll
             (map (\<lambda>rulesyncRule.
                     if \<not> isTargetedByRulesyncRule (re_statics env (ruleClass factory)) rulesyncRule
                     then Inr None
                     else map_sum id Some
                            (fromRulesyncRule (re_statics env (ruleClass factory))
                               \<lparr>frr_baseDir = rp_baseDir p, frr_rulesyncRule = rulesyncRule,
                                frr_validate = True, frr_global = rp_global p\<rparr>))
                  rulesyncRules) of
        Inl e \<Rightarrow> Inl e
      | Inr toolRules \<Rightarrow> Inr (filterNotNull toolRules))"

text \<open>
  The additional convention rule pushed for Cursor, then the one pushed for Roo: the
  arguments of the two constructor calls, then the two \<open>if\<close> statements.
\<close>

definition cursorConventionRuleParams :: "rules_env \<Rightarrow> rules_processor \<Rightarrow> cursor_rule_params" where
  "cursorConventionRuleParams env p =
     \<lparr>cr_baseDir = rp_baseDir p,
      cr_alwaysApply = True,
      cr_body = generateAdditionalConventionsSection env p
                  (Some (re_settableDir env ''CursorCommand''))
                  (Some (re_settableDir env ''CursorSubagent''))
                  (Some (re_settableDir env ''CursorSkill'')),
      cr_relativeDirPath = re_settableDir env ''CursorRule.nonRoot'',
      cr_relativeFilePath = ''additional-conventions.mdc'',
      cr_validate = True\<rparr>"

definition rooConventionRuleParams :: "rules_env \<Rightarrow> rules_processor \<Rightarrow> roo_rule_params" where
  "rooConventionRuleParams env p =
     \<lparr>ro_baseDir = rp_baseDir p,
      ro_relativeDirPath = re_settableDir env ''RooRule.nonRoot'',
      ro_relativeFilePath = ''additional-conventions.md'',
      ro_fileContent = generateAdditionalConventionsSection env p
                         (Some (re_settableDir env ''RooCommand''))
                         (Some (re_settableDir env ''RooSubagent''))
                         None,
      ro_validate = True\<rparr>"

definition pushCursorConventionRule ::
    "rules_env \<Rightarrow> rules_processor \<Rightarrow> tool_rule list \<Rightarrow> error + tool_rule list" where
  "pushCursorConventionRule env p toolRules =
     (if isSimulated p \<and> rp_toolTarget p = ''cursor''
      then (case re_newCursorRule env (cursorConventionRuleParams env p) of
              Inl e \<Rightarrow> Inl e
            | Inr rule \<Rightarrow> Inr (toolRules @ [rule]))
      else Inr toolRules)"

definition pushRooConventionRule ::
    "rules_env \<Rightarrow> rules_processor \<Rightarrow> tool_rule list \<Rightarrow> error + tool_rule list" where
  "pushRooConventionRule env p toolRules =
     (if isSimulated p \<and> rp_toolTarget p = ''roo''
      then (case re_newRooRule env (rooConventionRuleParams env p) of
              Inl e \<Rightarrow> Inl e
            | Inr rule \<Rightarrow> Inr (toolRules @ [rule]))
      else Inr toolRules)"

text \<open>
  The \<open>switch\<close> on the tool target: what is put in front of the content of the root rule,
  \<open>None\<close> for the \<open>default\<close> branch, which leaves the root rule as it is.
\<close>

definition rootContentPrefix :: "rules_env \<Rightarrow> rules_processor \<Rightarrow> tool_rule list \<Rightarrow> string option" where
  "rootContentPrefix env p toolRules =
     (if rp_toolTarget p = ''agentsmd'' then
        Some (generateToonReferencesSection env toolRules @
              generateAdditionalConventionsSection env p
                (Some (re_settableDir env ''AgentsmdCommand''))
                (Some (re_settableDir env ''AgentsmdSubagent''))
                None)
      else if rp_toolTarget p = ''augmentcode-legacy'' then
        Some (generateToonReferencesSection env toolRules)
      else if rp_toolTarget p = ''claudecode'' then
        Some (generateReferencesSection toolRules)
      else if rp_toolTarget p = ''codexcli'' then
        Some (generateToonReferencesSection env toolRules @
              generateAdditionalConventionsSection env p
                None
                (Some (re_settableDir env ''CodexCliSubagent''))
                (Some (if rp_global p then re_settableDir env ''CodexCliSkill.global''
                       else pathJoin [''.codex'', ''skills''])))
      else if rp_toolTarget p = ''copilot'' then
        Some (generateAdditionalConventionsSection env p
                (Some (re_settableDir env ''CopilotCommand''))
                (Some (re_settableDir env ''CopilotSubagent''))
                (Some (re_settableDir env ''CopilotSkill'')))
      else if rp_toolTarget p = ''geminicli'' then
        Some (generateToonReferencesSection env toolRules @
              generateAdditionalConventionsSection env p
                (Some (re_settableDir env ''GeminiCliCommand''))
                (Some (re_settableDir env ''GeminiCliSubagent''))
                None)
      else if rp_toolTarget p = ''kiro'' then
        Some (generateToonReferencesSection env toolRules)
      else if rp_toolTarget p = ''opencode'' then
        Some (generateToonReferencesSection env toolRules)
      else if rp_toolTarget p = ''qwencode'' then
        Some (generateToonReferencesSection env toolRules)
      else if rp_toolTarget p = ''warp'' then
        Some (generateToonReferencesSection env toolRules)
      else None)"

definition injectRootContent :: "rules_env \<Rightarrow> rules_processor \<Rightarrow> tool_rule list \<Rightarrow> tool_rule list" where
  "injectRootContent env p toolRules =
     (case findIndex tr_root toolRules of
        None \<Rightarrow> toolRules
      | Some rootRuleIndex \<Rightarrow>
          (case rootContentPrefix env p toolRules of
             None \<Rightarrow> toolRules
           | Some injected \<Rightarrow>
               (let rootRule = toolRules ! rootRuleIndex
                in toolRules[rootRuleIndex :=
                     rootRule\<lparr>tr_fileContent := injected @ tr_fileContent rootRule\<rparr>])))"

definition convertRulesyncFilesToToolFiles ::
    "rules_env \<Rightarrow> rules_processor \<Rightarrow> rulesync_file list \<Rightarrow> error + tool_file list" where
  "convertRulesyncFilesToToolFiles env p rulesyncFiles =
     (let rulesyncRules = filterRulesyncRules rulesyncFiles
      in case rp_getFactory p (rp_toolTarget p) of
           Inl e \<Rightarrow> Inl e
         | Inr factory \<Rightarrow>
             (case convertTargetedRules env p factory rulesyncRules of
                Inl e \<Rightarrow> Inl e
              | Inr toolRules \<Rightarrow>
                  (case pushCursorConventionRule env p toolRules of
                     Inl e \<Rightarrow> Inl e
                   | Inr toolRules1 \<Rightarrow>
                       (case pushRooConventionRule env p toolRules1 of
                          Inl e \<Rightarrow> Inl e
                        | Inr toolRules2 \<Rightarrow>
                            Inr (map ToolRuleFile (injectRootContent env p toolRules2))))))"

subsection \<open>loadRulesyncFiles\<close>

definition loadRulesyncFiles ::
    "rules_env \<Rightarrow> rules_processor \<Rightarrow> log_entry list \<times> (error + rulesync_file list)" where
  "loadRulesyncFiles env p =
     (case re_findFilesByGlobs env (pathJoin [re_RULESYNC_RULES_RELATIVE_DIR_PATH env, ''*.md'']) of
        Inl e \<Rightarrow> ([], Inl e)
      | Inr files \<Rightarrow>
          (let found = [(LogDebug, ''Found '' @ stringOfNat (length files) @ '' rulesync files'')]
           in case promiseAll (map (\<lambda>file. re_rulesyncRuleFromFile env (basename file)) files) of
                Inl e \<Rightarrow> (found, Inl e)
              | Inr rulesyncRules \<Rightarrow>
                  (let rootRules = filter isRootRulesyncRule rulesyncRules
                   in if length rootRules > 1
                      then (found, Inl (Error ''Multiple root rulesync rules found''))
                      else if rp_global p
                      then (let nonRootRules = filter (\<lambda>rule. \<not> isRootRulesyncRule rule) rulesyncRules
                            in (found @
                                (if length nonRootRules > 0
                                 then [(LogWarn, stringOfNat (length nonRootRules) @
                                          '' non-root rulesync rules found, but it'' @ [CHR 0x27] @
                                          ''s in global mode, so ignoring them'')]
                                 else []),
                                Inr (map RulesyncRuleFile rootRules)))
                      else (found, Inr (map RulesyncRuleFile rulesyncRules)))))"

subsection \<open>loadToolFiles\<close>

text \<open>The files of one location: the glob search, then every file found is parsed.\<close>

definition loadRulesAt ::
    "rules_env \<Rightarrow> rules_processor \<Rightarrow> tool_rule_factory \<Rightarrow> string \<Rightarrow> error + tool_rule list" where
  "loadRulesAt env p factory pattern =
     (case re_findFilesByGlobs env pattern of
        Inl e \<Rightarrow> Inl e
      | Inr filePaths \<Rightarrow>
          promiseAll
            (map (\<lambda>filePath.
                    fromFile (re_statics env (ruleClass factory))
                      \<lparr>ff_baseDir = rp_baseDir p, ff_relativeFilePath = basename filePath,
                       ff_global = rp_global p\<rparr>)
                 filePaths))"

text \<open>The body of the \<open>try\<close> block, with the debug notes written before a throw.\<close>

definition loadToolFilesTry ::
    "rules_env \<Rightarrow> rules_processor \<Rightarrow> log_entry list \<times> (error + tool_rule list)" where
  "loadToolFilesTry env p =
     (case rp_getFactory p (rp_toolTarget p) of
        Inl e \<Rightarrow> ([], Inl e)
      | Inr factory \<Rightarrow>
          (case ruleGetSettablePaths (re_statics env (ruleClass factory)) (rp_global p) of
             Inl e \<Rightarrow> ([], Inl e)
           | Inr settablePaths \<Rightarrow>
               (case (case st_root settablePaths of
                        None \<Rightarrow> Inr []
                      | Some root \<Rightarrow>
                          loadRulesAt env p factory
                            (pathJoin [rp_baseDir p, nullishOr (sr_relativeDirPath root) ''.'',
                                       sr_relativeFilePath root])) of
                  Inl e \<Rightarrow> ([], Inl e)
                | Inr rootToolRules \<Rightarrow>
                    (let foundRoot =
                           [(LogDebug, ''Found '' @ stringOfNat (length rootToolRules) @
                                       '' root tool rule files'')]
                     in case (case st_nonRoot settablePaths of
                                None \<Rightarrow> Inr []
                              | Some relativeDirPath \<Rightarrow>
                                  loadRulesAt env p factory
                                    (pathJoin [rp_baseDir p, relativeDirPath,
                                               ''*.'' @ extension factory])) of
                          Inl e \<Rightarrow> (foundRoot, Inl e)
                        | Inr nonRootToolRules \<Rightarrow>
                            (foundRoot @
                             [(LogDebug, ''Found '' @ stringOfNat (length nonRootToolRules) @
                                         '' non-root tool rule files'')],
                             Inr (rootToolRules @ nonRootToolRules))))))"

text \<open>
  \<open>loadToolFiles\<close>: the \<open>catch\<close> logs the error and returns the empty array. The
  parameter \<open>forDeletion\<close> is bound to \<open>_forDeletion\<close> and not read.
\<close>

definition loadToolFiles ::
    "rules_env \<Rightarrow> rules_processor \<Rightarrow> bool \<Rightarrow> log_entry list \<times> (error + tool_file list)" where
  "loadToolFiles env p forDeletion =
     (case loadToolFilesTry env p of
        (logs, Inr toolRules) \<Rightarrow> (logs, Inr (map ToolRuleFile toolRules))
      | (logs, Inl e) \<Rightarrow>
          (logs @ [(LogError, ''Failed to load tool files: '' @ re_formatError env e)], Inr []))"

section \<open>Sample adapters, environments and inputs\<close>

text \<open>
  The theorems below hold for every adapter class and every environment. For evaluation at
  concrete inputs, here is one adapter for rules in the shape the processor expects (its
  targeting test is the default one for the given tool; a root rule goes to \<open>ROOT.md\<close>,
  any other rule to the directory \<open>rules\<close>), and an environment around it: the canonical
  store and the tool files are tables from file names to what parsing them gives, the glob
  search is a table from patterns to the paths found.
\<close>

definition sampleFromRulesyncRule :: "rule_class \<Rightarrow> from_rulesync_rule_params \<Rightarrow> tool_rule" where
  "sampleFromRulesyncRule c params =
     \<lparr>tr_class = c,
      tr_baseDir = frr_baseDir params,
      tr_relativeDirPath =
        (if isRootRulesyncRule (frr_rulesyncRule params) then ''.'' else ''rules''),
      tr_relativeFilePath =
        (if isRootRulesyncRule (frr_rulesyncRule params) then ''ROOT.md''
         else rr_relativeFilePath (frr_rulesyncRule params)),
      tr_fileContent = rr_body (frr_rulesyncRule params),
      tr_root = isRootRulesyncRule (frr_rulesyncRule params),
      tr_description = fm_description (rr_frontmatter (frr_rulesyncRule params)),
      tr_globs = fm_globs (rr_frontmatter (frr_rulesyncRule params)),
      tr_rulesyncFrontmatter = rr_frontmatter (frr_rulesyncRule params)\<rparr>"

definition sampleFromFile :: "rule_class \<Rightarrow> from_file_params \<Rightarrow> string \<Rightarrow> tool_rule" where
  "sampleFromFile c params content =
     \<lparr>tr_class = c,
      tr_baseDir = ff_baseDir params,
      tr_relativeDirPath = (if ff_relativeFilePath params = ''ROOT.md'' then ''.'' else ''rules''),
      tr_relativeFilePath = ff_relativeFilePath params,
      tr_fileContent = content,
      tr_root = (ff_relativeFilePath params = ''ROOT.md''),
      tr_description = None,
      tr_globs = None,
      tr_rulesyncFrontmatter =
        \<lparr>fm_root = Some (ff_relativeFilePath params = ''ROOT.md''), fm_targets = [''*''],
         fm_description = None, fm_globs = None\<rparr>\<rparr>"

definition sampleRuleAdapter :: "string \<Rightarrow> (string \<times> (error + string)) list \<Rightarrow> rule_class \<Rightarrow> tool_rule_class" where
  "sampleRuleAdapter tool toolStore c =
     \<lparr>isTargetedByRulesyncRule = isTargetedByRulesyncRuleDefault tool,
      fromRulesyncRule = (\<lambda>params. Inr (sampleFromRulesyncRule c params)),
      fromFile = (\<lambda>params.
        case map_of toolStore (ff_relativeFilePath params) of
          None \<Rightarrow> Inl (Error ''File not found'')
        | Some (Inl e) \<Rightarrow> Inl e
        | Some (Inr content) \<Rightarrow> Inr (sampleFromFile c params content)),
      ruleGetSettablePaths = (\<lambda>global.
        Inr \<lparr>st_root = Some \<lparr>sr_relativeDirPath = None, sr_relativeFilePath = ''ROOT.md''\<rparr>,
             st_nonRoot = Some ''rules''\<rparr>)\<rparr>"

definition sampleConventionRule :: "rule_class \<Rightarrow> string \<Rightarrow> string \<Rightarrow> string \<Rightarrow> string \<Rightarrow> tool_rule" where
  "sampleConventionRule c baseDir relativeDirPath relativeFilePath content =
     \<lparr>tr_class = c, tr_baseDir = baseDir, tr_relativeDirPath = relativeDirPath,
      tr_relativeFilePath = relativeFilePath, tr_fileContent = content, tr_root = False,
      tr_description = None, tr_globs = None,
      tr_rulesyncFrontmatter =
        \<lparr>fm_root = Some False, fm_targets = [''*''], fm_description = None, fm_globs = None\<rparr>\<rparr>"

definition sampleRulesEnv ::
    "string \<Rightarrow> (string \<times> (error + rulesync_rule)) list \<Rightarrow> (string \<times> string list) list
       \<Rightarrow> (string \<times> (error + string)) list \<Rightarrow> rules_env" where
  "sampleRulesEnv tool canonicalStore globTable toolStore =
     \<lparr>re_statics = sampleRuleAdapter tool toolStore,
      re_newCursorRule = (\<lambda>ps. Inr (sampleConventionRule CursorRule (cr_baseDir ps)
                                       (cr_relativeDirPath ps) (cr_relativeFilePath ps) (cr_body ps))),
      re_newRooRule = (\<lambda>ps. Inr (sampleConventionRule RooRule (ro_baseDir ps)
                                    (ro_relativeDirPath ps) (ro_relativeFilePath ps) (ro_fileContent ps))),
      re_settableDir = (\<lambda>name. name),
      re_commandsToolTargetsSimulated = [''agentsmd'', ''copilot''],
      re_subagentsToolTargetsSimulated = [''agentsmd'', ''copilot'', ''cursor'', ''geminicli'', ''roo''],
      re_encode = (\<lambda>rules. joinWith ''\<newline>'' (map toon_path rules)),
      re_findFilesByGlobs = (\<lambda>pattern. Inr (case map_of globTable pattern of None \<Rightarrow> [] | Some fs \<Rightarrow> fs)),
      re_rulesyncRuleFromFile = (\<lambda>name. case map_of canonicalStore name of
                                           None \<Rightarrow> Inl (Error ''File not found'') | Some r \<Rightarrow> r),
      re_formatError = errorMessage,
      re_RULESYNC_RULES_RELATIVE_DIR_PATH = ''.rulesync/rules'',
      re_RULESYNC_COMMANDS_RELATIVE_DIR_PATH = ''.rulesync/commands'',
      re_RULESYNC_SUBAGENTS_RELATIVE_DIR_PATH = ''.rulesync/subagents'',
      re_RULESYNC_SKILLS_RELATIVE_DIR_PATH = ''.rulesync/skills''\<rparr>"

definition sampleRulesProcessor :: "string \<Rightarrow> bool \<Rightarrow> bool \<Rightarrow> bool \<Rightarrow> bool \<Rightarrow> rules_processor" where
  "sampleRulesProcessor tool global simCommands simSubagents simSkills =
     \<lparr>rp_baseDir = ''/work'', rp_toolTarget = tool, rp_simulateCommands = simCommands,
      rp_simulateSubagents = simSubagents, rp_simulateSkills = simSkills, rp_global = global,
      rp_getFactory = rulesDefaultGetFactory\<rparr>"

text \<open>The canonical rules of the end-to-end example: a root rule and a style rule.\<close>

definition introRule :: rulesync_rule where
  "introRule =
     \<lparr>rr_relativeFilePath = ''overview.md'',
      rr_frontmatter = \<lparr>fm_root = Some True, fm_targets = [''*''], fm_description = None,
                        fm_globs = None\<rparr>,
      rr_body = ''Intro''\<rparr>"

definition styleRule :: rulesync_rule where
  "styleRule =
     \<lparr>rr_relativeFilePath = ''style.md'',
      rr_frontmatter = \<lparr>fm_root = Some False, fm_targets = [''*''],
                        fm_description = Some ''Style guide'', fm_globs = Some [''*.ts'']\<rparr>,
      rr_body = ''Use two spaces.''\<rparr>"

definition secondRootRule :: rulesync_rule where
  "secondRootRule =
     \<lparr>rr_relativeFilePath = ''other.md'',
      rr_frontmatter = \<lparr>fm_root = Some True, fm_targets = [''claudecode''], fm_description = None,
                        fm_globs = None\<rparr>,
      rr_body = ''Other''\<rparr>"

definition sampleGlobTable :: "(string \<times> string list) list" where
  "sampleGlobTable =
     [(''.rulesync/rules/*.md'', [''.rulesync/rules/overview.md'', ''.rulesync/rules/style.md'']),
      (''/work/ROOT.md'', [''/work/ROOT.md'']),
      (''/work/rules/*.md'', [''/work/rules/style.md'', ''/work/rules/broken.md''])]"

definition sampleCanonicalStore :: "(string \<times> (error + rulesync_rule)) list" where
  "sampleCanonicalStore = [(''overview.md'', Inr introRule), (''style.md'', Inr styleRule)]"

definition twoRootsStore :: "(string \<times> (error + rulesync_rule)) list" where
  "twoRootsStore = [(''overview.md'', Inr introRule), (''style.md'', Inr secondRootRule)]"

definition sampleToolStore :: "(string \<times> (error + string)) list" where
  "sampleToolStore =
     [(''ROOT.md'', Inr ''Intro''), (''style.md'', Inr ''Use two spaces.''),
      (''broken.md'', Inl (Error ''Invalid frontmatter''))]"

text \<open>A tool skill with fixed name, description and body.\<close>

definition sampleSkillFields :: "skill_class \<Rightarrow> string \<Rightarrow> string \<Rightarrow> skill_fields" where
  "sampleSkillFields c relativeDirPath dirName =
     \<lparr>sk_class = c, sk_baseDir = ''/work'', sk_relativeDirPath = relativeDirPath,
      sk_dirName = dirName, sk_name = ''Test Skill'', sk_description = ''Test description'',
      sk_body = ''Test body''\<rparr>"


text \<open>
  A skills processor with the default registry, an environment in which every class has the
  static methods of \<open>CodexCliSimulatedSkill\<close> (the directory listing and the reading of a
  skill directory are tables), and three canonical skills with different targets.
\<close>

definition sampleSkillsProcessor :: "string \<Rightarrow> bool \<Rightarrow> skills_processor" where
  "sampleSkillsProcessor tool global =
     \<lparr>sp_baseDir = ''/work'', sp_toolTarget = tool, sp_global = global,
      sp_getFactory = defaultGetFactory\<rparr>"

definition sampleSkillsEnv ::
    "(string \<times> string list) list \<Rightarrow> (string \<times> (error + skill_fields)) list \<Rightarrow> skills_env" where
  "sampleSkillsEnv dirTable skillStore =
     \<lparr>se_statics = (\<lambda>c. codexCliSimulatedSkillClass
                          (\<lambda>params. case map_of skillStore (fd_dirName params) of
                                       None \<Rightarrow> Inl (Error ''SKILL.md not found'')
                                     | Some r \<Rightarrow> r)),
      se_findDirsByGlobs = (\<lambda>pattern. Inr (case map_of dirTable pattern of None \<Rightarrow> [] | Some ds \<Rightarrow> ds))\<rparr>"

definition sampleRulesyncSkill :: "string \<Rightarrow> string list \<Rightarrow> rulesync_skill" where
  "sampleRulesyncSkill dirName targets =
     \<lparr>rs_baseDir = ''/work'', rs_dirName = dirName, rs_name = ''Test Skill'',
      rs_description = ''Test description'', rs_targets = targets, rs_body = ''Test body''\<rparr>"

section \<open>Shared lemmas: arrays, promises, targeting\<close>

lemma promiseAll_map_Inr: "promiseAll (map Inr xs) = Inr xs"
  by (induction xs) simp_all

lemma promiseAll_Inr_D: "promiseAll rs = Inr xs \<Longrightarrow> rs = map Inr xs"
proof (induction rs arbitrary: xs)
  case Nil
  then show ?case by simp
next
  case (Cons r rs)
  show ?case
  proof (cases r)
    case (Inl e)
    with Cons.prems show ?thesis by simp
  next
    case (Inr x)
    with Cons.prems obtain ys where ys: "promiseAll rs = Inr ys" "xs = x # ys"
      by (auto split: sum.splits)
    from Cons.IH [OF ys(1)] ys(2) Inr show ?thesis by simp
  qed
qed

lemma promiseAll_Inr_iff: "promiseAll rs = Inr xs \<longleftrightarrow> rs = map Inr xs"
  using promiseAll_Inr_D promiseAll_map_Inr by blast

lemma promiseAll_fails:
  assumes "Inl e \<in> set rs"
  shows "\<exists>e'. promiseAll rs = Inl e'"
proof (cases "promiseAll rs")
  case (Inl e')
  then show ?thesis by blast
next
  case (Inr xs)
  then have "rs = map Inr xs" by (simp add: promiseAll_Inr_iff)
  with assms show ?thesis by auto
qed

lemma promiseAll_all_succeed:
  assumes "\<forall>x \<in> set xs. F x = Inr (G x)"
  shows "promiseAll (map F xs) = Inr (map G xs)"
proof -
  from assms have "map F xs = map Inr (map G xs)" by simp
  then show ?thesis by (simp only: promiseAll_map_Inr)
qed

lemma targeted_conversion:
  "(case promiseAll (map (\<lambda>x. if \<not> T x then Inr None else map_sum id Some (F x)) xs) of
      Inl e \<Rightarrow> Inl e
    | Inr ys \<Rightarrow> Inr (filterNotNull ys)) = promiseAll (map F (filter T xs))"
proof (induction xs)
  case Nil
  show ?case by simp
next
  case (Cons x xs)
  show ?case
  proof (cases "T x")
    case False
    with Cons show ?thesis by (simp split: sum.splits)
  next
    case True
    with Cons show ?thesis by (cases "F x") (auto split: sum.splits)
  qed
qed

lemma convertRulesyncDirsToToolDirs_eq:
  assumes "sp_getFactory p (sp_toolTarget p) (sp_global p) = Inr factory"
  shows "convertRulesyncDirsToToolDirs env p dirs =
     map_sum id (map ToolSkillDir)
       (promiseAll
          (map (\<lambda>s. fromRulesyncSkill (se_statics env (resolvedClass factory))
                       \<lparr>frs_rulesyncSkill = s, frs_global = sp_global p\<rparr>)
               (filter (isTargetedByRulesyncSkill (se_statics env (resolvedClass factory)))
                       (filterRulesyncSkills dirs))))"
proof -
  let ?T = "isTargetedByRulesyncSkill (se_statics env (resolvedClass factory))"
  let ?F = "\<lambda>s. fromRulesyncSkill (se_statics env (resolvedClass factory))
                       \<lparr>frs_rulesyncSkill = s, frs_global = sp_global p\<rparr>"
  let ?A = "promiseAll (map (\<lambda>x. if \<not> ?T x then Inr None else map_sum id Some (?F x))
                            (filterRulesyncSkills dirs))"
  have "map_sum id (map ToolSkillDir) (promiseAll (map ?F (filter ?T (filterRulesyncSkills dirs))))
        = (case ?A of Inl e \<Rightarrow> Inl e | Inr ts \<Rightarrow> Inr (map ToolSkillDir (filterNotNull ts)))"
    unfolding targeted_conversion [of ?T ?F, symmetric] by (simp split: sum.splits)
  with assms show ?thesis
    by (simp add: convertRulesyncDirsToToolDirs_def Let_def)
qed

lemma convertTargetedRules_eq:
  "convertTargetedRules env p factory rules =
     promiseAll
       (map (\<lambda>r. fromRulesyncRule (re_statics env (ruleClass factory))
                    \<lparr>frr_baseDir = rp_baseDir p, frr_rulesyncRule = r,
                     frr_validate = True, frr_global = rp_global p\<rparr>)
            (filter (isTargetedByRulesyncRule (re_statics env (ruleClass factory))) rules))"
  unfolding convertTargetedRules_def
  by (rule targeted_conversion)

lemma findIndex_Some:
  "findIndex P xs = Some i \<Longrightarrow> i < length xs \<and> P (xs ! i) \<and> (\<forall>j < i. \<not> P (xs ! j))"
proof (induction xs arbitrary: i)
  case Nil
  then show ?case by simp
next
  case (Cons x xs)
  show ?case
  proof (cases "P x")
    case True
    with Cons.prems show ?thesis by simp
  next
    case False
    with Cons.prems obtain k where k: "findIndex P xs = Some k" "i = Suc k" by auto
    from Cons.IH [OF k(1)] False k(2) show ?thesis
      by (auto simp: nth_Cons split: nat.splits)
  qed
qed

lemma findIndex_None: "findIndex P xs = None \<longleftrightarrow> (\<forall>x \<in> set xs. \<not> P x)"
  by (induction xs) auto

lemma findIndex_append_notP:
  "\<not> P y \<Longrightarrow> findIndex P (xs @ [y]) = findIndex P xs"
  by (induction xs) auto

section \<open>Properties of the skill adapter registry\<close>

lemma toolSkillFactories_distinct: "distinct (map fst toolSkillFactories)"
  by (simp add: toolSkillFactories_def)

text \<open>
  Claim C5. For a registered tool identifier, resolution in project mode returns the
  project-mode class when the entry declares one and the default class otherwise, and
  resolution in global mode returns the default class; the metadata is the entry's. For
  an unregistered identifier, resolution throws an error whose message names the identifier.
\<close>

theorem defaultGetFactory_mode_selection:
  "(\<forall>target factory. mapGet toolSkillFactories target = Some factory \<longrightarrow>
      defaultGetFactory target False =
        Inr \<lparr>resolvedClass = (case projectClass factory of Some c \<Rightarrow> c | None \<Rightarrow> skillClass factory),
             resolvedMeta = meta factory\<rparr>
    \<and> defaultGetFactory target True =
        Inr \<lparr>resolvedClass = skillClass factory, resolvedMeta = meta factory\<rparr>)
   \<and> (\<forall>target global. mapGet toolSkillFactories target = None \<longrightarrow>
        defaultGetFactory target global = Inl (Error (''Unsupported tool target: '' @ target)))"
  by (auto simp: defaultGetFactory_def split: option.splits)

lemma mapGet_codexcli:
  "mapGet toolSkillFactories ''codexcli'' =
     Some \<lparr>skillClass = CodexCliSkill, projectClass = Some CodexCliSimulatedSkill,
           meta = \<lparr>supportsProject = True, supportsSimulated = True, supportsGlobal = True\<rparr>\<rparr>"
  by (simp add: mapGet_def toolSkillFactories_def)

lemma mapGet_claudecode:
  "mapGet toolSkillFactories ''claudecode'' =
     Some \<lparr>skillClass = ClaudecodeSkill, projectClass = None,
           meta = \<lparr>supportsProject = True, supportsSimulated = False, supportsGlobal = True\<rparr>\<rparr>"
  by (simp add: mapGet_def toolSkillFactories_def)

lemma mapGet_roo: "mapGet toolSkillFactories ''roo'' = None"
  by (simp add: mapGet_def toolSkillFactories_def)

text \<open>
  The registry at three identifiers: \<open>codexcli\<close> declares a project-mode class,
  \<open>claudecode\<close> does not, \<open>roo\<close> is not registered for skills.
\<close>

theorem defaultGetFactory_mode_selection_witness:
  "resolvedClass (projr (defaultGetFactory ''codexcli'' False)) = CodexCliSimulatedSkill
   \<and> resolvedClass (projr (defaultGetFactory ''codexcli'' True)) = CodexCliSkill
   \<and> resolvedClass (projr (defaultGetFactory ''claudecode'' False)) = ClaudecodeSkill
   \<and> resolvedClass (projr (defaultGetFactory ''claudecode'' True)) = ClaudecodeSkill
   \<and> defaultGetFactory ''roo'' False = Inl (Error ''Unsupported tool target: roo'')
   \<and> defaultGetFactory ''roo'' True = Inl (Error ''Unsupported tool target: roo'')"
proof -
  note sel = defaultGetFactory_mode_selection
  from sel mapGet_codexcli have c:
    "defaultGetFactory ''codexcli'' False =
       Inr \<lparr>resolvedClass = CodexCliSimulatedSkill,
            resolvedMeta = \<lparr>supportsProject = True, supportsSimulated = True, supportsGlobal = True\<rparr>\<rparr>
     \<and> defaultGetFactory ''codexcli'' True =
       Inr \<lparr>resolvedClass = CodexCliSkill,
            resolvedMeta = \<lparr>supportsProject = True, supportsSimulated = True, supportsGlobal = True\<rparr>\<rparr>"
    by fastforce
  from sel mapGet_claudecode have d:
    "defaultGetFactory ''claudecode'' False =
       Inr \<lparr>resolvedClass = ClaudecodeSkill,
            resolvedMeta = \<lparr>supportsProject = True, supportsSimulated = False, supportsGlobal = True\<rparr>\<rparr>
     \<and> defaultGetFactory ''claudecode'' True =
       Inr \<lparr>resolvedClass = ClaudecodeSkill,
            resolvedMeta = \<lparr>supportsProject = True, supportsSimulated = False, supportsGlobal = True\<rparr>\<rparr>"
    by fastforce
  from sel mapGet_roo have r:
    "defaultGetFactory ''roo'' False = Inl (Error (''Unsupported tool target: '' @ ''roo''))
     \<and> defaultGetFactory ''roo'' True = Inl (Error (''Unsupported tool target: '' @ ''roo''))"
    by blast
  from c d r show ?thesis by simp
qed

section \<open>Properties of the configuration resolver\<close>

lemma nullish_chain4:
  "nullishOr (nullish (nullish (nullish a b) c) d) e = specFirstDefinedWins [a, b, c, d] e"
  by (cases a; cases b; cases c; cases d) simp_all

lemma nullish_defined: "nullish a b \<noteq> None \<longleftrightarrow> a \<noteq> None \<or> b \<noteq> None"
  by (cases a) simp_all

lemma loadConfigByFile_ok_logs: "loadConfigByFile env vp = (flogs, Inr cf) \<Longrightarrow> flogs = []"
  by (auto simp: loadConfigByFile_def split: if_splits sum.splits)

lemma nullish_None: "nullish a b = None \<longleftrightarrow> a = None \<and> b = None"
  by (cases a) simp_all

lemma fst_case_sum: "fst (case r of Inl e \<Rightarrow> (w, f e) | Inr d \<Rightarrow> (w, g d)) = w"
  by (cases r) simp_all

lemma resolveWith_warnings:
  "fst (resolveWith env ps cf) = specDeprecationWarnings ps cf"
  unfolding resolveWith_def Let_def fst_case_sum specDeprecationWarnings_def
  by (simp add: nullish_None warnDeprecatedOptions_def)

lemma resolveWith_ok:
  assumes "getBaseDirsInLightOfGlobal env
             (nullishOr (nullish (p_baseDirs ps) (p_baseDirs cf)) [ce_cwd env])
             (specFirstDefinedWins [p_global ps, p_global cf, p_experimentalGlobal ps, p_experimentalGlobal cf] False) = Inr dirs"
  shows "\<exists>c. snd (resolveWith env ps cf) = Inr c
     \<and> getBaseDirs c = dirs
     \<and> getGlobal c = specFirstDefinedWins [p_global ps, p_global cf, p_experimentalGlobal ps, p_experimentalGlobal cf] False
     \<and> getSimulateCommands c = specFirstDefinedWins [p_simulateCommands ps, p_simulateCommands cf, p_experimentalSimulateCommands ps, p_experimentalSimulateCommands cf] False
     \<and> getSimulateSubagents c = specFirstDefinedWins [p_simulateSubagents ps, p_simulateSubagents cf, p_experimentalSimulateSubagents ps, p_experimentalSimulateSubagents cf] False"
  using assms unfolding resolveWith_def Let_def nullish_chain4
  by (simp add: newConfig_def)


text \<open>
  Claim C6. Whenever the configuration path is accepted, the configuration file is absent
  or loads, and the base directories are accepted, \<open>resolve\<close> returns a configuration
  in which \<open>global\<close>, \<open>simulateCommands\<close> and \<open>simulateSubagents\<close> are each the first
  defined value among: the new command-line option, the new configuration-file option, the
  deprecated command-line option, the deprecated configuration-file option, and
  \<open>false\<close>. The log then consists of one deprecation warning for each deprecated option
  defined by either source, used or not.
\<close>

theorem resolve_first_defined_wins:
  assumes path: "ce_resolvePath env (nullishOr (p_configPath ps) defaultConfigPath) (ce_cwd env) = Inr vp"
    and cfile: "loadConfigByFile env vp = (flogs, Inr cf)"
    and dirs: "getBaseDirsInLightOfGlobal env
             (nullishOr (nullish (p_baseDirs ps) (p_baseDirs cf)) [ce_cwd env])
             (specFirstDefinedWins [p_global ps, p_global cf, p_experimentalGlobal ps, p_experimentalGlobal cf] False) = Inr ds"
  shows "\<exists>c. resolve env ps = (specDeprecationWarnings ps cf, Inr c)
     \<and> getGlobal c = specFirstDefinedWins [p_global ps, p_global cf, p_experimentalGlobal ps, p_experimentalGlobal cf] False
     \<and> getSimulateCommands c = specFirstDefinedWins [p_simulateCommands ps, p_simulateCommands cf, p_experimentalSimulateCommands ps, p_experimentalSimulateCommands cf] False
     \<and> getSimulateSubagents c = specFirstDefinedWins [p_simulateSubagents ps, p_simulateSubagents cf, p_experimentalSimulateSubagents ps, p_experimentalSimulateSubagents cf] False"
proof -
  from resolveWith_ok [OF dirs] obtain c where c: "snd (resolveWith env ps cf) = Inr c"
    and g: "getGlobal c = specFirstDefinedWins [p_global ps, p_global cf, p_experimentalGlobal ps, p_experimentalGlobal cf] False"
    and sc: "getSimulateCommands c = specFirstDefinedWins [p_simulateCommands ps, p_simulateCommands cf, p_experimentalSimulateCommands ps, p_experimentalSimulateCommands cf] False"
    and ss: "getSimulateSubagents c = specFirstDefinedWins [p_simulateSubagents ps, p_simulateSubagents cf, p_experimentalSimulateSubagents ps, p_experimentalSimulateSubagents cf] False"
    by blast
  have rw: "resolveWith env ps cf = (specDeprecationWarnings ps cf, Inr c)"
    using c resolveWith_warnings [of env ps cf] by (cases "resolveWith env ps cf") simp
  have "flogs = []" using cfile by (rule loadConfigByFile_ok_logs)
  with path cfile rw have "resolve env ps = (specDeprecationWarnings ps cf, Inr c)"
    by (simp add: resolve_def)
  with g sc ss show ?thesis by blast
qed

text \<open>
  A run where the file sets \<open>global: false\<close> and \<open>experimentalGlobal: true\<close> and the
  command line sets \<open>experimentalSimulateCommands\<close>: the new option wins for
  \<open>global\<close>, the deprecated one is used for \<open>simulateCommands\<close>, both are warned about.
\<close>

theorem resolve_first_defined_wins_witness:
  "\<exists>c. resolve sampleConfigEnv sampleResolveParams =
        ([(LogWarn, [CHR 0x27] @ ''experimentalGlobal'' @ [CHR 0x27] @
               '' option is deprecated. Please use '' @ [CHR 0x27] @ ''global'' @ [CHR 0x27] @ '' instead.''),
          (LogWarn, [CHR 0x27] @ ''experimentalSimulateCommands'' @ [CHR 0x27] @
               '' option is deprecated. Please use '' @ [CHR 0x27] @ ''simulateCommands'' @ [CHR 0x27] @ '' instead.'')],
         Inr c)
     \<and> getGlobal c = False \<and> getSimulateCommands c = True \<and> getSimulateSubagents c = False"
proof -
  let ?cf = "emptyConfigParams\<lparr>p_global := Some False, p_experimentalGlobal := Some True\<rparr>"
  have path: "ce_resolvePath sampleConfigEnv
                (nullishOr (p_configPath sampleResolveParams) defaultConfigPath)
                (ce_cwd sampleConfigEnv) = Inr ''/work/rulesync.jsonc''"
    by (simp add: sampleConfigEnv_def sampleResolveParams_def defaultConfigPath_def
        partial_config_params.extend_def resolve_params.fields_def emptyConfigParams_def)
  have cfile: "loadConfigByFile sampleConfigEnv ''/work/rulesync.jsonc'' = ([], Inr ?cf)"
    by (simp add: loadConfigByFile_def sampleConfigEnv_def)
  have dirs: "getBaseDirsInLightOfGlobal sampleConfigEnv
             (nullishOr (nullish (p_baseDirs sampleResolveParams) (p_baseDirs ?cf)) [ce_cwd sampleConfigEnv])
             (specFirstDefinedWins [p_global sampleResolveParams, p_global ?cf,
                 p_experimentalGlobal sampleResolveParams, p_experimentalGlobal ?cf] False) = Inr [''/work'']"
    by (simp add: getBaseDirsInLightOfGlobal_def sampleConfigEnv_def sampleResolveParams_def
        partial_config_params.extend_def resolve_params.fields_def emptyConfigParams_def)
  from resolve_first_defined_wins [OF path cfile dirs] show ?thesis
    by (simp add: specDeprecationWarnings_def sampleResolveParams_def
        partial_config_params.extend_def resolve_params.fields_def emptyConfigParams_def)
qed

section \<open>Properties of loading the canonical rule store\<close>

lemma filterRulesyncRules_map: "filterRulesyncRules (map RulesyncRuleFile rs) = rs"
  by (induction rs) simp_all

lemma loadRulesyncFiles_parsed:
  assumes "re_findFilesByGlobs env (pathJoin [re_RULESYNC_RULES_RELATIVE_DIR_PATH env, ''*.md'']) = Inr files"
    and "map (\<lambda>file. re_rulesyncRuleFromFile env (basename file)) files = map Inr rules"
  shows "loadRulesyncFiles env p =
     (let found = [(LogDebug, ''Found '' @ stringOfNat (length files) @ '' rulesync files'')];
          rootRules = filter isRootRulesyncRule rules;
          nonRootRules = filter (\<lambda>rule. \<not> isRootRulesyncRule rule) rules
      in if length rootRules > 1 then (found, Inl (Error ''Multiple root rulesync rules found''))
         else if rp_global p
         then (found @ (if length nonRootRules > 0
                 then [(LogWarn, stringOfNat (length nonRootRules) @
                          '' non-root rulesync rules found, but it'' @ [CHR 0x27] @
                          ''s in global mode, so ignoring them'')]
                 else []),
               Inr (map RulesyncRuleFile rootRules))
         else (found, Inr (map RulesyncRuleFile rules)))"
  using assms by (simp add: loadRulesyncFiles_def promiseAll_map_Inr Let_def)

lemma filter_singleton_holds: "filter P xs = [r] \<Longrightarrow> P r"
proof -
  assume "filter P xs = [r]"
  then have "r \<in> set (filter P xs)" by simp
  then show "P r" by simp
qed

text \<open>
  Claim C4. When every file of the canonical rule store parses, loading fails with the
  error \<open>Multiple root rulesync rules found\<close> as soon as two or more of the loaded
  documents have \<open>root = true\<close>, in project and in global mode; with exactly one such
  document the load succeeds and that document is the one root document of the output.
\<close>

theorem loadRulesyncFiles_root_uniqueness:
  assumes "re_findFilesByGlobs env (pathJoin [re_RULESYNC_RULES_RELATIVE_DIR_PATH env, ''*.md'']) = Inr files"
    and "map (\<lambda>file. re_rulesyncRuleFromFile env (basename file)) files = map Inr rules"
  shows "(2 \<le> length (filter isRootRulesyncRule rules) \<longrightarrow>
            snd (loadRulesyncFiles env p) = Inl (Error ''Multiple root rulesync rules found''))
       \<and> (\<forall>r. filter isRootRulesyncRule rules = [r] \<longrightarrow>
            (\<exists>out. snd (loadRulesyncFiles env p) = Inr out
                  \<and> filter isRootRulesyncRule (filterRulesyncRules out) = [r]))"
  unfolding loadRulesyncFiles_parsed [OF assms]
  by (auto simp: Let_def filterRulesyncRules_map dest: filter_singleton_holds)


lemma sampleEnv_glob:
  "re_findFilesByGlobs (sampleRulesEnv tool store sampleGlobTable toolStore)
     (pathJoin [re_RULESYNC_RULES_RELATIVE_DIR_PATH (sampleRulesEnv tool store sampleGlobTable toolStore), ''*.md''])
   = Inr [''.rulesync/rules/overview.md'', ''.rulesync/rules/style.md'']"
  by (simp add: sampleRulesEnv_def sampleGlobTable_def pathJoin_def)

lemma basename_overview: "basename ''.rulesync/rules/overview.md'' = ''overview.md''"
  by (simp add: basename_def)

lemma basename_style: "basename ''.rulesync/rules/style.md'' = ''style.md''"
  by (simp add: basename_def)

lemma sampleEnv_parse:
  "map (\<lambda>file. re_rulesyncRuleFromFile (sampleRulesEnv tool sampleCanonicalStore globs toolStore) (basename file))
     [''.rulesync/rules/overview.md'', ''.rulesync/rules/style.md'']
   = map Inr [introRule, styleRule]"
  by (simp add: sampleRulesEnv_def sampleCanonicalStore_def basename_overview basename_style)

lemma sampleEnv_parse_twoRoots:
  "map (\<lambda>file. re_rulesyncRuleFromFile (sampleRulesEnv tool twoRootsStore globs toolStore) (basename file))
     [''.rulesync/rules/overview.md'', ''.rulesync/rules/style.md'']
   = map Inr [introRule, secondRootRule]"
  by (simp add: sampleRulesEnv_def twoRootsStore_def basename_overview basename_style)

lemma sample_roots:
  "isRootRulesyncRule introRule" "\<not> isRootRulesyncRule styleRule" "isRootRulesyncRule secondRootRule"
  by (simp_all add: isRootRulesyncRule_def introRule_def styleRule_def secondRootRule_def)

text \<open>
  A store with two root rules, and the store of the end-to-end example with one.
\<close>

theorem loadRulesyncFiles_root_uniqueness_witness:
  "snd (loadRulesyncFiles (sampleRulesEnv ''claudecode'' twoRootsStore sampleGlobTable [])
          (sampleRulesProcessor ''claudecode'' False False False False))
     = Inl (Error ''Multiple root rulesync rules found'')
   \<and> (\<exists>out. snd (loadRulesyncFiles (sampleRulesEnv ''claudecode'' sampleCanonicalStore sampleGlobTable [])
                     (sampleRulesProcessor ''claudecode'' False False False False)) = Inr out
          \<and> filter isRootRulesyncRule (filterRulesyncRules out) = [introRule])"
proof -
  have two: "2 \<le> length (filter isRootRulesyncRule [introRule, secondRootRule])"
    by (simp add: sample_roots)
  have one: "filter isRootRulesyncRule [introRule, styleRule] = [introRule]"
    by (simp add: sample_roots)
  from loadRulesyncFiles_root_uniqueness [OF sampleEnv_glob sampleEnv_parse_twoRoots] two
    loadRulesyncFiles_root_uniqueness [OF sampleEnv_glob sampleEnv_parse] one
  show ?thesis by blast
qed

lemma stringOfNat_1: "stringOfNat 1 = ''1''"
  by code_simp
lemma stringOfNat_2: "stringOfNat 2 = ''2''"
  by code_simp
lemma stringOfNat_Suc0: "stringOfNat (Suc 0) = ''1''"
  using stringOfNat_1 by simp
lemma stringOfNat_Suc1: "stringOfNat (Suc (Suc 0)) = ''2''"
  using stringOfNat_2 by (simp add: numeral_2_eq_2)

text \<open>
  Claim C8. In global mode, when every file parses and at most one document is a root,
  loading returns the root documents only (none when there is none): no non-root document
  is in the result. When at least one non-root document was found, the log carries,
  after the debug note, one warning that states how many were ignored, and the load still
  succeeds; when none was found there is no warning.
\<close>

theorem loadRulesyncFiles_global_root_only:
  assumes "re_findFilesByGlobs env (pathJoin [re_RULESYNC_RULES_RELATIVE_DIR_PATH env, ''*.md'']) = Inr files"
    and "map (\<lambda>file. re_rulesyncRuleFromFile env (basename file)) files = map Inr rules"
    and "rp_global p"
    and "length (filter isRootRulesyncRule rules) \<le> 1"
  shows "snd (loadRulesyncFiles env p) = Inr (map RulesyncRuleFile (filter isRootRulesyncRule rules))
       \<and> (\<forall>r \<in> set rules. \<not> isRootRulesyncRule r \<longrightarrow>
             RulesyncRuleFile r \<notin> set (projr (snd (loadRulesyncFiles env p))))
       \<and> (0 < length (filter (\<lambda>rule. \<not> isRootRulesyncRule rule) rules) \<longrightarrow>
             fst (loadRulesyncFiles env p) =
               [(LogDebug, ''Found '' @ stringOfNat (length files) @ '' rulesync files''),
                (LogWarn, stringOfNat (length (filter (\<lambda>rule. \<not> isRootRulesyncRule rule) rules)) @
                   '' non-root rulesync rules found, but it'' @ [CHR 0x27] @
                   ''s in global mode, so ignoring them'')])
       \<and> (length (filter (\<lambda>rule. \<not> isRootRulesyncRule rule) rules) = 0 \<longrightarrow>
             fst (loadRulesyncFiles env p) =
               [(LogDebug, ''Found '' @ stringOfNat (length files) @ '' rulesync files'')])"
  unfolding loadRulesyncFiles_parsed [OF assms(1,2)]
  using assms(3,4) by (auto simp: Let_def)

text \<open>
  The store of the end-to-end example loaded in global mode: the style rule is dropped
  and counted in the warning.
\<close>

theorem loadRulesyncFiles_global_root_only_witness:
  "loadRulesyncFiles (sampleRulesEnv ''claudecode'' sampleCanonicalStore sampleGlobTable [])
          (sampleRulesProcessor ''claudecode'' True False False False)
     = ([(LogDebug, ''Found 2 rulesync files''),
         (LogWarn, ''1 non-root rulesync rules found, but it'' @ [CHR 0x27] @
                   ''s in global mode, so ignoring them'')],
        Inr [RulesyncRuleFile introRule])"
proof -
  let ?env = "sampleRulesEnv ''claudecode'' sampleCanonicalStore sampleGlobTable []"
  let ?p = "sampleRulesProcessor ''claudecode'' True False False False"
  have g: "rp_global ?p" by (simp add: sampleRulesProcessor_def)
  have l: "length (filter isRootRulesyncRule [introRule, styleRule]) \<le> 1"
    by (simp add: sample_roots)
  from loadRulesyncFiles_global_root_only
         [OF sampleEnv_glob [of "''claudecode''" sampleCanonicalStore "[]"]
             sampleEnv_parse [of "''claudecode''" sampleGlobTable "[]"] g l]
  have "snd (loadRulesyncFiles ?env ?p) = Inr [RulesyncRuleFile introRule]"
    and "fst (loadRulesyncFiles ?env ?p) =
       [(LogDebug, ''Found 2 rulesync files''),
        (LogWarn, ''1 non-root rulesync rules found, but it'' @ [CHR 0x27] @
                   ''s in global mode, so ignoring them'')]"
    by (simp_all add: sample_roots stringOfNat_Suc0 stringOfNat_Suc1)
  then show ?thesis by (cases "loadRulesyncFiles ?env ?p") simp
qed

section \<open>Properties of the skills processor\<close>

lemma convertToolSkillsLoop_eq:
  "convertToolSkillsLoop toolSkills =
     (map (\<lambda>s. (LogDebug, ''Skipping simulated skill conversion: '' @ getDirPath s))
          (filter instanceofSimulatedSkill toolSkills),
      Inr (map (\<lambda>s. projr (toRulesyncSkill s))
               (filter (\<lambda>s. \<not> instanceofSimulatedSkill s) toolSkills)))"
proof (induction toolSkills)
  case Nil
  show ?case by simp
next
  case (Cons s rest)
  show ?case
  proof (cases s)
    case (NativeSkill f)
    with Cons show ?thesis by simp
  next
    case (SimulatedSkill f)
    with Cons show ?thesis by simp
  qed
qed

text \<open>
  Claim C7. Reverse conversion of a Simulated variant fails with the fixed error, whatever
  its fields. \<open>convertToolDirsToRulesyncDirs\<close> does not convert simulated skills back:
  it writes one debug note for each of them and returns the canonical documents of the
  other tool skills, in their order, without failing.
\<close>

theorem simulated_skills_are_skipped:
  "(\<forall>f. toRulesyncSkill (SimulatedSkill f) =
          Inl (Error ''Not implemented because it is a SIMULATED skill.''))
   \<and> convertToolDirsToRulesyncDirs toolDirs =
       (map (\<lambda>s. (LogDebug, ''Skipping simulated skill conversion: '' @ getDirPath s))
            (filter instanceofSimulatedSkill (filterToolSkills toolDirs)),
        Inr (map (\<lambda>s. RulesyncSkillDir (projr (toRulesyncSkill s)))
                 (filter (\<lambda>s. \<not> instanceofSimulatedSkill s) (filterToolSkills toolDirs))))"
  by (simp add: convertToolDirsToRulesyncDirs_def convertToolSkillsLoop_eq)

text \<open>
  A simulated skill, a directory that is no tool skill, and a native skill.
\<close>

theorem simulated_skills_are_skipped_witness:
  "toRulesyncSkill (SimulatedSkill (sampleSkillFields CodexCliSimulatedSkill ''.codex/skills'' ''test-skill''))
     = Inl (Error ''Not implemented because it is a SIMULATED skill.'')
   \<and> convertToolDirsToRulesyncDirs
        [ToolSkillDir (SimulatedSkill (sampleSkillFields CodexCliSimulatedSkill ''.codex/skills'' ''test-skill'')),
         OtherDir ''x'',
         ToolSkillDir (NativeSkill (sampleSkillFields ClaudecodeSkill ''.claude/skills'' ''native-skill''))]
     = ([(LogDebug, ''Skipping simulated skill conversion: /work/.codex/skills/test-skill'')],
        Inr [RulesyncSkillDir
               \<lparr>rs_baseDir = ''/work'', rs_dirName = ''native-skill'', rs_name = ''Test Skill'',
                rs_description = ''Test description'', rs_targets = [''*''], rs_body = ''Test body''\<rparr>])"
  using simulated_skills_are_skipped
    [of "[ToolSkillDir (SimulatedSkill (sampleSkillFields CodexCliSimulatedSkill ''.codex/skills'' ''test-skill'')),
         OtherDir ''x'',
         ToolSkillDir (NativeSkill (sampleSkillFields ClaudecodeSkill ''.claude/skills'' ''native-skill''))]"]
  by (simp add: sampleSkillFields_def getDirPath_def pathJoin_def)

section \<open>The additional-conventions rule of Cursor and Roo\<close>

lemma rootContentPrefix_cursor: "rp_toolTarget p = ''cursor'' \<Longrightarrow> rootContentPrefix env p trs = None"
  by (simp add: rootContentPrefix_def)

lemma rootContentPrefix_roo: "rp_toolTarget p = ''roo'' \<Longrightarrow> rootContentPrefix env p trs = None"
  by (simp add: rootContentPrefix_def)

lemma injectRootContent_default:
  "rootContentPrefix env p trs = None \<Longrightarrow> injectRootContent env p trs = trs"
  by (simp add: injectRootContent_def split: option.splits)

lemma injectRootContent_length: "length (injectRootContent env p trs) = length trs"
  by (simp add: injectRootContent_def Let_def split: option.splits)

lemma convert_stages:
  assumes "rp_getFactory p (rp_toolTarget p) = Inr factory"
    and "convertTargetedRules env p factory (filterRulesyncRules files) = Inr toolRules"
    and "pushCursorConventionRule env p toolRules = Inr toolRules1"
    and "pushRooConventionRule env p toolRules1 = Inr toolRules2"
  shows "convertRulesyncFilesToToolFiles env p files =
           Inr (map ToolRuleFile (injectRootContent env p toolRules2))"
  using assms by (simp add: convertRulesyncFilesToToolFiles_def Let_def)

lemma convertTargetedRules_build:
  assumes "\<forall>r \<in> set rules. isTargetedByRulesyncRule (re_statics env (ruleClass factory)) r \<longrightarrow>
             fromRulesyncRule (re_statics env (ruleClass factory))
               \<lparr>frr_baseDir = rp_baseDir p, frr_rulesyncRule = r,
                frr_validate = True, frr_global = rp_global p\<rparr> = Inr (build r)"
  shows "convertTargetedRules env p factory rules =
           Inr (map build (filter (isTargetedByRulesyncRule (re_statics env (ruleClass factory))) rules))"
  unfolding convertTargetedRules_eq
  by (rule promiseAll_all_succeed) (use assms in simp)

text \<open>
  Claim C10. Let the factory be resolved and the targeted canonical rules convert. When a
  simulate flag is set and the tool target is \<open>cursor\<close> (or \<open>roo\<close>), and the
  constructor accepts its arguments, the output is the converted rules followed by the
  additional-conventions rule; this holds for every input, so also for an input with no
  root rule and for one in which no rule is targeted, where the output is that rule alone.
  In every other case the output has as many documents as there are targeted rules: no
  document is added.
\<close>

theorem convention_rule_depends_on_flags_and_target:
  assumes factory: "rp_getFactory p (rp_toolTarget p) = Inr factory"
    and build: "\<forall>r \<in> set (filterRulesyncRules files).
             isTargetedByRulesyncRule (re_statics env (ruleClass factory)) r \<longrightarrow>
             fromRulesyncRule (re_statics env (ruleClass factory))
               \<lparr>frr_baseDir = rp_baseDir p, frr_rulesyncRule = r,
                frr_validate = True, frr_global = rp_global p\<rparr> = Inr (build r)"
  shows "(isSimulated p \<and> rp_toolTarget p = ''cursor'' \<longrightarrow>
            (\<forall>rule. re_newCursorRule env (cursorConventionRuleParams env p) = Inr rule \<longrightarrow>
               convertRulesyncFilesToToolFiles env p files =
                 Inr (map ToolRuleFile
                        (map build (filter (isTargetedByRulesyncRule (re_statics env (ruleClass factory)))
                                           (filterRulesyncRules files)) @ [rule]))))
       \<and> (isSimulated p \<and> rp_toolTarget p = ''roo'' \<longrightarrow>
            (\<forall>rule. re_newRooRule env (rooConventionRuleParams env p) = Inr rule \<longrightarrow>
               convertRulesyncFilesToToolFiles env p files =
                 Inr (map ToolRuleFile
                        (map build (filter (isTargetedByRulesyncRule (re_statics env (ruleClass factory)))
                                           (filterRulesyncRules files)) @ [rule]))))
       \<and> (\<not> (isSimulated p \<and> (rp_toolTarget p = ''cursor'' \<or> rp_toolTarget p = ''roo'')) \<longrightarrow>
            (\<exists>out. convertRulesyncFilesToToolFiles env p files = Inr out
                  \<and> length out = length (filter (isTargetedByRulesyncRule (re_statics env (ruleClass factory)))
                                                (filterRulesyncRules files))))"
proof -
  let ?trs = "map build (filter (isTargetedByRulesyncRule (re_statics env (ruleClass factory)))
                                (filterRulesyncRules files))"
  have conv: "convertTargetedRules env p factory (filterRulesyncRules files) = Inr ?trs"
    using build by (rule convertTargetedRules_build)
  have cursor: "convertRulesyncFilesToToolFiles env p files = Inr (map ToolRuleFile (?trs @ [rule]))"
    if "isSimulated p" "rp_toolTarget p = ''cursor''"
      "re_newCursorRule env (cursorConventionRuleParams env p) = Inr rule" for rule
  proof -
    have c: "pushCursorConventionRule env p ?trs = Inr (?trs @ [rule])"
      using that by (simp add: pushCursorConventionRule_def)
    have r: "pushRooConventionRule env p (?trs @ [rule]) = Inr (?trs @ [rule])"
      using that by (simp add: pushRooConventionRule_def)
    from convert_stages [OF factory conv c r] that(2) show ?thesis
      by (simp add: injectRootContent_default rootContentPrefix_cursor)
  qed
  have roo: "convertRulesyncFilesToToolFiles env p files = Inr (map ToolRuleFile (?trs @ [rule]))"
    if "isSimulated p" "rp_toolTarget p = ''roo''"
      "re_newRooRule env (rooConventionRuleParams env p) = Inr rule" for rule
  proof -
    have c: "pushCursorConventionRule env p ?trs = Inr ?trs"
      using that by (simp add: pushCursorConventionRule_def)
    have r: "pushRooConventionRule env p ?trs = Inr (?trs @ [rule])"
      using that by (simp add: pushRooConventionRule_def)
    from convert_stages [OF factory conv c r] that(2) show ?thesis
      by (simp add: injectRootContent_default rootContentPrefix_roo)
  qed
  have other: "\<exists>out. convertRulesyncFilesToToolFiles env p files = Inr out \<and> length out = length ?trs"
    if "\<not> (isSimulated p \<and> (rp_toolTarget p = ''cursor'' \<or> rp_toolTarget p = ''roo''))"
  proof -
    have c: "pushCursorConventionRule env p ?trs = Inr ?trs"
      using that by (auto simp: pushCursorConventionRule_def)
    have r: "pushRooConventionRule env p ?trs = Inr ?trs"
      using that by (auto simp: pushRooConventionRule_def)
    from convert_stages [OF factory conv c r] show ?thesis
      by (simp add: injectRootContent_length)
  qed
  from cursor roo other show ?thesis by (simp only: length_map) blast
qed


lemma rulesDefaultGetFactory_cursor:
  "rulesDefaultGetFactory ''cursor'' = Inr \<lparr>ruleClass = CursorRule, extension = ''mdc''\<rparr>"
  by (simp add: rulesDefaultGetFactory_def mapGet_def toolRuleFactories_def)

lemma rulesDefaultGetFactory_roo:
  "rulesDefaultGetFactory ''roo'' = Inr \<lparr>ruleClass = RooRule, extension = ''md''\<rparr>"
  by (simp add: rulesDefaultGetFactory_def mapGet_def toolRuleFactories_def)

lemma sample_statics [simp]:
  "re_statics (sampleRulesEnv tool cs gt ts) = sampleRuleAdapter tool ts"
  by (simp add: sampleRulesEnv_def)

lemma sample_fromRulesyncRule [simp]:
  "fromRulesyncRule (sampleRuleAdapter tool ts c) params = Inr (sampleFromRulesyncRule c params)"
  by (simp add: sampleRuleAdapter_def)

lemma sample_isTargeted [simp]:
  "isTargetedByRulesyncRule (sampleRuleAdapter tool ts c) = isTargetedByRulesyncRuleDefault tool"
  by (simp add: sampleRuleAdapter_def)

lemma sample_processor_fields [simp]:
  "rp_toolTarget (sampleRulesProcessor tool g c s k) = tool"
  "rp_getFactory (sampleRulesProcessor tool g c s k) = rulesDefaultGetFactory"
  "rp_baseDir (sampleRulesProcessor tool g c s k) = ''/work''"
  "rp_global (sampleRulesProcessor tool g c s k) = g"
  "rp_simulateCommands (sampleRulesProcessor tool g c s k) = c"
  "rp_simulateSubagents (sampleRulesProcessor tool g c s k) = s"
  "rp_simulateSkills (sampleRulesProcessor tool g c s k) = k"
  by (simp_all add: sampleRulesProcessor_def)

lemma secondRootRule_not_cursor:
  "\<not> isTargetedByRulesyncRuleDefault ''cursor'' secondRootRule"
  "\<not> isTargetedByRulesyncRuleDefault ''roo'' secondRootRule"
  by (simp_all add: isTargetedByRulesyncRuleDefault_def secondRootRule_def)

text \<open>
  For \<open>cursor\<close> with \<open>simulateCommands\<close> and one rule that is not targeted, and for
  \<open>roo\<close> with \<open>simulateSubagents\<close> and no input at all, the output is the
  additional-conventions rule alone; for \<open>cursor\<close> without any flag it is empty.
\<close>

theorem convention_rule_depends_on_flags_and_target_witness:
  "convertRulesyncFilesToToolFiles (sampleRulesEnv ''cursor'' [] [] [])
       (sampleRulesProcessor ''cursor'' False True False False) [RulesyncRuleFile secondRootRule]
     = Inr [ToolRuleFile (sampleConventionRule CursorRule ''/work'' ''CursorRule.nonRoot''
              ''additional-conventions.mdc''
              (generateAdditionalConventionsSection (sampleRulesEnv ''cursor'' [] [] [])
                 (sampleRulesProcessor ''cursor'' False True False False)
                 (Some ''CursorCommand'') (Some ''CursorSubagent'') (Some ''CursorSkill'')))]
   \<and> convertRulesyncFilesToToolFiles (sampleRulesEnv ''roo'' [] [] [])
       (sampleRulesProcessor ''roo'' False False True False) []
     = Inr [ToolRuleFile (sampleConventionRule RooRule ''/work'' ''RooRule.nonRoot''
              ''additional-conventions.md''
              (generateAdditionalConventionsSection (sampleRulesEnv ''roo'' [] [] [])
                 (sampleRulesProcessor ''roo'' False False True False)
                 (Some ''RooCommand'') (Some ''RooSubagent'') None))]
   \<and> (\<exists>out. convertRulesyncFilesToToolFiles (sampleRulesEnv ''cursor'' [] [] [])
       (sampleRulesProcessor ''cursor'' False False False False) [RulesyncRuleFile secondRootRule]
       = Inr out \<and> length out = 0)"
proof -
  let ?build = "\<lambda>c r. sampleFromRulesyncRule c
      \<lparr>frr_baseDir = ''/work'', frr_rulesyncRule = r, frr_validate = True, frr_global = False\<rparr>"
  let ?ec = "sampleRulesEnv ''cursor'' [] [] []"
  let ?pc = "sampleRulesProcessor ''cursor'' False True False False"
  let ?er = "sampleRulesEnv ''roo'' [] [] []"
  let ?pr = "sampleRulesProcessor ''roo'' False False True False"
  let ?pn = "sampleRulesProcessor ''cursor'' False False False False"
  have fc: "rp_getFactory ?pc (rp_toolTarget ?pc) = Inr \<lparr>ruleClass = CursorRule, extension = ''mdc''\<rparr>"
    by (simp add: rulesDefaultGetFactory_cursor)
  have fr: "rp_getFactory ?pr (rp_toolTarget ?pr) = Inr \<lparr>ruleClass = RooRule, extension = ''md''\<rparr>"
    by (simp add: rulesDefaultGetFactory_roo)
  have fn: "rp_getFactory ?pn (rp_toolTarget ?pn) = Inr \<lparr>ruleClass = CursorRule, extension = ''mdc''\<rparr>"
    by (simp add: rulesDefaultGetFactory_cursor)
  have c: "convertRulesyncFilesToToolFiles ?ec ?pc [RulesyncRuleFile secondRootRule]
     = Inr [ToolRuleFile (sampleConventionRule CursorRule ''/work'' ''CursorRule.nonRoot''
              ''additional-conventions.mdc''
              (generateAdditionalConventionsSection ?ec ?pc
                 (Some ''CursorCommand'') (Some ''CursorSubagent'') (Some ''CursorSkill'')))]"
    using convention_rule_depends_on_flags_and_target
            [of ?pc _ "[RulesyncRuleFile secondRootRule]" ?ec "?build CursorRule", OF fc]
    by (simp add: isSimulated_def secondRootRule_not_cursor cursorConventionRuleParams_def
          sampleRulesEnv_def)
  have r: "convertRulesyncFilesToToolFiles ?er ?pr []
     = Inr [ToolRuleFile (sampleConventionRule RooRule ''/work'' ''RooRule.nonRoot''
              ''additional-conventions.md''
              (generateAdditionalConventionsSection ?er ?pr
                 (Some ''RooCommand'') (Some ''RooSubagent'') None))]"
    using convention_rule_depends_on_flags_and_target
            [of ?pr _ "[]" ?er "?build RooRule", OF fr]
    by (simp add: isSimulated_def rooConventionRuleParams_def sampleRulesEnv_def)
  have n: "\<exists>out. convertRulesyncFilesToToolFiles ?ec ?pn [RulesyncRuleFile secondRootRule]
       = Inr out \<and> length out = 0"
    using convention_rule_depends_on_flags_and_target
            [of ?pn _ "[RulesyncRuleFile secondRootRule]" ?ec "?build CursorRule", OF fn]
    by (simp add: isSimulated_def secondRootRule_not_cursor)
  from c r n show ?thesis by blast
qed

section \<open>Targeting\<close>

lemma injectRootContent_apart_from_content:
  "map (\<lambda>r. r\<lparr>tr_fileContent := []\<rparr>) (injectRootContent env p trs)
     = map (\<lambda>r. r\<lparr>tr_fileContent := []\<rparr>) trs"
proof (cases "findIndex tr_root trs")
  case None
  then show ?thesis by (simp add: injectRootContent_def)
next
  case (Some i)
  then have i: "i < length trs" by (simp add: findIndex_Some)
  show ?thesis
  proof (cases "rootContentPrefix env p trs")
    case None
    with Some show ?thesis by (simp add: injectRootContent_def)
  next
    case (Some injected)
    with \<open>findIndex tr_root trs = Some i\<close> i show ?thesis
      by (simp add: injectRootContent_def Let_def map_update list_update_same_conv)
  qed
qed

lemma convertRulesyncDirsToToolDirs_build:
  assumes "sp_getFactory sp (sp_toolTarget sp) (sp_global sp) = Inr factory"
    and "\<forall>s \<in> set (filterRulesyncSkills dirs).
           isTargetedByRulesyncSkill (se_statics env (resolvedClass factory)) s \<longrightarrow>
           fromRulesyncSkill (se_statics env (resolvedClass factory))
             \<lparr>frs_rulesyncSkill = s, frs_global = sp_global sp\<rparr> = Inr (build s)"
  shows "convertRulesyncDirsToToolDirs env sp dirs =
           Inr (map (\<lambda>s. ToolSkillDir (build s))
                    (filter (isTargetedByRulesyncSkill (se_statics env (resolvedClass factory)))
                            (filterRulesyncSkills dirs)))"
proof -
  have "promiseAll
          (map (\<lambda>s. fromRulesyncSkill (se_statics env (resolvedClass factory))
                       \<lparr>frs_rulesyncSkill = s, frs_global = sp_global sp\<rparr>)
               (filter (isTargetedByRulesyncSkill (se_statics env (resolvedClass factory)))
                       (filterRulesyncSkills dirs)))
        = Inr (map build (filter (isTargetedByRulesyncSkill (se_statics env (resolvedClass factory)))
                       (filterRulesyncSkills dirs)))"
    by (rule promiseAll_all_succeed) (use assms(2) in simp)
  then show ?thesis
    by (simp add: convertRulesyncDirsToToolDirs_eq [OF assms(1)] comp_def)
qed

lemma convert_rules_with_extras:
  assumes factory: "rp_getFactory p (rp_toolTarget p) = Inr factory"
    and build: "\<forall>r \<in> set (filterRulesyncRules files).
             isTargetedByRulesyncRule (re_statics env (ruleClass factory)) r \<longrightarrow>
             fromRulesyncRule (re_statics env (ruleClass factory))
               \<lparr>frr_baseDir = rp_baseDir p, frr_rulesyncRule = r,
                frr_validate = True, frr_global = rp_global p\<rparr> = Inr (build r)"
    and cursor: "\<exists>rule. re_newCursorRule env (cursorConventionRuleParams env p) = Inr rule"
    and roo: "\<exists>rule. re_newRooRule env (rooConventionRuleParams env p) = Inr rule"
  shows "\<exists>extras. length extras \<le> 1
          \<and> convertRulesyncFilesToToolFiles env p files =
              Inr (map ToolRuleFile
                    (injectRootContent env p
                       (map build (filter (isTargetedByRulesyncRule (re_statics env (ruleClass factory)))
                                          (filterRulesyncRules files)) @ extras)))"
proof -
  let ?trs = "map build (filter (isTargetedByRulesyncRule (re_statics env (ruleClass factory)))
                                (filterRulesyncRules files))"
  have conv: "convertTargetedRules env p factory (filterRulesyncRules files) = Inr ?trs"
    using build by (rule convertTargetedRules_build)
  from cursor obtain c where c: "re_newCursorRule env (cursorConventionRuleParams env p) = Inr c" ..
  from roo obtain r where r: "re_newRooRule env (rooConventionRuleParams env p) = Inr r" ..
  consider (cur) "isSimulated p" "rp_toolTarget p = ''cursor''"
    | (roo) "isSimulated p" "rp_toolTarget p = ''roo''"
    | (none) "\<not> (isSimulated p \<and> (rp_toolTarget p = ''cursor'' \<or> rp_toolTarget p = ''roo''))"
    by blast
  then show ?thesis
  proof cases
    case cur
    have 1: "pushCursorConventionRule env p ?trs = Inr (?trs @ [c])"
      using cur c by (simp add: pushCursorConventionRule_def)
    have 2: "pushRooConventionRule env p (?trs @ [c]) = Inr (?trs @ [c])"
      using cur by (simp add: pushRooConventionRule_def)
    from convert_stages [OF factory conv 1 2] show ?thesis
      by (intro exI [of _ "[c]"]) simp
  next
    case roo
    have 1: "pushCursorConventionRule env p ?trs = Inr ?trs"
      using roo by (simp add: pushCursorConventionRule_def)
    have 2: "pushRooConventionRule env p ?trs = Inr (?trs @ [r])"
      using roo r by (simp add: pushRooConventionRule_def)
    from convert_stages [OF factory conv 1 2] show ?thesis
      by (intro exI [of _ "[r]"]) simp
  next
    case none
    have 1: "pushCursorConventionRule env p ?trs = Inr ?trs"
      using none by (auto simp: pushCursorConventionRule_def)
    have 2: "pushRooConventionRule env p ?trs = Inr ?trs"
      using none by (auto simp: pushRooConventionRule_def)
    from convert_stages [OF factory conv 1 2] show ?thesis
      by (intro exI [of _ "[]"]) simp
  qed
qed

text \<open>
  Claim C9. Let the adapter resolved for the tool test targeting with the identifier of
  that tool, and let the targeted documents convert. Then the Directory Processor returns,
  in the order of the input, one tool skill for each canonical skill whose targets include
  \<open>*\<close> or the identifier of the tool, and nothing for the others, without an error. The
  File Processor returns, apart from the file contents (the root rule is rewritten) and
  from at most one additional-conventions rule at the end, one tool rule for each
  canonical rule whose targets include \<open>*\<close> or the identifier of the tool.
\<close>

theorem targeting_decides_output:
  assumes sfactory: "sp_getFactory sp (sp_toolTarget sp) (sp_global sp) = Inr sfactory"
    and stargeting: "isTargetedByRulesyncSkill (se_statics senv (resolvedClass sfactory))
                       = isTargetedByRulesyncSkillDefault (sp_toolTarget sp)"
    and sbuild: "\<forall>s \<in> set (filterRulesyncSkills dirs).
           isTargetedByRulesyncSkillDefault (sp_toolTarget sp) s \<longrightarrow>
           fromRulesyncSkill (se_statics senv (resolvedClass sfactory))
             \<lparr>frs_rulesyncSkill = s, frs_global = sp_global sp\<rparr> = Inr (sbuild s)"
    and factory: "rp_getFactory p (rp_toolTarget p) = Inr factory"
    and targeting: "isTargetedByRulesyncRule (re_statics env (ruleClass factory))
                       = isTargetedByRulesyncRuleDefault (rp_toolTarget p)"
    and build: "\<forall>r \<in> set (filterRulesyncRules files).
             isTargetedByRulesyncRuleDefault (rp_toolTarget p) r \<longrightarrow>
             fromRulesyncRule (re_statics env (ruleClass factory))
               \<lparr>frr_baseDir = rp_baseDir p, frr_rulesyncRule = r,
                frr_validate = True, frr_global = rp_global p\<rparr> = Inr (build r)"
    and cursor: "\<exists>rule. re_newCursorRule env (cursorConventionRuleParams env p) = Inr rule"
    and roo: "\<exists>rule. re_newRooRule env (rooConventionRuleParams env p) = Inr rule"
  shows "convertRulesyncDirsToToolDirs senv sp dirs =
           Inr (map (\<lambda>s. ToolSkillDir (sbuild s))
                    (filter (\<lambda>s. ''*'' \<in> set (rs_targets s) \<or> sp_toolTarget sp \<in> set (rs_targets s))
                            (filterRulesyncSkills dirs)))
       \<and> (\<exists>out extras. convertRulesyncFilesToToolFiles env p files = Inr (map ToolRuleFile out)
             \<and> length extras \<le> 1
             \<and> map (\<lambda>r. r\<lparr>tr_fileContent := []\<rparr>) out =
                 map (\<lambda>r. (build r)\<lparr>tr_fileContent := []\<rparr>)
                     (filter (\<lambda>r. ''*'' \<in> set (fm_targets (rr_frontmatter r))
                                 \<or> rp_toolTarget p \<in> set (fm_targets (rr_frontmatter r)))
                             (filterRulesyncRules files))
                 @ map (\<lambda>r. r\<lparr>tr_fileContent := []\<rparr>) extras)"
proof -
  have sk: "convertRulesyncDirsToToolDirs senv sp dirs =
           Inr (map (\<lambda>s. ToolSkillDir (sbuild s))
                    (filter (\<lambda>s. ''*'' \<in> set (rs_targets s) \<or> sp_toolTarget sp \<in> set (rs_targets s))
                            (filterRulesyncSkills dirs)))"
    using convertRulesyncDirsToToolDirs_build [of sp sfactory dirs senv sbuild] sfactory sbuild
    unfolding stargeting by (simp add: isTargetedByRulesyncSkillDefault_def [abs_def])
  from convert_rules_with_extras [of p factory files env build] factory build cursor roo
  obtain extras where e: "length extras \<le> 1"
    "convertRulesyncFilesToToolFiles env p files =
       Inr (map ToolRuleFile (injectRootContent env p
              (map build (filter (isTargetedByRulesyncRuleDefault (rp_toolTarget p))
                                 (filterRulesyncRules files)) @ extras)))"
    unfolding targeting by blast
  have "map (\<lambda>r. r\<lparr>tr_fileContent := []\<rparr>)
          (injectRootContent env p
              (map build (filter (isTargetedByRulesyncRuleDefault (rp_toolTarget p))
                                 (filterRulesyncRules files)) @ extras))
        = map (\<lambda>r. (build r)\<lparr>tr_fileContent := []\<rparr>)
                     (filter (\<lambda>r. ''*'' \<in> set (fm_targets (rr_frontmatter r))
                                 \<or> rp_toolTarget p \<in> set (fm_targets (rr_frontmatter r)))
                             (filterRulesyncRules files))
                 @ map (\<lambda>r. r\<lparr>tr_fileContent := []\<rparr>) extras"
    unfolding injectRootContent_apart_from_content
    by (simp add: isTargetedByRulesyncRuleDefault_def [abs_def] comp_def)
  with e sk show ?thesis by blast
qed


lemma defaultGetFactory_codexcli_project:
  "defaultGetFactory ''codexcli'' False =
     Inr \<lparr>resolvedClass = CodexCliSimulatedSkill,
          resolvedMeta = \<lparr>supportsProject = True, supportsSimulated = True, supportsGlobal = True\<rparr>\<rparr>"
  by (simp add: defaultGetFactory_def mapGet_def toolSkillFactories_def)

lemma rulesDefaultGetFactory_cline:
  "rulesDefaultGetFactory ''cline'' = Inr \<lparr>ruleClass = ClineRule, extension = ''md''\<rparr>"
  by (simp add: rulesDefaultGetFactory_def mapGet_def toolRuleFactories_def)

lemma sampleSkills_fields [simp]:
  "sp_getFactory (sampleSkillsProcessor tool g) = defaultGetFactory"
  "sp_toolTarget (sampleSkillsProcessor tool g) = tool"
  "sp_global (sampleSkillsProcessor tool g) = g"
  "sp_baseDir (sampleSkillsProcessor tool g) = ''/work''"
  by (simp_all add: sampleSkillsProcessor_def)

lemma sampleSkillsEnv_statics [simp]:
  "isTargetedByRulesyncSkill (se_statics (sampleSkillsEnv dt st) c)
     = isTargetedByRulesyncSkillDefault ''codexcli''"
  "fromRulesyncSkill (se_statics (sampleSkillsEnv dt st) c) = codexCliSimulatedSkill_fromRulesyncSkill"
  "getSettablePaths (se_statics (sampleSkillsEnv dt st) c) = codexCliSimulatedSkill_getSettablePaths"
  by (simp_all add: sampleSkillsEnv_def codexCliSimulatedSkillClass_def
        codexCliSimulatedSkill_isTargetedByRulesyncSkill_def [abs_def])

lemma codexCliSimulatedSkill_fromRulesyncSkill_eq:
  "codexCliSimulatedSkill_fromRulesyncSkill params =
     Inr (SimulatedSkill ((fromRulesyncSkillDefault CodexCliSimulatedSkill params)
                            \<lparr>sk_relativeDirPath := ''.codex/skills''\<rparr>))"
  by (simp add: codexCliSimulatedSkill_fromRulesyncSkill_def
        codexCliSimulatedSkill_getSettablePaths_def pathJoin_def)

text \<open>
  Skills with targets \<open>*\<close>, \<open>claudecode\<close> and \<open>codexcli, cursor\<close> converted for
  \<open>codexcli\<close>, and rules with targets \<open>*\<close>, \<open>claudecode\<close> and \<open>*\<close> converted for
  \<open>cline\<close>: the document for \<open>claudecode\<close> alone is left out of both.
\<close>

theorem targeting_decides_output_witness:
  "convertRulesyncDirsToToolDirs (sampleSkillsEnv [] []) (sampleSkillsProcessor ''codexcli'' False)
      [RulesyncSkillDir (sampleRulesyncSkill ''all'' [''*'']),
       RulesyncSkillDir (sampleRulesyncSkill ''claude-only'' [''claudecode'']),
       RulesyncSkillDir (sampleRulesyncSkill ''codex-cursor'' [''codexcli'', ''cursor''])]
     = Inr [ToolSkillDir (SimulatedSkill
              \<lparr>sk_class = CodexCliSimulatedSkill, sk_baseDir = ''/work'',
               sk_relativeDirPath = ''.codex/skills'', sk_dirName = ''all'', sk_name = ''Test Skill'',
               sk_description = ''Test description'', sk_body = ''Test body''\<rparr>),
            ToolSkillDir (SimulatedSkill
              \<lparr>sk_class = CodexCliSimulatedSkill, sk_baseDir = ''/work'',
               sk_relativeDirPath = ''.codex/skills'', sk_dirName = ''codex-cursor'', sk_name = ''Test Skill'',
               sk_description = ''Test description'', sk_body = ''Test body''\<rparr>)]
   \<and> (\<exists>out extras.
         convertRulesyncFilesToToolFiles (sampleRulesEnv ''cline'' [] [] [])
           (sampleRulesProcessor ''cline'' False False False False)
           [RulesyncRuleFile introRule, RulesyncRuleFile secondRootRule, RulesyncRuleFile styleRule]
           = Inr (map ToolRuleFile out)
         \<and> length extras \<le> 1
         \<and> map (\<lambda>r. r\<lparr>tr_fileContent := []\<rparr>) out =
             [(sampleFromRulesyncRule ClineRule
                 \<lparr>frr_baseDir = ''/work'', frr_rulesyncRule = introRule, frr_validate = True,
                  frr_global = False\<rparr>)\<lparr>tr_fileContent := []\<rparr>,
              (sampleFromRulesyncRule ClineRule
                 \<lparr>frr_baseDir = ''/work'', frr_rulesyncRule = styleRule, frr_validate = True,
                  frr_global = False\<rparr>)\<lparr>tr_fileContent := []\<rparr>]
             @ map (\<lambda>r. r\<lparr>tr_fileContent := []\<rparr>) extras)"
proof -
  let ?senv = "sampleSkillsEnv [] []"
  let ?sp = "sampleSkillsProcessor ''codexcli'' False"
  let ?env = "sampleRulesEnv ''cline'' [] [] []"
  let ?p = "sampleRulesProcessor ''cline'' False False False False"
  let ?sbuild = "\<lambda>s. SimulatedSkill ((fromRulesyncSkillDefault CodexCliSimulatedSkill
                      \<lparr>frs_rulesyncSkill = s, frs_global = False\<rparr>)
                            \<lparr>sk_relativeDirPath := ''.codex/skills''\<rparr>)"
  let ?build = "\<lambda>r. sampleFromRulesyncRule ClineRule
      \<lparr>frr_baseDir = ''/work'', frr_rulesyncRule = r, frr_validate = True, frr_global = False\<rparr>"
  have 1: "sp_getFactory ?sp (sp_toolTarget ?sp) (sp_global ?sp) =
       Inr \<lparr>resolvedClass = CodexCliSimulatedSkill,
          resolvedMeta = \<lparr>supportsProject = True, supportsSimulated = True, supportsGlobal = True\<rparr>\<rparr>"
    by (simp add: defaultGetFactory_codexcli_project)
  have 2: "isTargetedByRulesyncSkill (se_statics ?senv (resolvedClass
       \<lparr>resolvedClass = CodexCliSimulatedSkill,
          resolvedMeta = \<lparr>supportsProject = True, supportsSimulated = True, supportsGlobal = True\<rparr>\<rparr>))
                       = isTargetedByRulesyncSkillDefault (sp_toolTarget ?sp)"
    by simp
  have 3: "\<forall>s \<in> set (filterRulesyncSkills
              [RulesyncSkillDir (sampleRulesyncSkill ''all'' [''*'']),
               RulesyncSkillDir (sampleRulesyncSkill ''claude-only'' [''claudecode'']),
               RulesyncSkillDir (sampleRulesyncSkill ''codex-cursor'' [''codexcli'', ''cursor''])]).
           isTargetedByRulesyncSkillDefault (sp_toolTarget ?sp) s \<longrightarrow>
           fromRulesyncSkill (se_statics ?senv (resolvedClass
               \<lparr>resolvedClass = CodexCliSimulatedSkill,
                resolvedMeta = \<lparr>supportsProject = True, supportsSimulated = True, supportsGlobal = True\<rparr>\<rparr>))
             \<lparr>frs_rulesyncSkill = s, frs_global = sp_global ?sp\<rparr> = Inr (?sbuild s)"
    by (simp add: codexCliSimulatedSkill_fromRulesyncSkill_eq)
  have 4: "rp_getFactory ?p (rp_toolTarget ?p) = Inr \<lparr>ruleClass = ClineRule, extension = ''md''\<rparr>"
    by (simp add: rulesDefaultGetFactory_cline)
  have 5: "isTargetedByRulesyncRule (re_statics ?env (ruleClass \<lparr>ruleClass = ClineRule, extension = ''md''\<rparr>))
                       = isTargetedByRulesyncRuleDefault (rp_toolTarget ?p)"
    by simp
  have 6: "\<forall>r \<in> set (filterRulesyncRules
              [RulesyncRuleFile introRule, RulesyncRuleFile secondRootRule, RulesyncRuleFile styleRule]).
             isTargetedByRulesyncRuleDefault (rp_toolTarget ?p) r \<longrightarrow>
             fromRulesyncRule (re_statics ?env (ruleClass \<lparr>ruleClass = ClineRule, extension = ''md''\<rparr>))
               \<lparr>frr_baseDir = rp_baseDir ?p, frr_rulesyncRule = r,
                frr_validate = True, frr_global = rp_global ?p\<rparr> = Inr (?build r)"
    by simp
  have 7: "\<exists>rule. re_newCursorRule ?env (cursorConventionRuleParams ?env ?p) = Inr rule"
    by (simp add: sampleRulesEnv_def)
  have 8: "\<exists>rule. re_newRooRule ?env (rooConventionRuleParams ?env ?p) = Inr rule"
    by (simp add: sampleRulesEnv_def)
  from targeting_decides_output [OF 1 2 3 4 5 6 7 8]
  show ?thesis
    by (simp add: sampleRulesyncSkill_def fromRulesyncSkillDefault_def
          introRule_def styleRule_def secondRootRule_def)
qed

section \<open>The references block\<close>

lemma joinWith_Cons: "ys \<noteq> [] \<Longrightarrow> joinWith sep (x # ys) = x @ sep @ joinWith sep ys"
  by (cases ys) simp_all

lemma joinWith_split:
  "\<exists>u. joinWith sep (xs @ a # rest) = u @ a @ (if rest = [] then [] else sep @ joinWith sep rest)"
proof (induction xs)
  case Nil
  show ?case by (cases rest) auto
next
  case (Cons x xs)
  then obtain u where u: "joinWith sep (xs @ a # rest) =
      u @ a @ (if rest = [] then [] else sep @ joinWith sep rest)" by blast
  have "joinWith sep ((x # xs) @ a # rest) = x @ sep @ joinWith sep (xs @ a # rest)"
    by (simp add: joinWith_Cons)
  with u have "joinWith sep ((x # xs) @ a # rest) =
      (x @ sep @ u) @ a @ (if rest = [] then [] else sep @ joinWith sep rest)" by simp
  then show ?case by blast
qed

lemma joinWith_two_in_order:
  "\<exists>u v w. joinWith sep (xs @ a # ys @ b # zs) = u @ a @ v @ b @ w"
proof -
  from joinWith_split [of sep xs a "ys @ b # zs"] obtain u where
    u: "joinWith sep (xs @ a # ys @ b # zs) = u @ a @ sep @ joinWith sep (ys @ b # zs)" by auto
  from joinWith_split [of sep ys b zs] obtain u' where
    u': "joinWith sep (ys @ b # zs) = u' @ b @ (if zs = [] then [] else sep @ joinWith sep zs)" by blast
  from u u' have "joinWith sep (xs @ a # ys @ b # zs) =
      u @ a @ (sep @ u') @ b @ (if zs = [] then [] else sep @ joinWith sep zs)" by simp
  then show ?thesis by blast
qed

lemma generateReferencesSection_order:
  assumes "\<not> tr_root a" "\<not> tr_root b"
  shows "\<exists>u v w. generateReferencesSection (xs @ a # ys @ b # zs)
                    = u @ referenceLine a @ v @ referenceLine b @ w"
proof -
  let ?f = "filter (\<lambda>rule. \<not> tr_root rule)"
  let ?hdr = "[''Please also reference the following rules as needed:'', []]"
  have "generateReferencesSection (xs @ a # ys @ b # zs) =
          joinWith ''\<newline>'' ((?hdr @ map referenceLine (?f xs)) @ referenceLine a #
              map referenceLine (?f ys) @ referenceLine b # map referenceLine (?f zs)) @ ''\<newline>\<newline>''"
    using assms by (simp add: generateReferencesSection_def Let_def)
  moreover from joinWith_two_in_order obtain u v w where
    "joinWith ''\<newline>'' ((?hdr @ map referenceLine (?f xs)) @ referenceLine a #
              map referenceLine (?f ys) @ referenceLine b # map referenceLine (?f zs))
       = u @ referenceLine a @ v @ referenceLine b @ w" by blast
  ultimately have "generateReferencesSection (xs @ a # ys @ b # zs) =
      u @ referenceLine a @ v @ referenceLine b @ (w @ ''\<newline>\<newline>'')" by simp
  then show ?thesis by blast
qed

lemma generateToonReferencesSection_order:
  assumes "\<not> tr_root a" "\<not> tr_root b"
  shows "\<exists>us vs ws. generateToonReferencesSection env (xs @ a # ys @ b # zs) =
           ''Please also reference the following rules as needed. The list below is provided in TOON format, and `@` stands for the project root directory.''
           @ ''\<newline>\<newline>'' @ re_encode env (us @ toonRuleOf a # vs @ toonRuleOf b # ws) @ ''\<newline>\<newline>''"
proof -
  let ?f = "filter (\<lambda>rule. \<not> tr_root rule)"
  have "generateToonReferencesSection env (xs @ a # ys @ b # zs) =
           ''Please also reference the following rules as needed. The list below is provided in TOON format, and `@` stands for the project root directory.''
           @ ''\<newline>\<newline>'' @ re_encode env (map toonRuleOf (?f xs) @ toonRuleOf a #
                map toonRuleOf (?f ys) @ toonRuleOf b # map toonRuleOf (?f zs)) @ ''\<newline>\<newline>''"
    using assms by (simp add: generateToonReferencesSection_def Let_def)
  then show ?thesis by blast
qed


lemma no_convention_rule:
  assumes "rp_toolTarget p \<noteq> ''cursor''" "rp_toolTarget p \<noteq> ''roo''"
  shows "pushCursorConventionRule env p trs = Inr trs" "pushRooConventionRule env p trs = Inr trs"
  using assms by (simp_all add: pushCursorConventionRule_def pushRooConventionRule_def)

lemma rulesDefaultGetFactory_claudecode:
  "rulesDefaultGetFactory ''claudecode'' = Inr \<lparr>ruleClass = ClaudecodeRule, extension = ''md''\<rparr>"
  by (simp add: rulesDefaultGetFactory_def mapGet_def toolRuleFactories_def)


lemma injectRootContent_at:
  assumes "findIndex tr_root trs = Some i" "rootContentPrefix env p trs = Some injected"
  shows "injectRootContent env p trs =
           trs[i := (trs ! i)\<lparr>tr_fileContent := injected @ tr_fileContent (trs ! i)\<rparr>]"
  using assms by (simp add: injectRootContent_def Let_def)

lemma convert_without_convention_rule:
  assumes factory: "rp_getFactory p (rp_toolTarget p) = Inr factory"
    and build: "\<forall>r \<in> set (filterRulesyncRules files).
             isTargetedByRulesyncRule (re_statics env (ruleClass factory)) r \<longrightarrow>
             fromRulesyncRule (re_statics env (ruleClass factory))
               \<lparr>frr_baseDir = rp_baseDir p, frr_rulesyncRule = r,
                frr_validate = True, frr_global = rp_global p\<rparr> = Inr (build r)"
    and target: "rp_toolTarget p \<noteq> ''cursor''" "rp_toolTarget p \<noteq> ''roo''"
  shows "convertRulesyncFilesToToolFiles env p files =
           Inr (map ToolRuleFile
                  (injectRootContent env p
                     (map build (filter (isTargetedByRulesyncRule (re_statics env (ruleClass factory)))
                                        (filterRulesyncRules files)))))"
  by (rule convert_stages [OF factory convertTargetedRules_build [OF build] no_convention_rule [OF target]])

lemma rootContentPrefix_nine:
  assumes "rp_toolTarget p \<in> {''claudecode'', ''augmentcode-legacy'', ''kiro'', ''opencode'',
                   ''qwencode'', ''warp'', ''agentsmd'', ''codexcli'', ''geminicli''}"
  shows "rootContentPrefix env p trs =
     Some ((if rp_toolTarget p = ''claudecode'' then generateReferencesSection trs
            else generateToonReferencesSection env trs) @
           (if rp_toolTarget p = ''agentsmd'' then
              generateAdditionalConventionsSection env p
                (Some (re_settableDir env ''AgentsmdCommand''))
                (Some (re_settableDir env ''AgentsmdSubagent'')) None
            else if rp_toolTarget p = ''codexcli'' then
              generateAdditionalConventionsSection env p None
                (Some (re_settableDir env ''CodexCliSubagent''))
                (Some (if rp_global p then re_settableDir env ''CodexCliSkill.global''
                       else pathJoin [''.codex'', ''skills'']))
            else if rp_toolTarget p = ''geminicli'' then
              generateAdditionalConventionsSection env p
                (Some (re_settableDir env ''GeminiCliCommand''))
                (Some (re_settableDir env ''GeminiCliSubagent'')) None
            else []))"
proof -
  consider "rp_toolTarget p = ''claudecode''" | "rp_toolTarget p = ''augmentcode-legacy''"
    | "rp_toolTarget p = ''kiro''" | "rp_toolTarget p = ''opencode''"
    | "rp_toolTarget p = ''qwencode''" | "rp_toolTarget p = ''warp''"
    | "rp_toolTarget p = ''agentsmd''" | "rp_toolTarget p = ''codexcli''"
    | "rp_toolTarget p = ''geminicli''"
    using assms by blast
  then show ?thesis
    by cases (simp_all add: rootContentPrefix_def)
qed

lemma single_reference:
  assumes "filter (\<lambda>rule. \<not> tr_root rule) trs = [styleDoc]"
  shows "generateReferencesSection trs =
           ''Please also reference the following rules as needed:'' @ ''\<newline>\<newline>'' @
           referenceLine styleDoc @ ''\<newline>\<newline>''"
    and "generateToonReferencesSection env trs =
           ''Please also reference the following rules as needed. The list below is provided in TOON format, and `@` stands for the project root directory.''
           @ ''\<newline>\<newline>'' @ re_encode env [toonRuleOf styleDoc] @ ''\<newline>\<newline>''"
  using assms by (simp_all add: generateReferencesSection_def generateToonReferencesSection_def Let_def)

text \<open>
  Claim C3, as amended. Let the targeted rules convert, let the tool be one of the nine
  that inject a references block, and let the converted array have a root document, at
  any position. Then the output is the converted array in its order, and only the content
  of its first root document differs: it is the references section (the text lines for
  \<open>claudecode\<close>, the TOON encoding otherwise), then for \<open>agentsmd\<close>,
  \<open>codexcli\<close> and \<open>geminicli\<close> the additional-conventions block built from the
  directories passed at that call site, and for the six other tools nothing, then the
  former content. When there is exactly one non-root document, with a description and
  globs, the references section is the heading, a blank line and the line (or the one
  record handed to the encoder) naming its path, its description and its globs. In every
  references section, of two non-root documents the one that comes first in the array
  comes first in the section (its line in the text, its record in the array handed to the
  encoder). So for \<open>claudecode\<close>, \<open>augmentcode-legacy\<close>, \<open>kiro\<close>,
  \<open>opencode\<close>, \<open>qwencode\<close> and \<open>warp\<close> the former content follows the
  references section at once; for the three other tools it does not.
\<close>

theorem references_block_precedes_root_body:
  assumes factory: "rp_getFactory p (rp_toolTarget p) = Inr factory"
    and build: "\<forall>r \<in> set (filterRulesyncRules files).
             isTargetedByRulesyncRule (re_statics env (ruleClass factory)) r \<longrightarrow>
             fromRulesyncRule (re_statics env (ruleClass factory))
               \<lparr>frr_baseDir = rp_baseDir p, frr_rulesyncRule = r,
                frr_validate = True, frr_global = rp_global p\<rparr> = Inr (build r)"
    and target: "rp_toolTarget p \<in> {''claudecode'', ''augmentcode-legacy'', ''kiro'', ''opencode'',
                   ''qwencode'', ''warp'', ''agentsmd'', ''codexcli'', ''geminicli''}"
    and trs: "trs = map build (filter (isTargetedByRulesyncRule (re_statics env (ruleClass factory)))
                                      (filterRulesyncRules files))"
    and root: "findIndex tr_root trs = Some i"
  shows "convertRulesyncFilesToToolFiles env p files =
           Inr (map ToolRuleFile
                  (trs[i := (trs ! i)\<lparr>tr_fileContent :=
                     (if rp_toolTarget p = ''claudecode'' then generateReferencesSection trs
                      else generateToonReferencesSection env trs) @
                     (if rp_toolTarget p = ''agentsmd'' then
                        generateAdditionalConventionsSection env p
                          (Some (re_settableDir env ''AgentsmdCommand''))
                          (Some (re_settableDir env ''AgentsmdSubagent'')) None
                      else if rp_toolTarget p = ''codexcli'' then
                        generateAdditionalConventionsSection env p None
                          (Some (re_settableDir env ''CodexCliSubagent''))
                          (Some (if rp_global p then re_settableDir env ''CodexCliSkill.global''
                                 else pathJoin [''.codex'', ''skills'']))
                      else if rp_toolTarget p = ''geminicli'' then
                        generateAdditionalConventionsSection env p
                          (Some (re_settableDir env ''GeminiCliCommand''))
                          (Some (re_settableDir env ''GeminiCliSubagent'')) None
                      else []) @
                     tr_fileContent (trs ! i)\<rparr>]))
       \<and> (\<forall>styleDoc description globs.
             filter (\<lambda>rule. \<not> tr_root rule) trs = [styleDoc]
             \<and> tr_description styleDoc = Some description \<and> tr_globs styleDoc = Some globs
             \<and> fm_description (tr_rulesyncFrontmatter styleDoc) = Some description
             \<and> fm_globs (tr_rulesyncFrontmatter styleDoc) = Some globs
             \<and> description \<noteq> [] \<and> globs \<noteq> [] \<longrightarrow>
             generateReferencesSection trs =
               ''Please also reference the following rules as needed:'' @ ''\<newline>\<newline>'' @
               ''@'' @ getRelativePathFromCwd styleDoc @
               '' description: '' @ [CHR 0x22] @ escapeDoubleQuotes description @ [CHR 0x22] @
               '' applyTo: '' @ [CHR 0x22] @ joinWith '','' globs @ [CHR 0x22] @ ''\<newline>\<newline>''
             \<and> generateToonReferencesSection env trs =
               ''Please also reference the following rules as needed. The list below is provided in TOON format, and `@` stands for the project root directory.''
               @ ''\<newline>\<newline>'' @
               re_encode env [\<lparr>toon_path = ''@'' @ getRelativePathFromCwd styleDoc,
                                toon_description = Some description,
                                toon_applyTo = Some globs\<rparr>] @ ''\<newline>\<newline>'')
       \<and> (\<forall>xs a ys b zs. \<not> tr_root a \<and> \<not> tr_root b \<longrightarrow>
             (\<exists>u v w. generateReferencesSection (xs @ a # ys @ b # zs)
                          = u @ referenceLine a @ v @ referenceLine b @ w))
       \<and> (\<forall>xs a ys b zs. \<not> tr_root a \<and> \<not> tr_root b \<longrightarrow>
             (\<exists>us vs ws. generateToonReferencesSection env (xs @ a # ys @ b # zs) =
                ''Please also reference the following rules as needed. The list below is provided in TOON format, and `@` stands for the project root directory.''
                @ ''\<newline>\<newline>'' @ re_encode env (us @ toonRuleOf a # vs @ toonRuleOf b # ws)
                @ ''\<newline>\<newline>''))"
proof -
  have nocr: "rp_toolTarget p \<noteq> ''cursor''" "rp_toolTarget p \<noteq> ''roo''"
    using target by auto
  have conv: "convertRulesyncFilesToToolFiles env p files =
      Inr (map ToolRuleFile (injectRootContent env p trs))"
    unfolding trs by (rule convert_without_convention_rule [OF factory build nocr])
  note inj = injectRootContent_at [OF root rootContentPrefix_nine [OF target]]
  have first: "convertRulesyncFilesToToolFiles env p files =
           Inr (map ToolRuleFile
                  (trs[i := (trs ! i)\<lparr>tr_fileContent :=
                     (if rp_toolTarget p = ''claudecode'' then generateReferencesSection trs
                      else generateToonReferencesSection env trs) @
                     (if rp_toolTarget p = ''agentsmd'' then
                        generateAdditionalConventionsSection env p
                          (Some (re_settableDir env ''AgentsmdCommand''))
                          (Some (re_settableDir env ''AgentsmdSubagent'')) None
                      else if rp_toolTarget p = ''codexcli'' then
                        generateAdditionalConventionsSection env p None
                          (Some (re_settableDir env ''CodexCliSubagent''))
                          (Some (if rp_global p then re_settableDir env ''CodexCliSkill.global''
                                 else pathJoin [''.codex'', ''skills'']))
                      else if rp_toolTarget p = ''geminicli'' then
                        generateAdditionalConventionsSection env p
                          (Some (re_settableDir env ''GeminiCliCommand''))
                          (Some (re_settableDir env ''GeminiCliSubagent'')) None
                      else []) @
                     tr_fileContent (trs ! i)\<rparr>]))"
    unfolding conv inj by (simp only: append_assoc)
  have second: "generateReferencesSection trs =
               ''Please also reference the following rules as needed:'' @ ''\<newline>\<newline>'' @
               ''@'' @ getRelativePathFromCwd styleDoc @
               '' description: '' @ [CHR 0x22] @ escapeDoubleQuotes description @ [CHR 0x22] @
               '' applyTo: '' @ [CHR 0x22] @ joinWith '','' globs @ [CHR 0x22] @ ''\<newline>\<newline>''
             \<and> generateToonReferencesSection env trs =
               ''Please also reference the following rules as needed. The list below is provided in TOON format, and `@` stands for the project root directory.''
               @ ''\<newline>\<newline>'' @
               re_encode env [\<lparr>toon_path = ''@'' @ getRelativePathFromCwd styleDoc,
                                toon_description = Some description,
                                toon_applyTo = Some globs\<rparr>] @ ''\<newline>\<newline>''"
    if "filter (\<lambda>rule. \<not> tr_root rule) trs = [styleDoc]"
       "tr_description styleDoc = Some description" "tr_globs styleDoc = Some globs"
       "fm_description (tr_rulesyncFrontmatter styleDoc) = Some description"
       "fm_globs (tr_rulesyncFrontmatter styleDoc) = Some globs"
       "description \<noteq> []" "globs \<noteq> []"
    for styleDoc description globs
    unfolding single_reference [OF that(1)]
    using that(2-7) by (simp add: referenceLine_def toonRuleOf_def Let_def)
  from first second generateReferencesSection_order generateToonReferencesSection_order
  show ?thesis by (intro conjI allI impI) blast+
qed



lemma rulesDefaultGetFactory_agentsmd:
  "rulesDefaultGetFactory ''agentsmd'' = Inr \<lparr>ruleClass = AgentsMdRule, extension = ''md''\<rparr>"
  by (simp add: rulesDefaultGetFactory_def mapGet_def toolRuleFactories_def)

lemma sample_built:
  "sampleFromRulesyncRule c
      \<lparr>frr_baseDir = ''/work'', frr_rulesyncRule = introRule, frr_validate = True, frr_global = False\<rparr>
   = \<lparr>tr_class = c, tr_baseDir = ''/work'', tr_relativeDirPath = ''.'',
      tr_relativeFilePath = ''ROOT.md'', tr_fileContent = ''Intro'', tr_root = True,
      tr_description = None, tr_globs = None, tr_rulesyncFrontmatter = rr_frontmatter introRule\<rparr>"
  "sampleFromRulesyncRule c
      \<lparr>frr_baseDir = ''/work'', frr_rulesyncRule = styleRule, frr_validate = True, frr_global = False\<rparr>
   = \<lparr>tr_class = c, tr_baseDir = ''/work'', tr_relativeDirPath = ''rules'',
      tr_relativeFilePath = ''style.md'', tr_fileContent = ''Use two spaces.'', tr_root = False,
      tr_description = Some ''Style guide'', tr_globs = Some [''*.ts''],
      tr_rulesyncFrontmatter = rr_frontmatter styleRule\<rparr>"
  by (simp_all add: sampleFromRulesyncRule_def isRootRulesyncRule_def introRule_def styleRule_def)

lemma sample_rules_targeted:
  "isTargetedByRulesyncRuleDefault tool introRule" "isTargetedByRulesyncRuleDefault tool styleRule"
  by (simp_all add: isTargetedByRulesyncRuleDefault_def introRule_def styleRule_def)

text \<open>
  The end-to-end example for \<open>claudecode\<close> with the style rule before the root rule:
  the references section is written to the root document, the second of the output. And a
  section for two documents named \<open>b.md\<close> and \<open>a.md\<close> in this order: they are not
  sorted.
\<close>

theorem references_block_precedes_root_body_witness:
  "convertRulesyncFilesToToolFiles (sampleRulesEnv ''claudecode'' [] [] [])
      (sampleRulesProcessor ''claudecode'' False False False False)
      [RulesyncRuleFile styleRule, RulesyncRuleFile introRule]
    = Inr [ToolRuleFile
             \<lparr>tr_class = ClaudecodeRule, tr_baseDir = ''/work'', tr_relativeDirPath = ''rules'',
              tr_relativeFilePath = ''style.md'', tr_fileContent = ''Use two spaces.'',
              tr_root = False, tr_description = Some ''Style guide'', tr_globs = Some [''*.ts''],
              tr_rulesyncFrontmatter = rr_frontmatter styleRule\<rparr>,
           ToolRuleFile
             \<lparr>tr_class = ClaudecodeRule, tr_baseDir = ''/work'', tr_relativeDirPath = ''.'',
              tr_relativeFilePath = ''ROOT.md'',
              tr_fileContent =
                ''Please also reference the following rules as needed:\<newline>\<newline>'' @
                ''@rules/style.md description: '' @ [CHR 0x22] @ ''Style guide'' @ [CHR 0x22] @
                '' applyTo: '' @ [CHR 0x22] @ ''*.ts'' @ [CHR 0x22] @ ''\<newline>\<newline>'' @
                ''Intro'',
              tr_root = True, tr_description = None, tr_globs = None,
              tr_rulesyncFrontmatter = rr_frontmatter introRule\<rparr>]
   \<and> (\<exists>u v w. generateReferencesSection
                  [sampleConventionRule ClaudecodeRule ''/work'' ''rules'' ''b.md'' ''B'',
                   sampleConventionRule ClaudecodeRule ''/work'' ''rules'' ''a.md'' ''A'']
          = u @ referenceLine (sampleConventionRule ClaudecodeRule ''/work'' ''rules'' ''b.md'' ''B'')
              @ v @ referenceLine (sampleConventionRule ClaudecodeRule ''/work'' ''rules'' ''a.md'' ''A'') @ w)"
proof -
  let ?env = "sampleRulesEnv ''claudecode'' [] [] []"
  let ?p = "sampleRulesProcessor ''claudecode'' False False False False"
  let ?f = "\<lparr>ruleClass = ClaudecodeRule, extension = ''md''\<rparr>"
  let ?build = "\<lambda>r. sampleFromRulesyncRule ClaudecodeRule
      \<lparr>frr_baseDir = ''/work'', frr_rulesyncRule = r, frr_validate = True, frr_global = False\<rparr>"
  let ?files = "[RulesyncRuleFile styleRule, RulesyncRuleFile introRule]"
  let ?sdoc = "\<lparr>tr_class = ClaudecodeRule, tr_baseDir = ''/work'', tr_relativeDirPath = ''rules'',
              tr_relativeFilePath = ''style.md'', tr_fileContent = ''Use two spaces.'',
              tr_root = False, tr_description = Some ''Style guide'', tr_globs = Some [''*.ts''],
              tr_rulesyncFrontmatter = rr_frontmatter styleRule\<rparr>"
  let ?rdoc = "\<lparr>tr_class = ClaudecodeRule, tr_baseDir = ''/work'', tr_relativeDirPath = ''.'',
      tr_relativeFilePath = ''ROOT.md'', tr_fileContent = ''Intro'', tr_root = True,
      tr_description = None, tr_globs = None, tr_rulesyncFrontmatter = rr_frontmatter introRule\<rparr>"
  let ?b = "sampleConventionRule ClaudecodeRule ''/work'' ''rules'' ''b.md'' ''B''"
  let ?a = "sampleConventionRule ClaudecodeRule ''/work'' ''rules'' ''a.md'' ''A''"
  have 1: "rp_getFactory ?p (rp_toolTarget ?p) = Inr ?f"
    by (simp add: rulesDefaultGetFactory_claudecode)
  have 2: "\<forall>r \<in> set (filterRulesyncRules ?files).
             isTargetedByRulesyncRule (re_statics ?env (ruleClass ?f)) r \<longrightarrow>
             fromRulesyncRule (re_statics ?env (ruleClass ?f))
               \<lparr>frr_baseDir = rp_baseDir ?p, frr_rulesyncRule = r,
                frr_validate = True, frr_global = rp_global ?p\<rparr> = Inr (?build r)"
    by simp
  have 3: "rp_toolTarget ?p \<in> {''claudecode'', ''augmentcode-legacy'', ''kiro'', ''opencode'',
                   ''qwencode'', ''warp'', ''agentsmd'', ''codexcli'', ''geminicli''}"
    by simp
  have 4: "[?sdoc, ?rdoc] = map ?build (filter (isTargetedByRulesyncRule (re_statics ?env (ruleClass ?f)))
                                      (filterRulesyncRules ?files))"
    by (simp add: sample_rules_targeted sample_built)
  have 5: "findIndex tr_root [?sdoc, ?rdoc] = Some 1" by simp
  note inst = references_block_precedes_root_body [OF 1 2 3 4 5]
  have described: "filter (\<lambda>rule. \<not> tr_root rule) [?sdoc, ?rdoc] = [?sdoc]
             \<and> tr_description ?sdoc = Some ''Style guide'' \<and> tr_globs ?sdoc = Some [''*.ts'']
             \<and> fm_description (tr_rulesyncFrontmatter ?sdoc) = Some ''Style guide''
             \<and> fm_globs (tr_rulesyncFrontmatter ?sdoc) = Some [''*.ts'']
             \<and> ''Style guide'' \<noteq> [] \<and> [''*.ts''] \<noteq> []"
    by (simp add: styleRule_def)
  from inst described have refs: "generateReferencesSection [?sdoc, ?rdoc] =
               ''Please also reference the following rules as needed:'' @ ''\<newline>\<newline>'' @
               ''@'' @ getRelativePathFromCwd ?sdoc @
               '' description: '' @ [CHR 0x22] @ escapeDoubleQuotes ''Style guide'' @ [CHR 0x22] @
               '' applyTo: '' @ [CHR 0x22] @ joinWith '','' [''*.ts''] @ [CHR 0x22] @ ''\<newline>\<newline>''"
    by blast
  from inst have conv: "convertRulesyncFilesToToolFiles ?env ?p ?files =
           Inr (map ToolRuleFile
                  ([?sdoc, ?rdoc][1 := ([?sdoc, ?rdoc] ! 1)\<lparr>tr_fileContent :=
                     generateReferencesSection [?sdoc, ?rdoc] @ [] @
                     tr_fileContent ([?sdoc, ?rdoc] ! 1)\<rparr>]))"
    by simp
  have nr: "\<not> tr_root ?b \<and> \<not> tr_root ?a" by (simp add: sampleConventionRule_def)
  from inst nr have ord: "\<exists>u v w. generateReferencesSection ([] @ ?b # [] @ ?a # [])
          = u @ referenceLine ?b @ v @ referenceLine ?a @ w" by blast
  have esc: "escapeDoubleQuotes ''Style guide'' = ''Style guide''"
    by (simp add: escapeDoubleQuotes_def)
  from conv ord show ?thesis
    unfolding refs by (simp add: esc getRelativePathFromCwd_def pathJoin_def)
qed

text \<open>
  Claim C3 as stated fails for \<open>agentsmd\<close>, a tool that injects a references block:
  in the end-to-end example with no simulate flag set, the references section naming
  \<open>style.md\<close> is followed by the overview of the additional conventions, not by
  \<open>Intro\<close>.
\<close>

theorem conventions_block_between_references_and_body_counterexample:
  "convertRulesyncFilesToToolFiles (sampleRulesEnv ''agentsmd'' [] [] [])
      (sampleRulesProcessor ''agentsmd'' False False False False)
      [RulesyncRuleFile introRule, RulesyncRuleFile styleRule]
    = Inr [ToolRuleFile
             \<lparr>tr_class = AgentsMdRule, tr_baseDir = ''/work'', tr_relativeDirPath = ''.'',
              tr_relativeFilePath = ''ROOT.md'',
              tr_fileContent =
                generateToonReferencesSection (sampleRulesEnv ''agentsmd'' [] [] [])
                  [\<lparr>tr_class = AgentsMdRule, tr_baseDir = ''/work'', tr_relativeDirPath = ''rules'',
                    tr_relativeFilePath = ''style.md'', tr_fileContent = ''Use two spaces.'',
                    tr_root = False, tr_description = Some ''Style guide'', tr_globs = Some [''*.ts''],
                    tr_rulesyncFrontmatter = rr_frontmatter styleRule\<rparr>] @
                overview @ ''\<newline>\<newline>'' @ ''Intro'',
              tr_root = True, tr_description = None, tr_globs = None,
              tr_rulesyncFrontmatter = rr_frontmatter introRule\<rparr>,
           ToolRuleFile
             \<lparr>tr_class = AgentsMdRule, tr_baseDir = ''/work'', tr_relativeDirPath = ''rules'',
              tr_relativeFilePath = ''style.md'', tr_fileContent = ''Use two spaces.'',
              tr_root = False, tr_description = Some ''Style guide'', tr_globs = Some [''*.ts''],
              tr_rulesyncFrontmatter = rr_frontmatter styleRule\<rparr>]
   \<and> generateToonReferencesSection (sampleRulesEnv ''agentsmd'' [] [] [])
         [\<lparr>tr_class = AgentsMdRule, tr_baseDir = ''/work'', tr_relativeDirPath = ''rules'',
           tr_relativeFilePath = ''style.md'', tr_fileContent = ''Use two spaces.'',
           tr_root = False, tr_description = Some ''Style guide'', tr_globs = Some [''*.ts''],
           tr_rulesyncFrontmatter = rr_frontmatter styleRule\<rparr>]
       = ''Please also reference the following rules as needed. The list below is provided in TOON format, and `@` stands for the project root directory.''
         @ ''\<newline>\<newline>'' @ ''@rules/style.md'' @ ''\<newline>\<newline>''
   \<and> overview @ ''\<newline>\<newline>'' @ ''Intro'' \<noteq> ''Intro''"
proof -
  let ?env = "sampleRulesEnv ''agentsmd'' [] [] []"
  let ?p = "sampleRulesProcessor ''agentsmd'' False False False False"
  let ?f = "\<lparr>ruleClass = AgentsMdRule, extension = ''md''\<rparr>"
  let ?build = "\<lambda>r. sampleFromRulesyncRule AgentsMdRule
      \<lparr>frr_baseDir = ''/work'', frr_rulesyncRule = r, frr_validate = True, frr_global = False\<rparr>"
  let ?files = "[RulesyncRuleFile introRule, RulesyncRuleFile styleRule]"
  let ?sdoc = "\<lparr>tr_class = AgentsMdRule, tr_baseDir = ''/work'', tr_relativeDirPath = ''rules'',
              tr_relativeFilePath = ''style.md'', tr_fileContent = ''Use two spaces.'',
              tr_root = False, tr_description = Some ''Style guide'', tr_globs = Some [''*.ts''],
              tr_rulesyncFrontmatter = rr_frontmatter styleRule\<rparr>"
  let ?rdoc = "\<lparr>tr_class = AgentsMdRule, tr_baseDir = ''/work'', tr_relativeDirPath = ''.'',
      tr_relativeFilePath = ''ROOT.md'', tr_fileContent = ''Intro'', tr_root = True,
      tr_description = None, tr_globs = None, tr_rulesyncFrontmatter = rr_frontmatter introRule\<rparr>"
  have 1: "rp_getFactory ?p (rp_toolTarget ?p) = Inr ?f"
    by (simp add: rulesDefaultGetFactory_agentsmd)
  have 2: "\<forall>r \<in> set (filterRulesyncRules ?files).
             isTargetedByRulesyncRule (re_statics ?env (ruleClass ?f)) r \<longrightarrow>
             fromRulesyncRule (re_statics ?env (ruleClass ?f))
               \<lparr>frr_baseDir = rp_baseDir ?p, frr_rulesyncRule = r,
                frr_validate = True, frr_global = rp_global ?p\<rparr> = Inr (?build r)"
    by simp
  have nc: "rp_toolTarget ?p \<noteq> ''cursor''" "rp_toolTarget ?p \<noteq> ''roo''" by simp_all
  have conv: "convertRulesyncFilesToToolFiles ?env ?p ?files =
      Inr (map ToolRuleFile (injectRootContent ?env ?p [?rdoc, ?sdoc]))"
    using convert_without_convention_rule [OF 1 2 nc]
    by (simp add: sample_rules_targeted sample_built)
  have block: "generateAdditionalConventionsSection ?env ?p c s k = overview @ ''\<newline>\<newline>''" for c s k
    by (simp add: generateAdditionalConventionsSection_def additionalConventionsSections_def)
  have t: "rp_toolTarget ?p \<in> {''claudecode'', ''augmentcode-legacy'', ''kiro'', ''opencode'',
                   ''qwencode'', ''warp'', ''agentsmd'', ''codexcli'', ''geminicli''}" by simp
  have i: "findIndex tr_root [?rdoc, ?sdoc] = Some 0" by simp
  have toonEq: "generateToonReferencesSection ?env [?rdoc, ?sdoc] = generateToonReferencesSection ?env [?sdoc]"
    by (simp add: generateToonReferencesSection_def)
  have inj: "injectRootContent ?env ?p [?rdoc, ?sdoc] =
      [?rdoc\<lparr>tr_fileContent := generateToonReferencesSection ?env [?sdoc] @
                 overview @ ''\<newline>\<newline>'' @ ''Intro''\<rparr>, ?sdoc]"
    unfolding injectRootContent_at [OF i rootContentPrefix_nine [OF t]]
    by (simp add: block toonEq)
  have toon: "generateToonReferencesSection ?env [?sdoc]
       = ''Please also reference the following rules as needed. The list below is provided in TOON format, and `@` stands for the project root directory.''
         @ ''\<newline>\<newline>'' @ ''@rules/style.md'' @ ''\<newline>\<newline>''"
    by (simp add: generateToonReferencesSection_def toonRuleOf_def sampleRulesEnv_def
          getRelativePathFromCwd_def pathJoin_def Let_def)
  have ne: "overview @ ''\<newline>\<newline>'' @ ''Intro'' \<noteq> ''Intro''"
  proof
    assume "overview @ ''\<newline>\<newline>'' @ ''Intro'' = ''Intro''"
    then have "length (overview @ ''\<newline>\<newline>'' @ ''Intro'') = length ''Intro''" by simp
    then show False by simp
  qed
  from conv inj toon ne show ?thesis by simp
qed

section \<open>The additional-conventions block\<close>































text \<open>
  For \<open>agentsmd\<close> (and in the same way \<open>geminicli\<close>) the call site passes no directory
  for skills, although the tool is in the simulated-capable list of the skills registry:
  with \<open>simulateSkills\<close> set, the part joined for skills is the empty text.
\<close>

lemma agentsmd_skills_section_not_passed:
  "''agentsmd'' \<in> set skillsGetToolTargetsSimulated"
  "rp_toolTarget p = ''agentsmd'' \<Longrightarrow>
     rootContentPrefix env p trs =
       Some (generateToonReferencesSection env trs @
             generateAdditionalConventionsSection env p
               (Some (re_settableDir env ''AgentsmdCommand''))
               (Some (re_settableDir env ''AgentsmdSubagent'')) None)"
  "skillsSection env None = []"
  by (simp_all add: skillsGetToolTargetsSimulated_def skillsProcessorToolTargetsSimulated_def
        allToolTargetKeys_def toolSkillFactories_def mapGet_def rootContentPrefix_def skillsSection_def)

section \<open>Loading tool files\<close>

lemma promiseAll_Inl_D: "promiseAll rs = Inl e \<Longrightarrow> Inl e \<in> set rs"
proof (induction rs)
  case Nil
  then show ?case by simp
next
  case (Cons r rs)
  show ?case
  proof (cases r)
    case (Inl e')
    with Cons.prems show ?thesis by simp
  next
    case (Inr x)
    with Cons.prems have "promiseAll rs = Inl e"
      by (cases "promiseAll rs") simp_all
    with Cons.IH show ?thesis by simp
  qed
qed

lemma loadRulesAt_glob_fails:
  "re_findFilesByGlobs env pattern = Inl e \<Longrightarrow> loadRulesAt env p factory pattern = Inl e"
  by (simp add: loadRulesAt_def)

lemma loadRulesAt_parse_fails:
  assumes "re_findFilesByGlobs env pattern = Inr filePaths"
    and "filePath \<in> set filePaths"
    and "fromFile (re_statics env (ruleClass factory))
           \<lparr>ff_baseDir = rp_baseDir p, ff_relativeFilePath = basename filePath,
            ff_global = rp_global p\<rparr> = Inl e0"
  shows "\<exists>failing \<in> set filePaths. \<exists>e.
           fromFile (re_statics env (ruleClass factory))
             \<lparr>ff_baseDir = rp_baseDir p, ff_relativeFilePath = basename failing,
              ff_global = rp_global p\<rparr> = Inl e
           \<and> loadRulesAt env p factory pattern = Inl e"
proof -
  let ?parse = "\<lambda>filePath. fromFile (re_statics env (ruleClass factory))
                      \<lparr>ff_baseDir = rp_baseDir p, ff_relativeFilePath = basename filePath,
                       ff_global = rp_global p\<rparr>"
  have "Inl e0 \<in> set (map ?parse filePaths)"
    using assms(2,3) by (auto simp: image_iff intro!: bexI [of _ filePath])
  from promiseAll_fails [OF this] obtain e where e: "promiseAll (map ?parse filePaths) = Inl e"
    by blast
  from promiseAll_Inl_D [OF e] obtain failing where
    "failing \<in> set filePaths" "?parse failing = Inl e" by auto
  moreover from e assms(1) have "loadRulesAt env p factory pattern = Inl e"
    by (simp add: loadRulesAt_def)
  ultimately show ?thesis by blast
qed

lemma loadRulesAt_loaded:
  assumes "re_findFilesByGlobs env pattern = Inr filePaths"
    and "map (\<lambda>filePath. fromFile (re_statics env (ruleClass factory))
                \<lparr>ff_baseDir = rp_baseDir p, ff_relativeFilePath = basename filePath,
                 ff_global = rp_global p\<rparr>) filePaths = map Inr rules"
  shows "loadRulesAt env p factory pattern = Inr rules"
  using assms by (simp add: loadRulesAt_def promiseAll_map_Inr)

lemma loadToolFiles_no_factory:
  "rp_getFactory p (rp_toolTarget p) = Inl e \<Longrightarrow>
     loadToolFiles env p forDeletion =
       ([(LogError, ''Failed to load tool files: '' @ re_formatError env e)], Inr [])"
  by (simp add: loadToolFiles_def loadToolFilesTry_def)

lemma loadToolFiles_no_paths:
  "rp_getFactory p (rp_toolTarget p) = Inr factory \<Longrightarrow>
   ruleGetSettablePaths (re_statics env (ruleClass factory)) (rp_global p) = Inl e \<Longrightarrow>
     loadToolFiles env p forDeletion =
       ([(LogError, ''Failed to load tool files: '' @ re_formatError env e)], Inr [])"
  by (simp add: loadToolFiles_def loadToolFilesTry_def)

lemma loadToolFiles_root_fails:
  "rp_getFactory p (rp_toolTarget p) = Inr factory \<Longrightarrow>
   ruleGetSettablePaths (re_statics env (ruleClass factory)) (rp_global p) = Inr settablePaths \<Longrightarrow>
   st_root settablePaths = Some root \<Longrightarrow>
   loadRulesAt env p factory
     (pathJoin [rp_baseDir p, nullishOr (sr_relativeDirPath root) ''.'', sr_relativeFilePath root])
     = Inl e \<Longrightarrow>
     loadToolFiles env p forDeletion =
       ([(LogError, ''Failed to load tool files: '' @ re_formatError env e)], Inr [])"
  by (simp add: loadToolFiles_def loadToolFilesTry_def)

lemma root_stage_loaded:
  assumes "(st_root settablePaths = None \<and> rootToolRules = [])
         \<or> (\<exists>root filePaths. st_root settablePaths = Some root
             \<and> re_findFilesByGlobs env
                 (pathJoin [rp_baseDir p, nullishOr (sr_relativeDirPath root) ''.'',
                            sr_relativeFilePath root]) = Inr filePaths
             \<and> map (\<lambda>filePath. fromFile (re_statics env (ruleClass factory))
                      \<lparr>ff_baseDir = rp_baseDir p, ff_relativeFilePath = basename filePath,
                       ff_global = rp_global p\<rparr>) filePaths = map Inr rootToolRules)"
  shows "(case st_root settablePaths of
            None \<Rightarrow> Inr []
          | Some root \<Rightarrow>
              loadRulesAt env p factory
                (pathJoin [rp_baseDir p, nullishOr (sr_relativeDirPath root) ''.'',
                           sr_relativeFilePath root])) = Inr rootToolRules"
  using assms by (auto simp: loadRulesAt_loaded)

lemma nonRoot_stage_loaded:
  assumes "(st_nonRoot settablePaths = None \<and> nonRootToolRules = [])
         \<or> (\<exists>relativeDirPath filePaths. st_nonRoot settablePaths = Some relativeDirPath
             \<and> re_findFilesByGlobs env
                 (pathJoin [rp_baseDir p, relativeDirPath, ''*.'' @ extension factory]) = Inr filePaths
             \<and> map (\<lambda>filePath. fromFile (re_statics env (ruleClass factory))
                      \<lparr>ff_baseDir = rp_baseDir p, ff_relativeFilePath = basename filePath,
                       ff_global = rp_global p\<rparr>) filePaths = map Inr nonRootToolRules)"
  shows "(case st_nonRoot settablePaths of
            None \<Rightarrow> Inr []
          | Some relativeDirPath \<Rightarrow>
              loadRulesAt env p factory
                (pathJoin [rp_baseDir p, relativeDirPath, ''*.'' @ extension factory]))
         = Inr nonRootToolRules"
  using assms by (auto simp: loadRulesAt_loaded)

lemma loadToolFiles_nonRoot_fails:
  "rp_getFactory p (rp_toolTarget p) = Inr factory \<Longrightarrow>
   ruleGetSettablePaths (re_statics env (ruleClass factory)) (rp_global p) = Inr settablePaths \<Longrightarrow>
   (case st_root settablePaths of
            None \<Rightarrow> Inr []
          | Some root \<Rightarrow>
              loadRulesAt env p factory
                (pathJoin [rp_baseDir p, nullishOr (sr_relativeDirPath root) ''.'',
                           sr_relativeFilePath root])) = Inr rootToolRules \<Longrightarrow>
   st_nonRoot settablePaths = Some relativeDirPath \<Longrightarrow>
   loadRulesAt env p factory (pathJoin [rp_baseDir p, relativeDirPath, ''*.'' @ extension factory])
     = Inl e \<Longrightarrow>
     loadToolFiles env p forDeletion =
       ([(LogDebug, ''Found '' @ stringOfNat (length rootToolRules) @ '' root tool rule files''),
         (LogError, ''Failed to load tool files: '' @ re_formatError env e)], Inr [])"
  by (simp add: loadToolFiles_def loadToolFilesTry_def)

lemma loadToolFiles_loaded:
  "rp_getFactory p (rp_toolTarget p) = Inr factory \<Longrightarrow>
   ruleGetSettablePaths (re_statics env (ruleClass factory)) (rp_global p) = Inr settablePaths \<Longrightarrow>
   (case st_root settablePaths of
            None \<Rightarrow> Inr []
          | Some root \<Rightarrow>
              loadRulesAt env p factory
                (pathJoin [rp_baseDir p, nullishOr (sr_relativeDirPath root) ''.'',
                           sr_relativeFilePath root])) = Inr rootToolRules \<Longrightarrow>
   (case st_nonRoot settablePaths of
            None \<Rightarrow> Inr []
          | Some relativeDirPath \<Rightarrow>
              loadRulesAt env p factory
                (pathJoin [rp_baseDir p, relativeDirPath, ''*.'' @ extension factory]))
         = Inr nonRootToolRules \<Longrightarrow>
     loadToolFiles env p forDeletion =
       ([(LogDebug, ''Found '' @ stringOfNat (length rootToolRules) @ '' root tool rule files''),
         (LogDebug, ''Found '' @ stringOfNat (length nonRootToolRules) @
                    '' non-root tool rule files'')],
        Inr (map ToolRuleFile (rootToolRules @ nonRootToolRules)))"
  by (simp add: loadToolFiles_def loadToolFilesTry_def)

lemma loadToolFiles_returns: "\<exists>files. snd (loadToolFiles env p forDeletion) = Inr files"
  by (cases "loadToolFilesTry env p") (auto simp: loadToolFiles_def split: sum.splits)

text \<open>
  Claim C1, as amended. \<open>loadToolFiles\<close> of the File Processor never throws, and
  returns the same for both values of \<open>forDeletion\<close>. Every failure inside the
  \<open>try\<close> block ends in the same way, with the log entry
  \<open>Failed to load tool files: ...\<close> for the error and the empty array as result:
  a failing factory lookup, failing settable paths, a failing search for the root file and
  a root file that does not parse (nothing else is logged then), and, once the root files
  are loaded, a failing search for the other files and one of them that does not parse
  (the debug note with the number of root files comes first then). When a file does not
  parse, the error logged is the error of a file that was found and does not parse. When
  nothing fails, the two debug notes are logged and the root documents are returned,
  followed by the others. For the Directory Processor, \<open>loadToolDirsToDelete\<close>
  returns exactly what \<open>loadToolDirs\<close> returns.
\<close>

theorem loadToolFiles_catches_every_error:
  "(\<exists>files. snd (loadToolFiles env p forDeletion) = Inr files)
   \<and> loadToolFiles env p True = loadToolFiles env p False
   \<and> (\<forall>e. rp_getFactory p (rp_toolTarget p) = Inl e \<longrightarrow>
         loadToolFiles env p forDeletion =
           ([(LogError, ''Failed to load tool files: '' @ re_formatError env e)], Inr []))
   \<and> (\<forall>factory. rp_getFactory p (rp_toolTarget p) = Inr factory \<longrightarrow>
        (\<forall>e. ruleGetSettablePaths (re_statics env (ruleClass factory)) (rp_global p) = Inl e \<longrightarrow>
           loadToolFiles env p forDeletion =
             ([(LogError, ''Failed to load tool files: '' @ re_formatError env e)], Inr []))
      \<and> (\<forall>settablePaths.
           ruleGetSettablePaths (re_statics env (ruleClass factory)) (rp_global p) = Inr settablePaths \<longrightarrow>
           (\<forall>root e. st_root settablePaths = Some root
                \<and> re_findFilesByGlobs env
                    (pathJoin [rp_baseDir p, nullishOr (sr_relativeDirPath root) ''.'',
                               sr_relativeFilePath root]) = Inl e \<longrightarrow>
              loadToolFiles env p forDeletion =
                ([(LogError, ''Failed to load tool files: '' @ re_formatError env e)], Inr []))
         \<and> (\<forall>root filePaths filePath e0. st_root settablePaths = Some root
                \<and> re_findFilesByGlobs env
                    (pathJoin [rp_baseDir p, nullishOr (sr_relativeDirPath root) ''.'',
                               sr_relativeFilePath root]) = Inr filePaths
                \<and> filePath \<in> set filePaths
                \<and> fromFile (re_statics env (ruleClass factory))
                    \<lparr>ff_baseDir = rp_baseDir p, ff_relativeFilePath = basename filePath,
                     ff_global = rp_global p\<rparr> = Inl e0 \<longrightarrow>
              (\<exists>failing \<in> set filePaths. \<exists>e.
                 fromFile (re_statics env (ruleClass factory))
                   \<lparr>ff_baseDir = rp_baseDir p, ff_relativeFilePath = basename failing,
                    ff_global = rp_global p\<rparr> = Inl e
                 \<and> loadToolFiles env p forDeletion =
                     ([(LogError, ''Failed to load tool files: '' @ re_formatError env e)], Inr [])))
         \<and> (\<forall>rootToolRules.
              ((st_root settablePaths = None \<and> rootToolRules = [])
               \<or> (\<exists>root filePaths. st_root settablePaths = Some root
                   \<and> re_findFilesByGlobs env
                       (pathJoin [rp_baseDir p, nullishOr (sr_relativeDirPath root) ''.'',
                                  sr_relativeFilePath root]) = Inr filePaths
                   \<and> map (\<lambda>filePath. fromFile (re_statics env (ruleClass factory))
                            \<lparr>ff_baseDir = rp_baseDir p, ff_relativeFilePath = basename filePath,
                             ff_global = rp_global p\<rparr>) filePaths = map Inr rootToolRules)) \<longrightarrow>
              (\<forall>relativeDirPath e. st_nonRoot settablePaths = Some relativeDirPath
                   \<and> re_findFilesByGlobs env
                       (pathJoin [rp_baseDir p, relativeDirPath, ''*.'' @ extension factory]) = Inl e \<longrightarrow>
                 loadToolFiles env p forDeletion =
                   ([(LogDebug, ''Found '' @ stringOfNat (length rootToolRules) @
                                '' root tool rule files''),
                     (LogError, ''Failed to load tool files: '' @ re_formatError env e)], Inr []))
            \<and> (\<forall>relativeDirPath filePaths filePath e0. st_nonRoot settablePaths = Some relativeDirPath
                   \<and> re_findFilesByGlobs env
                       (pathJoin [rp_baseDir p, relativeDirPath, ''*.'' @ extension factory])
                       = Inr filePaths
                   \<and> filePath \<in> set filePaths
                   \<and> fromFile (re_statics env (ruleClass factory))
                       \<lparr>ff_baseDir = rp_baseDir p, ff_relativeFilePath = basename filePath,
                        ff_global = rp_global p\<rparr> = Inl e0 \<longrightarrow>
                 (\<exists>failing \<in> set filePaths. \<exists>e.
                    fromFile (re_statics env (ruleClass factory))
                      \<lparr>ff_baseDir = rp_baseDir p, ff_relativeFilePath = basename failing,
                       ff_global = rp_global p\<rparr> = Inl e
                    \<and> loadToolFiles env p forDeletion =
                        ([(LogDebug, ''Found '' @ stringOfNat (length rootToolRules) @
                                     '' root tool rule files''),
                          (LogError, ''Failed to load tool files: '' @ re_formatError env e)],
                         Inr [])))
            \<and> (\<forall>nonRootToolRules.
                 ((st_nonRoot settablePaths = None \<and> nonRootToolRules = [])
                  \<or> (\<exists>relativeDirPath filePaths. st_nonRoot settablePaths = Some relativeDirPath
                      \<and> re_findFilesByGlobs env
                          (pathJoin [rp_baseDir p, relativeDirPath, ''*.'' @ extension factory])
                          = Inr filePaths
                      \<and> map (\<lambda>filePath. fromFile (re_statics env (ruleClass factory))
                               \<lparr>ff_baseDir = rp_baseDir p, ff_relativeFilePath = basename filePath,
                                ff_global = rp_global p\<rparr>) filePaths = map Inr nonRootToolRules)) \<longrightarrow>
                 loadToolFiles env p forDeletion =
                   ([(LogDebug, ''Found '' @ stringOfNat (length rootToolRules) @
                                '' root tool rule files''),
                     (LogDebug, ''Found '' @ stringOfNat (length nonRootToolRules) @
                                '' non-root tool rule files'')],
                    Inr (map ToolRuleFile (rootToolRules @ nonRootToolRules)))))))
   \<and> loadToolDirsToDelete senv sp = loadToolDirs senv sp"
proof (intro conjI allI impI; (elim conjE)?)
  show "\<exists>files. snd (loadToolFiles env p forDeletion) = Inr files"
    by (rule loadToolFiles_returns)
  show "loadToolFiles env p True = loadToolFiles env p False"
    by (simp add: loadToolFiles_def)
  show "loadToolDirsToDelete senv sp = loadToolDirs senv sp"
    by (simp add: loadToolDirsToDelete_def)
next
  fix e assume "rp_getFactory p (rp_toolTarget p) = Inl e"
  then show "loadToolFiles env p forDeletion =
           ([(LogError, ''Failed to load tool files: '' @ re_formatError env e)], Inr [])"
    by (rule loadToolFiles_no_factory)
next
  fix factory e
  assume "rp_getFactory p (rp_toolTarget p) = Inr factory"
    "ruleGetSettablePaths (re_statics env (ruleClass factory)) (rp_global p) = Inl e"
  then show "loadToolFiles env p forDeletion =
           ([(LogError, ''Failed to load tool files: '' @ re_formatError env e)], Inr [])"
    by (rule loadToolFiles_no_paths)
next
  fix factory settablePaths root e
  assume f: "rp_getFactory p (rp_toolTarget p) = Inr factory"
    and s: "ruleGetSettablePaths (re_statics env (ruleClass factory)) (rp_global p) = Inr settablePaths"
    and r: "st_root settablePaths = Some root"
    and g: "re_findFilesByGlobs env
                    (pathJoin [rp_baseDir p, nullishOr (sr_relativeDirPath root) ''.'',
                               sr_relativeFilePath root]) = Inl e"
  show "loadToolFiles env p forDeletion =
           ([(LogError, ''Failed to load tool files: '' @ re_formatError env e)], Inr [])"
    by (rule loadToolFiles_root_fails [OF f s r loadRulesAt_glob_fails [OF g]])
next
  fix factory settablePaths root filePaths filePath e0
  assume f: "rp_getFactory p (rp_toolTarget p) = Inr factory"
    and s: "ruleGetSettablePaths (re_statics env (ruleClass factory)) (rp_global p) = Inr settablePaths"
    and r: "st_root settablePaths = Some root"
    and g: "re_findFilesByGlobs env
                    (pathJoin [rp_baseDir p, nullishOr (sr_relativeDirPath root) ''.'',
                               sr_relativeFilePath root]) = Inr filePaths"
    and m: "filePath \<in> set filePaths"
    and c: "fromFile (re_statics env (ruleClass factory))
                    \<lparr>ff_baseDir = rp_baseDir p, ff_relativeFilePath = basename filePath,
                     ff_global = rp_global p\<rparr> = Inl e0"
  from loadRulesAt_parse_fails [OF g m c] obtain failing e where
    fe: "failing \<in> set filePaths"
      "fromFile (re_statics env (ruleClass factory))
             \<lparr>ff_baseDir = rp_baseDir p, ff_relativeFilePath = basename failing,
              ff_global = rp_global p\<rparr> = Inl e"
      "loadRulesAt env p factory
         (pathJoin [rp_baseDir p, nullishOr (sr_relativeDirPath root) ''.'',
                    sr_relativeFilePath root]) = Inl e"
    by blast
  from loadToolFiles_root_fails [OF f s r fe(3)] fe(1,2)
  show "\<exists>failing \<in> set filePaths. \<exists>e.
                 fromFile (re_statics env (ruleClass factory))
                   \<lparr>ff_baseDir = rp_baseDir p, ff_relativeFilePath = basename failing,
                    ff_global = rp_global p\<rparr> = Inl e
                 \<and> loadToolFiles env p forDeletion =
                     ([(LogError, ''Failed to load tool files: '' @ re_formatError env e)], Inr [])"
    by blast
next
  fix factory settablePaths rootToolRules relativeDirPath e
  assume f: "rp_getFactory p (rp_toolTarget p) = Inr factory"
    and s: "ruleGetSettablePaths (re_statics env (ruleClass factory)) (rp_global p) = Inr settablePaths"
    and r: "(st_root settablePaths = None \<and> rootToolRules = [])
               \<or> (\<exists>root filePaths. st_root settablePaths = Some root
                   \<and> re_findFilesByGlobs env
                       (pathJoin [rp_baseDir p, nullishOr (sr_relativeDirPath root) ''.'',
                                  sr_relativeFilePath root]) = Inr filePaths
                   \<and> map (\<lambda>filePath. fromFile (re_statics env (ruleClass factory))
                            \<lparr>ff_baseDir = rp_baseDir p, ff_relativeFilePath = basename filePath,
                             ff_global = rp_global p\<rparr>) filePaths = map Inr rootToolRules)"
    and n: "st_nonRoot settablePaths = Some relativeDirPath"
    and g: "re_findFilesByGlobs env
                       (pathJoin [rp_baseDir p, relativeDirPath, ''*.'' @ extension factory]) = Inl e"
  show "loadToolFiles env p forDeletion =
                   ([(LogDebug, ''Found '' @ stringOfNat (length rootToolRules) @
                                '' root tool rule files''),
                     (LogError, ''Failed to load tool files: '' @ re_formatError env e)], Inr [])"
    by (rule loadToolFiles_nonRoot_fails [OF f s root_stage_loaded [OF r] n
          loadRulesAt_glob_fails [OF g]])
next
  fix factory settablePaths rootToolRules relativeDirPath filePaths filePath e0
  assume f: "rp_getFactory p (rp_toolTarget p) = Inr factory"
    and s: "ruleGetSettablePaths (re_statics env (ruleClass factory)) (rp_global p) = Inr settablePaths"
    and r: "(st_root settablePaths = None \<and> rootToolRules = [])
               \<or> (\<exists>root filePaths. st_root settablePaths = Some root
                   \<and> re_findFilesByGlobs env
                       (pathJoin [rp_baseDir p, nullishOr (sr_relativeDirPath root) ''.'',
                                  sr_relativeFilePath root]) = Inr filePaths
                   \<and> map (\<lambda>filePath. fromFile (re_statics env (ruleClass factory))
                            \<lparr>ff_baseDir = rp_baseDir p, ff_relativeFilePath = basename filePath,
                             ff_global = rp_global p\<rparr>) filePaths = map Inr rootToolRules)"
    and n: "st_nonRoot settablePaths = Some relativeDirPath"
    and g: "re_findFilesByGlobs env
                       (pathJoin [rp_baseDir p, relativeDirPath, ''*.'' @ extension factory])
                       = Inr filePaths"
    and m: "filePath \<in> set filePaths"
    and c: "fromFile (re_statics env (ruleClass factory))
                    \<lparr>ff_baseDir = rp_baseDir p, ff_relativeFilePath = basename filePath,
                     ff_global = rp_global p\<rparr> = Inl e0"
  from loadRulesAt_parse_fails [OF g m c] obtain failing e where
    fe: "failing \<in> set filePaths"
      "fromFile (re_statics env (ruleClass factory))
             \<lparr>ff_baseDir = rp_baseDir p, ff_relativeFilePath = basename failing,
              ff_global = rp_global p\<rparr> = Inl e"
      "loadRulesAt env p factory
         (pathJoin [rp_baseDir p, relativeDirPath, ''*.'' @ extension factory]) = Inl e"
    by blast
  from loadToolFiles_nonRoot_fails [OF f s root_stage_loaded [OF r] n fe(3)] fe(1,2)
  show "\<exists>failing \<in> set filePaths. \<exists>e.
                    fromFile (re_statics env (ruleClass factory))
                      \<lparr>ff_baseDir = rp_baseDir p, ff_relativeFilePath = basename failing,
                       ff_global = rp_global p\<rparr> = Inl e
                    \<and> loadToolFiles env p forDeletion =
                        ([(LogDebug, ''Found '' @ stringOfNat (length rootToolRules) @
                                     '' root tool rule files''),
                          (LogError, ''Failed to load tool files: '' @ re_formatError env e)],
                         Inr [])"
    by blast
next
  fix factory settablePaths rootToolRules nonRootToolRules
  assume f: "rp_getFactory p (rp_toolTarget p) = Inr factory"
    and s: "ruleGetSettablePaths (re_statics env (ruleClass factory)) (rp_global p) = Inr settablePaths"
    and r: "(st_root settablePaths = None \<and> rootToolRules = [])
               \<or> (\<exists>root filePaths. st_root settablePaths = Some root
                   \<and> re_findFilesByGlobs env
                       (pathJoin [rp_baseDir p, nullishOr (sr_relativeDirPath root) ''.'',
                                  sr_relativeFilePath root]) = Inr filePaths
                   \<and> map (\<lambda>filePath. fromFile (re_statics env (ruleClass factory))
                            \<lparr>ff_baseDir = rp_baseDir p, ff_relativeFilePath = basename filePath,
                             ff_global = rp_global p\<rparr>) filePaths = map Inr rootToolRules)"
    and n: "(st_nonRoot settablePaths = None \<and> nonRootToolRules = [])
                  \<or> (\<exists>relativeDirPath filePaths. st_nonRoot settablePaths = Some relativeDirPath
                      \<and> re_findFilesByGlobs env
                          (pathJoin [rp_baseDir p, relativeDirPath, ''*.'' @ extension factory])
                          = Inr filePaths
                      \<and> map (\<lambda>filePath. fromFile (re_statics env (ruleClass factory))
                               \<lparr>ff_baseDir = rp_baseDir p, ff_relativeFilePath = basename filePath,
                                ff_global = rp_global p\<rparr>) filePaths = map Inr nonRootToolRules)"
  show "loadToolFiles env p forDeletion =
                   ([(LogDebug, ''Found '' @ stringOfNat (length rootToolRules) @
                                '' root tool rule files''),
                     (LogDebug, ''Found '' @ stringOfNat (length nonRootToolRules) @
                                '' non-root tool rule files'')],
                    Inr (map ToolRuleFile (rootToolRules @ nonRootToolRules)))"
    by (rule loadToolFiles_loaded [OF f s root_stage_loaded [OF r] nonRoot_stage_loaded [OF n]])
qed

lemma sample_paths [simp]:
  "ruleGetSettablePaths (sampleRuleAdapter tool ts c) g =
     Inr \<lparr>st_root = Some \<lparr>sr_relativeDirPath = None, sr_relativeFilePath = ''ROOT.md''\<rparr>,
          st_nonRoot = Some ''rules''\<rparr>"
  by (simp add: sampleRuleAdapter_def)

lemma sample_fromFile [simp]:
  "fromFile (sampleRuleAdapter tool ts c) params =
     (case map_of ts (ff_relativeFilePath params) of
          None \<Rightarrow> Inl (Error ''File not found'')
        | Some (Inl e) \<Rightarrow> Inl e
        | Some (Inr content) \<Rightarrow> Inr (sampleFromFile c params content))"
  by (simp add: sampleRuleAdapter_def)

lemma sample_env_fields [simp]:
  "re_findFilesByGlobs (sampleRulesEnv tool cs gt ts) =
     (\<lambda>pattern. Inr (case map_of gt pattern of None \<Rightarrow> [] | Some fs \<Rightarrow> fs))"
  "re_formatError (sampleRulesEnv tool cs gt ts) = errorMessage"
  by (simp_all add: sampleRulesEnv_def)

lemma sample_basenames:
  "basename ''/work/ROOT.md'' = ''ROOT.md''"
  "basename ''/work/rules/style.md'' = ''style.md''"
  "basename ''/work/rules/broken.md'' = ''broken.md''"
  by (simp_all add: basename_def)

lemma sample_root_pattern:
  "pathJoin [''/work'', ''.'', ''ROOT.md''] = ''/work/ROOT.md''"
  "pathJoin [''/work'', ''rules'', ''*.md''] = ''/work/rules/*.md''"
  by (simp_all add: pathJoin_def)

lemma sample_glob_lookup:
  "map_of sampleGlobTable ''/work/ROOT.md'' = Some [''/work/ROOT.md'']"
  "map_of sampleGlobTable ''/work/rules/*.md'' = Some [''/work/rules/style.md'', ''/work/rules/broken.md'']"
  by (simp_all add: sampleGlobTable_def)

lemma sample_tool_lookup:
  "map_of sampleToolStore ''ROOT.md'' = Some (Inr ''Intro'')"
  "map_of sampleToolStore ''style.md'' = Some (Inr ''Use two spaces.'')"
  "map_of sampleToolStore ''broken.md'' = Some (Inl (Error ''Invalid frontmatter''))"
  by (simp_all add: sampleToolStore_def)

lemma sample_root_stage:
  "\<exists>rule. loadRulesAt (sampleRulesEnv ''claudecode'' [] sampleGlobTable sampleToolStore)
     (sampleRulesProcessor ''claudecode'' False False False False)
     \<lparr>ruleClass = ClaudecodeRule, extension = ''md''\<rparr> ''/work/ROOT.md'' = Inr [rule]"
  by (simp add: loadRulesAt_def sample_glob_lookup sample_basenames sample_tool_lookup)

lemma sample_nonroot_stage:
  "loadRulesAt (sampleRulesEnv ''claudecode'' [] sampleGlobTable sampleToolStore)
     (sampleRulesProcessor ''claudecode'' False False False False)
     \<lparr>ruleClass = ClaudecodeRule, extension = ''md''\<rparr> ''/work/rules/*.md''
   = Inl (Error ''Invalid frontmatter'')"
  by (simp add: loadRulesAt_def sample_glob_lookup sample_basenames sample_tool_lookup)

lemma sample_loadToolFilesTry:
  "loadToolFilesTry (sampleRulesEnv ''claudecode'' [] sampleGlobTable sampleToolStore)
     (sampleRulesProcessor ''claudecode'' False False False False)
   = ([(LogDebug, ''Found 1 root tool rule files'')], Inl (Error ''Invalid frontmatter''))"
proof -
  from sample_root_stage obtain rule where
    "loadRulesAt (sampleRulesEnv ''claudecode'' [] sampleGlobTable sampleToolStore)
     (sampleRulesProcessor ''claudecode'' False False False False)
     \<lparr>ruleClass = ClaudecodeRule, extension = ''md''\<rparr> ''/work/ROOT.md'' = Inr [rule]" by blast
  then show ?thesis
    by (simp add: loadToolFilesTry_def rulesDefaultGetFactory_claudecode sample_root_pattern
          sample_nonroot_stage stringOfNat_Suc0)
qed

text \<open>
  Claim C1 as stated fails: in a directory with a root rule, a valid rule and a rule whose
  frontmatter does not parse, the load for conversion (\<open>forDeletion = false\<close>) does
  not propagate the parse error of \<open>broken.md\<close>; it logs it and returns the empty
  array.
\<close>

theorem loadToolFiles_swallows_parse_error_counterexample:
  "fromFile (re_statics (sampleRulesEnv ''claudecode'' [] sampleGlobTable sampleToolStore) ClaudecodeRule)
      \<lparr>ff_baseDir = ''/work'', ff_relativeFilePath = ''broken.md'', ff_global = False\<rparr>
     = Inl (Error ''Invalid frontmatter'')
   \<and> loadToolFiles (sampleRulesEnv ''claudecode'' [] sampleGlobTable sampleToolStore)
        (sampleRulesProcessor ''claudecode'' False False False False) False
     = ([(LogDebug, ''Found 1 root tool rule files''),
         (LogError, ''Failed to load tool files: Invalid frontmatter'')],
        Inr [])"
  by (simp add: loadToolFiles_def sample_loadToolFilesTry sample_tool_lookup)


text \<open>
  One directory for each case: an unknown tool target, an adapter without paths, a search
  that fails at once, a root file that does not parse, a search that fails after the root
  file, a rule whose frontmatter does not parse, and a directory in which every file
  parses. The load for deletion and the load for conversion return the same.
\<close>

theorem loadToolFiles_catches_every_error_witness:
  "loadToolFiles (sampleRulesEnv ''claudecode'' [] sampleGlobTable sampleToolStore)
      (sampleRulesProcessor ''nosuchtool'' False False False False) True
     = ([(LogError, ''Failed to load tool files: Unsupported tool target: nosuchtool'')], Inr [])
   \<and> loadToolFiles
        ((sampleRulesEnv ''claudecode'' [] sampleGlobTable sampleToolStore)
           \<lparr>re_statics := \<lambda>c. (sampleRuleAdapter ''claudecode'' sampleToolStore c)
                                 \<lparr>ruleGetSettablePaths := \<lambda>global. Inl (Error ''No paths'')\<rparr>\<rparr>)
        (sampleRulesProcessor ''claudecode'' False False False False) True
     = ([(LogError, ''Failed to load tool files: No paths'')], Inr [])
   \<and> loadToolFiles
        ((sampleRulesEnv ''claudecode'' [] sampleGlobTable sampleToolStore)
           \<lparr>re_findFilesByGlobs := \<lambda>pattern. Inl (Error ''EACCES'')\<rparr>)
        (sampleRulesProcessor ''claudecode'' False False False False) True
     = ([(LogError, ''Failed to load tool files: EACCES'')], Inr [])
   \<and> loadToolFiles
        (sampleRulesEnv ''claudecode'' [] sampleGlobTable [(''ROOT.md'', Inl (Error ''Bad root''))])
        (sampleRulesProcessor ''claudecode'' False False False False) True
     = ([(LogError, ''Failed to load tool files: Bad root'')], Inr [])
   \<and> loadToolFiles
        ((sampleRulesEnv ''claudecode'' [] sampleGlobTable sampleToolStore)
           \<lparr>re_findFilesByGlobs := \<lambda>pattern. if pattern = ''/work/ROOT.md''
                                               then Inr [''/work/ROOT.md''] else Inl (Error ''EACCES'')\<rparr>)
        (sampleRulesProcessor ''claudecode'' False False False False) True
     = ([(LogDebug, ''Found 1 root tool rule files''),
         (LogError, ''Failed to load tool files: EACCES'')], Inr [])
   \<and> loadToolFiles (sampleRulesEnv ''claudecode'' [] sampleGlobTable sampleToolStore)
        (sampleRulesProcessor ''claudecode'' False False False False) True
     = ([(LogDebug, ''Found 1 root tool rule files''),
         (LogError, ''Failed to load tool files: Invalid frontmatter'')], Inr [])
   \<and> loadToolFiles
        (sampleRulesEnv ''claudecode'' []
           [(''/work/ROOT.md'', [''/work/ROOT.md'']), (''/work/rules/*.md'', [''/work/rules/style.md''])]
           sampleToolStore)
        (sampleRulesProcessor ''claudecode'' False False False False) True
     = ([(LogDebug, ''Found 1 root tool rule files''),
         (LogDebug, ''Found 1 non-root tool rule files'')],
        Inr [ToolRuleFile (sampleFromFile ClaudecodeRule
                \<lparr>ff_baseDir = ''/work'', ff_relativeFilePath = ''ROOT.md'', ff_global = False\<rparr>
                ''Intro''),
             ToolRuleFile (sampleFromFile ClaudecodeRule
                \<lparr>ff_baseDir = ''/work'', ff_relativeFilePath = ''style.md'', ff_global = False\<rparr>
                ''Use two spaces.'')])
   \<and> loadToolFiles (sampleRulesEnv ''claudecode'' [] sampleGlobTable sampleToolStore)
        (sampleRulesProcessor ''claudecode'' False False False False) True
     = loadToolFiles (sampleRulesEnv ''claudecode'' [] sampleGlobTable sampleToolStore)
        (sampleRulesProcessor ''claudecode'' False False False False) False"
proof -
  let ?E = "sampleRulesEnv ''claudecode'' [] sampleGlobTable sampleToolStore"
  let ?P = "sampleRulesProcessor ''claudecode'' False False False False"
  let ?f = "\<lparr>ruleClass = ClaudecodeRule, extension = ''md''\<rparr>"
  let ?root = "\<lparr>sr_relativeDirPath = None, sr_relativeFilePath = ''ROOT.md''\<rparr>"
  let ?paths = "\<lparr>st_root = Some ?root, st_nonRoot = Some ''rules''\<rparr>"
  let ?rootDoc = "sampleFromFile ClaudecodeRule
                \<lparr>ff_baseDir = ''/work'', ff_relativeFilePath = ''ROOT.md'', ff_global = False\<rparr>
                ''Intro''"
  let ?styleDoc = "sampleFromFile ClaudecodeRule
                \<lparr>ff_baseDir = ''/work'', ff_relativeFilePath = ''style.md'', ff_global = False\<rparr>
                ''Use two spaces.''"
  note every = loadToolFiles_catches_every_error
  note noFactory = every [THEN conjunct2, THEN conjunct2, THEN conjunct1, rule_format]
  note withFactory = every [THEN conjunct2, THEN conjunct2, THEN conjunct2, THEN conjunct1, rule_format]
  note noPaths = withFactory [THEN conjunct1, rule_format]
  note withPaths = withFactory [THEN conjunct2, rule_format]
  note rootGlobFails = withPaths [THEN conjunct1, rule_format]
  note rootParseFails = withPaths [THEN conjunct2, THEN conjunct1, rule_format]
  note withRoot = withPaths [THEN conjunct2, THEN conjunct2, rule_format]
  note nonRootGlobFails = withRoot [THEN conjunct1, rule_format]
  note nonRootParseFails = withRoot [THEN conjunct2, THEN conjunct1, rule_format]
  note loaded = withRoot [THEN conjunct2, THEN conjunct2, rule_format]
  have f: "rp_getFactory ?P (rp_toolTarget ?P) = Inr ?f"
    by (simp add: rulesDefaultGetFactory_claudecode)
  have fmt: "re_formatError (env\<lparr>re_statics := s\<rparr>) = re_formatError env"
    "re_formatError (env\<lparr>re_findFilesByGlobs := g\<rparr>) = re_formatError env" for env s g
    by simp_all

  txt \<open>The factory lookup fails.\<close>
  let ?Pbad = "sampleRulesProcessor ''nosuchtool'' False False False False"
  have "loadToolFiles ?E ?Pbad True =
          ([(LogError, ''Failed to load tool files: '' @
               re_formatError ?E (Error ''Unsupported tool target: nosuchtool''))], Inr [])"
    by (rule noFactory) (simp add: rulesDefaultGetFactory_def mapGet_def toolRuleFactories_def)
  then have A: "loadToolFiles ?E ?Pbad True =
          ([(LogError, ''Failed to load tool files: Unsupported tool target: nosuchtool'')], Inr [])"
    by simp

  txt \<open>The adapter has no paths.\<close>
  let ?E2 = "?E\<lparr>re_statics := \<lambda>c. (sampleRuleAdapter ''claudecode'' sampleToolStore c)
                                 \<lparr>ruleGetSettablePaths := \<lambda>global. Inl (Error ''No paths'')\<rparr>\<rparr>"
  have "loadToolFiles ?E2 ?P True =
          ([(LogError, ''Failed to load tool files: '' @ re_formatError ?E2 (Error ''No paths''))], Inr [])"
    by (rule noPaths [OF f]) simp
  then have B: "loadToolFiles ?E2 ?P True =
          ([(LogError, ''Failed to load tool files: No paths'')], Inr [])"
    by (simp only: fmt sample_env_fields errorMessage.simps) simp


  txt \<open>The search for the root file fails.\<close>
  let ?E3 = "?E\<lparr>re_findFilesByGlobs := \<lambda>pattern. Inl (Error ''EACCES'')\<rparr>"
  have paths3: "ruleGetSettablePaths (re_statics ?E3 (ruleClass ?f)) (rp_global ?P) = Inr ?paths"
    by simp
  have "loadToolFiles ?E3 ?P True =
          ([(LogError, ''Failed to load tool files: '' @ re_formatError ?E3 (Error ''EACCES''))], Inr [])"
    by (rule rootGlobFails [OF f paths3, of ?root]) simp
  then have C: "loadToolFiles ?E3 ?P True =
          ([(LogError, ''Failed to load tool files: EACCES'')], Inr [])"
    by (simp only: fmt sample_env_fields errorMessage.simps) simp

  txt \<open>The root file does not parse.\<close>
  let ?E4 = "sampleRulesEnv ''claudecode'' [] sampleGlobTable [(''ROOT.md'', Inl (Error ''Bad root''))]"
  let ?parse4 = "\<lambda>filePath. fromFile (re_statics ?E4 (ruleClass ?f))
                    \<lparr>ff_baseDir = rp_baseDir ?P, ff_relativeFilePath = basename filePath,
                     ff_global = rp_global ?P\<rparr>"
  have paths4: "ruleGetSettablePaths (re_statics ?E4 (ruleClass ?f)) (rp_global ?P) = Inr ?paths"
    by simp
  have "st_root ?paths = Some ?root
      \<and> re_findFilesByGlobs ?E4
            (pathJoin [rp_baseDir ?P, nullishOr (sr_relativeDirPath ?root) ''.'',
                       sr_relativeFilePath ?root]) = Inr [''/work/ROOT.md'']
      \<and> ''/work/ROOT.md'' \<in> set [''/work/ROOT.md'']
      \<and> ?parse4 ''/work/ROOT.md'' = Inl (Error ''Bad root'')"
    by (simp add: sample_root_pattern sample_glob_lookup sample_basenames)
  from rootParseFails [OF f paths4 this, of True]
  have "\<exists>failing \<in> set [''/work/ROOT.md'']. \<exists>e. ?parse4 failing = Inl e
          \<and> loadToolFiles ?E4 ?P True =
              ([(LogError, ''Failed to load tool files: '' @ re_formatError ?E4 e)], Inr [])" .
  then have D: "loadToolFiles ?E4 ?P True =
          ([(LogError, ''Failed to load tool files: Bad root'')], Inr [])"
    by (auto simp: sample_basenames)

  txt \<open>The root file loads.\<close>
  have rootLoaded: "(st_root ?paths = None \<and> [?rootDoc] = [])
      \<or> (\<exists>root filePaths. st_root ?paths = Some root
           \<and> re_findFilesByGlobs env
               (pathJoin [rp_baseDir ?P, nullishOr (sr_relativeDirPath root) ''.'',
                          sr_relativeFilePath root]) = Inr filePaths
           \<and> map (\<lambda>filePath. fromFile (re_statics env (ruleClass ?f))
                    \<lparr>ff_baseDir = rp_baseDir ?P, ff_relativeFilePath = basename filePath,
                     ff_global = rp_global ?P\<rparr>) filePaths = map Inr [?rootDoc])"
    if "re_findFilesByGlobs env ''/work/ROOT.md'' = Inr [''/work/ROOT.md'']"
      and "re_statics env = sampleRuleAdapter ''claudecode'' sampleToolStore" for env
    using that by (simp add: sample_root_pattern sample_basenames sample_tool_lookup)

  txt \<open>The search for the other files fails.\<close>
  let ?E5 = "?E\<lparr>re_findFilesByGlobs := \<lambda>pattern. if pattern = ''/work/ROOT.md''
                                               then Inr [''/work/ROOT.md''] else Inl (Error ''EACCES'')\<rparr>"
  have paths5: "ruleGetSettablePaths (re_statics ?E5 (ruleClass ?f)) (rp_global ?P) = Inr ?paths"
    by simp
  have root5: "re_findFilesByGlobs ?E5 ''/work/ROOT.md'' = Inr [''/work/ROOT.md'']"
    "re_statics ?E5 = sampleRuleAdapter ''claudecode'' sampleToolStore"
    by simp_all
  have "st_nonRoot ?paths = Some ''rules''
      \<and> re_findFilesByGlobs ?E5
            (pathJoin [rp_baseDir ?P, ''rules'', ''*.'' @ extension ?f]) = Inl (Error ''EACCES'')"
    by (simp add: sample_root_pattern)
  from nonRootGlobFails [OF f paths5 rootLoaded [OF root5] this, of True]
  have "loadToolFiles ?E5 ?P True =
          ([(LogDebug, ''Found '' @ stringOfNat (length [?rootDoc]) @ '' root tool rule files''),
            (LogError, ''Failed to load tool files: '' @ re_formatError ?E5 (Error ''EACCES''))], Inr [])" .
  then have E: "loadToolFiles ?E5 ?P True =
          ([(LogDebug, ''Found 1 root tool rule files''),
            (LogError, ''Failed to load tool files: EACCES'')], Inr [])"
    by (simp only: fmt sample_env_fields errorMessage.simps) (simp add: stringOfNat_Suc0)

  txt \<open>One of the other files does not parse.\<close>
  let ?parse = "\<lambda>filePath. fromFile (re_statics ?E (ruleClass ?f))
                    \<lparr>ff_baseDir = rp_baseDir ?P, ff_relativeFilePath = basename filePath,
                     ff_global = rp_global ?P\<rparr>"
  have paths6: "ruleGetSettablePaths (re_statics ?E (ruleClass ?f)) (rp_global ?P) = Inr ?paths"
    by simp
  have root6: "re_findFilesByGlobs ?E ''/work/ROOT.md'' = Inr [''/work/ROOT.md'']"
    "re_statics ?E = sampleRuleAdapter ''claudecode'' sampleToolStore"
    by (simp_all add: sample_glob_lookup)
  have "st_nonRoot ?paths = Some ''rules''
      \<and> re_findFilesByGlobs ?E
            (pathJoin [rp_baseDir ?P, ''rules'', ''*.'' @ extension ?f])
          = Inr [''/work/rules/style.md'', ''/work/rules/broken.md'']
      \<and> ''/work/rules/broken.md'' \<in> set [''/work/rules/style.md'', ''/work/rules/broken.md'']
      \<and> ?parse ''/work/rules/broken.md'' = Inl (Error ''Invalid frontmatter'')"
    by (simp add: sample_root_pattern sample_glob_lookup sample_basenames sample_tool_lookup)
  from nonRootParseFails [OF f paths6 rootLoaded [OF root6] this, of True]
  have "\<exists>failing \<in> set [''/work/rules/style.md'', ''/work/rules/broken.md'']. \<exists>e.
          ?parse failing = Inl e
          \<and> loadToolFiles ?E ?P True =
              ([(LogDebug, ''Found '' @ stringOfNat (length [?rootDoc]) @ '' root tool rule files''),
                (LogError, ''Failed to load tool files: '' @ re_formatError ?E e)], Inr [])" .
  then have F: "loadToolFiles ?E ?P True =
          ([(LogDebug, ''Found 1 root tool rule files''),
            (LogError, ''Failed to load tool files: Invalid frontmatter'')], Inr [])"
    by (auto simp: sample_basenames sample_tool_lookup stringOfNat_Suc0)

  txt \<open>Every file parses.\<close>
  let ?E7 = "sampleRulesEnv ''claudecode'' []
           [(''/work/ROOT.md'', [''/work/ROOT.md'']), (''/work/rules/*.md'', [''/work/rules/style.md''])]
           sampleToolStore"
  have paths7: "ruleGetSettablePaths (re_statics ?E7 (ruleClass ?f)) (rp_global ?P) = Inr ?paths"
    by simp
  have root7: "re_findFilesByGlobs ?E7 ''/work/ROOT.md'' = Inr [''/work/ROOT.md'']"
    "re_statics ?E7 = sampleRuleAdapter ''claudecode'' sampleToolStore"
    by simp_all
  have "(st_nonRoot ?paths = None \<and> [?styleDoc] = [])
      \<or> (\<exists>relativeDirPath filePaths. st_nonRoot ?paths = Some relativeDirPath
           \<and> re_findFilesByGlobs ?E7
               (pathJoin [rp_baseDir ?P, relativeDirPath, ''*.'' @ extension ?f]) = Inr filePaths
           \<and> map (\<lambda>filePath. fromFile (re_statics ?E7 (ruleClass ?f))
                    \<lparr>ff_baseDir = rp_baseDir ?P, ff_relativeFilePath = basename filePath,
                     ff_global = rp_global ?P\<rparr>) filePaths = map Inr [?styleDoc])"
    by (simp add: sample_root_pattern sample_basenames sample_tool_lookup)
  from loaded [OF f paths7 rootLoaded [OF root7] this, of True]
  have "loadToolFiles ?E7 ?P True =
          ([(LogDebug, ''Found '' @ stringOfNat (length [?rootDoc]) @ '' root tool rule files''),
            (LogDebug, ''Found '' @ stringOfNat (length [?styleDoc]) @ '' non-root tool rule files'')],
           Inr (map ToolRuleFile ([?rootDoc] @ [?styleDoc])))" .
  then have G: "loadToolFiles ?E7 ?P True =
          ([(LogDebug, ''Found 1 root tool rule files''),
            (LogDebug, ''Found 1 non-root tool rule files'')],
           Inr [ToolRuleFile ?rootDoc, ToolRuleFile ?styleDoc])"
    by (simp add: stringOfNat_Suc0)

  have H: "loadToolFiles ?E ?P True = loadToolFiles ?E ?P False"
    by (rule every [THEN conjunct2, THEN conjunct1])

  from A B C D E F G H show ?thesis by blast
qed


end
